theory Spec2Isabelle
  imports Main "HOL-Library.Word"
begin

unbundle bit_operations_syntax

section \<open>Shared data: bytes, machine integers, errors, dynamic values\<close>

type_synonym byte = "8 word"
type_synonym int64 = "64 word"

text \<open>
  The error values of the source files. An error produced by an external library (the
  database driver, the redis client, gob, \<open>time.Parse\<close>, \<open>rand.Read\<close>) is opaque:
  \<open>ExternalError n\<close>. A run-time panic is an error value as well.
\<close>

datatype error =
    UnknownProvider string
  | ParseTimeUnknownLayout
  | ProviderNotInitialized
  | SessionKeyLengthExceeded
  | EKeyNotFound
  | EValMustBePtr
  | ValueTypeMismatch
  | InitProviderMissingParameters
  | InitProviderParameterNotString nat
  | ErrNoRows
  | ExternalError nat
  | IndexOutOfRange
  | NilPointerDereference

text \<open>
  A value of type \<open>interface{}\<close>, with its dynamic type: \<open>nil\<close>, \<open>bool\<close>, \<open>string\<close>, a
  non-nil \<open>[]byte\<close>, \<open>int\<close> (64 bits wide), \<open>int32\<close>, \<open>int64\<close>, \<open>float32\<close> and
  \<open>float64\<close> (both as their IEEE 754 bit patterns). These are the dynamic types the
  typed getters inspect; other dynamic types are outside the model.
\<close>

datatype gval =
    GNil
  | GBool bool
  | GString string
  | GBytes "byte list"
  | GInt int64
  | GInt32 "32 word"
  | GInt64 int64
  | GFloat32 "32 word"
  | GFloat64 int64

datatype gtype =
  TBool | TString | TBytes | TInt | TInt32 | TInt64 | TFloat32 | TFloat64 | TInterface

text \<open>\<open>reflect.TypeOf\<close>: the dynamic type, \<open>None\<close> for the nil interface.\<close>

fun TypeOf :: "gval \<Rightarrow> gtype option" where
  "TypeOf GNil = None"
| "TypeOf (GBool _) = Some TBool"
| "TypeOf (GString _) = Some TString"
| "TypeOf (GBytes _) = Some TBytes"
| "TypeOf (GInt _) = Some TInt"
| "TypeOf (GInt32 _) = Some TInt32"
| "TypeOf (GInt64 _) = Some TInt64"
| "TypeOf (GFloat32 _) = Some TFloat32"
| "TypeOf (GFloat64 _) = Some TFloat64"

text \<open>Go's \<open>==\<close> on floats: a NaN equals nothing, the two zeros are equal.\<close>

definition isNaN32 :: "32 word \<Rightarrow> bool" where
  "isNaN32 w = (w AND 0x7F800000 = 0x7F800000 \<and> w AND 0x007FFFFF \<noteq> 0)"

definition isNaN64 :: "int64 \<Rightarrow> bool" where
  "isNaN64 w = (w AND 0x7FF0000000000000 = 0x7FF0000000000000 \<and> w AND 0x000FFFFFFFFFFFFF \<noteq> 0)"

definition float32_eq :: "32 word \<Rightarrow> 32 word \<Rightarrow> bool" where
  "float32_eq a b =
     (\<not> isNaN32 a \<and> \<not> isNaN32 b \<and> (a = b \<or> (a AND 0x7FFFFFFF = 0 \<and> b AND 0x7FFFFFFF = 0)))"

definition float64_eq :: "int64 \<Rightarrow> int64 \<Rightarrow> bool" where
  "float64_eq a b =
     (\<not> isNaN64 a \<and> \<not> isNaN64 b \<and>
      (a = b \<or> (a AND 0x7FFFFFFFFFFFFFFF = 0 \<and> b AND 0x7FFFFFFFFFFFFFFF = 0)))"

text \<open>
  \<open>reflect.DeepEqual\<close> on two interface values: both nil, or the same dynamic type and
  equal contents.
\<close>

definition DeepEqual :: "gval \<Rightarrow> gval \<Rightarrow> bool" where
  "DeepEqual x y =
     (case x of
        GNil \<Rightarrow> (case y of GNil \<Rightarrow> True | _ \<Rightarrow> False)
      | GBool a \<Rightarrow> (case y of GBool b \<Rightarrow> a = b | _ \<Rightarrow> False)
      | GString a \<Rightarrow> (case y of GString b \<Rightarrow> a = b | _ \<Rightarrow> False)
      | GBytes a \<Rightarrow> (case y of GBytes b \<Rightarrow> a = b | _ \<Rightarrow> False)
      | GInt a \<Rightarrow> (case y of GInt b \<Rightarrow> a = b | _ \<Rightarrow> False)
      | GInt32 a \<Rightarrow> (case y of GInt32 b \<Rightarrow> a = b | _ \<Rightarrow> False)
      | GInt64 a \<Rightarrow> (case y of GInt64 b \<Rightarrow> a = b | _ \<Rightarrow> False)
      | GFloat32 a \<Rightarrow> (case y of GFloat32 b \<Rightarrow> float32_eq a b | _ \<Rightarrow> False)
      | GFloat64 a \<Rightarrow> (case y of GFloat64 b \<Rightarrow> float64_eq a b | _ \<Rightarrow> False))"

text \<open>
  \<open>time.Time\<close>: the seconds since January 1, year 1, 00:00:00 UTC, the nanoseconds within
  the second, and the offset of the time's zone in seconds east of UTC. The zero value
  \<open>time.Time{}\<close> is \<open>empty_t\<close>.
\<close>

record Time =
  wall_sec :: int
  nsec :: nat
  zone_offset :: int

definition empty_t :: Time where
  "empty_t = \<lparr>wall_sec = 0, nsec = 0, zone_offset = 0\<rparr>"

definition Truncate_Second :: "Time \<Rightarrow> Time" where
  "Truncate_Second t = t\<lparr>nsec := 0\<rparr>"

text \<open>
  The clock reading of a time, as the \<open>time\<close> package computes it: the seconds into the
  day, split into hours, minutes and seconds.
\<close>

definition day_sec :: "Time \<Rightarrow> int" where
  "day_sec t = (wall_sec t + zone_offset t) mod 86400"

definition Hour :: "Time \<Rightarrow> int" where
  "Hour t = day_sec t div 3600"

definition Minute :: "Time \<Rightarrow> int" where
  "Minute t = (day_sec t - Hour t * 3600) div 60"

definition Second :: "Time \<Rightarrow> int" where
  "Second t = day_sec t - Hour t * 3600 - Minute t * 60"

section \<open>session.go: log levels and the log line\<close>

type_synonym LogLevel = int

definition LOG_LEVEL_ERROR :: LogLevel where "LOG_LEVEL_ERROR = 0"
definition LOG_LEVEL_WARN :: LogLevel where "LOG_LEVEL_WARN = 1"
definition LOG_LEVEL_DEBUG :: LogLevel where "LOG_LEVEL_DEBUG = 2"

definition log_levels :: "string list" where
  "log_levels = [''ERROR'', ''WARN'', ''DEBUG'']"

text \<open>\<open>LogLevel.String\<close> indexes \<open>log_levels\<close>; an index out of range panics.\<close>

definition LogLevel_String :: "LogLevel \<Rightarrow> error + string" where
  "LogLevel_String lv =
     (if 0 \<le> lv \<and> lv < int (length log_levels) then Inr (log_levels ! nat lv)
      else Inl IndexOutOfRange)"

text \<open>
  An \<open>io.Writer\<close> is the list of the strings written to it so far; a nil writer is
  \<open>None\<close>. \<open>WriteToLog\<close> takes \<open>stamp\<close>, the text of
  \<open>time.Now().Format(time.RFC3339)\<close> at the call.
\<close>

type_synonym Writer = "string list"

definition WriteToLog :: "string \<Rightarrow> Writer \<Rightarrow> string \<Rightarrow> LogLevel \<Rightarrow> error + Writer" where
  "WriteToLog stamp w s logLevel =
     (case LogLevel_String logLevel of
        Inl e \<Rightarrow> Inl e
      | Inr lv \<Rightarrow>
          Inr (w @ [''SessionManager'' @ [CHR 0x09] @ stamp @ [CHR 0x09] @ lv @ [CHR 0x09] @ s @
                    [CHR 0x0A]]))"

text \<open>\<open>fmt.Sprintf("%d", n)\<close>: the decimal digits, with a minus sign for a negative number.\<close>

fun dec_nat :: "nat \<Rightarrow> string" where
  "dec_nat n =
     (if n < 10 then [''0123456789'' ! n]
      else dec_nat (n div 10) @ [''0123456789'' ! (n mod 10)])"

declare dec_nat.simps [simp del]

definition sprintf_d :: "int \<Rightarrow> string" where
  "sprintf_d i = (if i < 0 then CHR ''-'' # dec_nat (nat (- i)) else dec_nat (nat i))"

section \<open>session.go: identifier generation\<close>

text \<open>
  \<open>fmt.Sprintf("%x", b)\<close> on a byte slice prints every byte as two digits taken from
  \<open>"0123456789abcdef"\<close>: the high nibble, then the low nibble.
\<close>

definition ldigits :: string where
  "ldigits = ''0123456789abcdef''"

definition hex_byte :: "byte \<Rightarrow> string" where
  "hex_byte c = [ldigits ! unat (drop_bit 4 c), ldigits ! unat (c AND 0xF)]"

definition sprintf_x :: "byte list \<Rightarrow> string" where
  "sprintf_x b = concat (map hex_byte b)"

text \<open>The slice expression \<open>b[i:j]\<close> of a slice that is long enough.\<close>

definition slice :: "'a list \<Rightarrow> nat \<Rightarrow> nat \<Rightarrow> 'a list" where
  "slice b i j = take (j - i) (drop i b)"

text \<open>
  \<open>genSessionID\<close>: \<open>b\<close> is the 16-byte buffer after \<open>r.Read(b)\<close>, \<open>err\<close> the error
  \<open>Read\<close> returned (\<open>None\<close> is nil). On an error the identifier is the empty string.
\<close>

definition genSessionID :: "byte list \<Rightarrow> nat option \<Rightarrow> string" where
  "genSessionID b err =
     (if err \<noteq> None then ''''
      else sprintf_x (slice b 0 4) @ ''-'' @ sprintf_x (slice b 4 6) @ ''-'' @
           sprintf_x (slice b 6 8) @ ''-'' @ sprintf_x (slice b 8 10) @ ''-'' @
           sprintf_x (drop 10 b))"

definition is_lower_hex :: "char \<Rightarrow> bool" where
  "is_lower_hex c = (c \<in> set ldigits)"

section \<open>session.go: parsing the kill time\<close>

definition TIME_SEC_LAYOUT :: string where "TIME_SEC_LAYOUT = ''15:04:05''"
definition TIME_MIN_LAYOUT :: string where "TIME_MIN_LAYOUT = ''15:04''"

text \<open>
  \<open>parseTime\<close> chooses the layout by the length of the string; \<open>time_Parse\<close> stands for
  \<open>time.Parse\<close> of the standard library (layout, then text).
\<close>

definition parseTime :: "(string \<Rightarrow> string \<Rightarrow> nat + Time) \<Rightarrow> string \<Rightarrow> error + Time" where
  "parseTime time_Parse timeStr =
     (if length timeStr = length TIME_SEC_LAYOUT then
        (case time_Parse TIME_SEC_LAYOUT timeStr of
           Inl e \<Rightarrow> Inl (ExternalError e) | Inr t \<Rightarrow> Inr t)
      else if length timeStr = length TIME_MIN_LAYOUT then
        (case time_Parse TIME_MIN_LAYOUT timeStr of
           Inl e \<Rightarrow> Inl (ExternalError e) | Inr t \<Rightarrow> Inr t)
      else Inl ParseTimeUnknownLayout)"

section \<open>The external world: gob, the redis server, the SQL database\<close>

text \<open>
  The gob codec, the redis server and the database are outside the repository. The model
  records what the code sends to them and takes their answers from the environment:
  \<open>Encode\<close> and the decoders stand for \<open>gob\<close> (a decoder that fails leaves its target
  untouched), and a backend handle holds the commands sent so far together with the
  answers the backend will give, indexed by the number of commands sent before.
\<close>

datatype gob_input = In_val gval | In_time Time | In_map "string \<Rightarrow> gval option"

record gob =
  Encode :: "gob_input \<Rightarrow> nat + byte list"
  Decode_bool :: "byte list \<Rightarrow> nat + bool"
  Decode_string :: "byte list \<Rightarrow> nat + string"
  Decode_int64 :: "byte list \<Rightarrow> nat + int64"
  Decode_float64 :: "byte list \<Rightarrow> nat + int64"
  Decode_map :: "byte list \<Rightarrow> nat + (string \<Rightarrow> gval option)"

datatype redis_cmd =
    Cmd_Set string "byte list" int64
  | Cmd_Get string
  | Cmd_Del string
  | Cmd_Ping

record redis_Client =
  cmds :: "redis_cmd list"
  get_reply :: "nat \<Rightarrow> nat + byte list"
  status_reply :: "nat \<Rightarrow> nat option"

datatype sql_stmt =
    Sql_InsertOrIgnore string
  | Sql_UpdateVal "byte list" string
  | Sql_UpdateAccessedReturning string

datatype query_result = Query_ErrNoRows | Query_Error nat | Query_Row Time Time "byte list"

record sqlDB =
  stmts :: "sql_stmt list"
  exec_reply :: "nat \<Rightarrow> nat option"
  query_reply :: "nat \<Rightarrow> query_result"

definition ExecContext :: "sqlDB \<Rightarrow> sql_stmt \<Rightarrow> nat option \<times> sqlDB" where
  "ExecContext db q = (exec_reply db (length (stmts db)), db\<lparr>stmts := stmts db @ [q]\<rparr>)"

definition QueryRowContext :: "sqlDB \<Rightarrow> sql_stmt \<Rightarrow> query_result \<times> sqlDB" where
  "QueryRowContext db q = (query_reply db (length (stmts db)), db\<lparr>stmts := stmts db @ [q]\<rparr>)"

text \<open>\<open>time.Duration(n) * time.Second\<close>: a product of 64-bit integers, which wraps.\<close>

definition Seconds :: "int64 \<Rightarrow> int64" where
  "Seconds n = n * 1000000000"

section \<open>redis/redis.go\<close>

definition redis_SESS_ID_LEN :: nat where "redis_SESS_ID_LEN = 36"

record redis_SessionStore =
  redis_sid :: string

record redis_Provider =
  redis_client :: "redis_Client option"
  redis_namespace :: string
  redis_maxLifeTime :: int64
  redis_maxIdleTime :: int64

definition redis_getPrefixedKey :: "redis_Provider \<Rightarrow> string \<Rightarrow> string \<Rightarrow> string" where
  "redis_getPrefixedKey pder sid key = redis_namespace pder @ '':'' @ sid @ '':'' @ key"

text \<open>
  \<open>setValue\<close> encodes the value and sends one \<open>SET\<close> with the provider's life time as
  the expiration. A nil client makes the call panic.
\<close>

definition redis_setValue ::
  "gob \<Rightarrow> redis_Provider \<Rightarrow> string \<Rightarrow> string \<Rightarrow> gob_input \<Rightarrow> error option \<times> redis_Provider" where
  "redis_setValue g pder sid key val =
     (case Encode g val of
        Inl e \<Rightarrow> (Some (ExternalError e), pder)
      | Inr b \<Rightarrow>
          (case redis_client pder of
             None \<Rightarrow> (Some NilPointerDereference, pder)
           | Some c \<Rightarrow>
               (map_option ExternalError (status_reply c (length (cmds c))),
                pder\<lparr>redis_client := Some (c\<lparr>cmds := cmds c @
                  [Cmd_Set (redis_getPrefixedKey pder sid key) b
                     (Seconds (redis_maxLifeTime pder))]\<rparr>)\<rparr>)))"

definition redis_sessionAccessed ::
  "gob \<Rightarrow> Time \<Rightarrow> redis_Provider \<Rightarrow> string \<Rightarrow> error option \<times> redis_Provider" where
  "redis_sessionAccessed g now pder sid = redis_setValue g pder sid ''time_accessed'' (In_time now)"

definition redis_getValueForKey ::
  "(byte list \<Rightarrow> nat + 'a) \<Rightarrow> redis_Provider \<Rightarrow> string \<Rightarrow> (error + 'a) \<times> redis_Provider" where
  "redis_getValueForKey dec pder redisKey =
     (case redis_client pder of
        None \<Rightarrow> (Inl NilPointerDereference, pder)
      | Some c \<Rightarrow>
          (let pder' = pder\<lparr>redis_client := Some (c\<lparr>cmds := cmds c @ [Cmd_Get redisKey]\<rparr>)\<rparr> in
           case get_reply c (length (cmds c)) of
             Inl e \<Rightarrow> (Inl (ExternalError e), pder')
           | Inr val_b \<Rightarrow>
               if length val_b = 0 then (Inl EKeyNotFound, pder')
               else (case dec val_b of
                       Inl e \<Rightarrow> (Inl (ExternalError e), pder')
                     | Inr v \<Rightarrow> (Inr v, pder'))))"

definition redis_getValue ::
  "gob \<Rightarrow> (byte list \<Rightarrow> nat + 'a) \<Rightarrow> Time \<Rightarrow> redis_Provider \<Rightarrow> string \<Rightarrow> string \<Rightarrow>
   (error + 'a) \<times> redis_Provider" where
  "redis_getValue g dec now pder sid key =
     (case redis_getValueForKey dec pder (redis_getPrefixedKey pder sid key) of
        (Inl e, pder') \<Rightarrow> (Inl e, pder')
      | (Inr v, pder') \<Rightarrow> (Inr v, snd (redis_sessionAccessed g now pder' sid)))"

text \<open>
  The methods of the redis \<open>SessionStore\<close>. Each takes the provider \<open>pder\<close> (a global of
  the package) and returns it as the call leaves it. The typed getters have no error
  result: \<open>None\<close> as the value of a getter is a panic (a nil client).
\<close>

definition redis_Set ::
  "gob \<Rightarrow> redis_Provider \<Rightarrow> redis_SessionStore \<Rightarrow> string \<Rightarrow> gval \<Rightarrow> error option \<times> redis_Provider" where
  "redis_Set g pder st key v = redis_setValue g pder (redis_sid st) key (In_val v)"

definition redis_Flush ::
  "gob \<Rightarrow> Time \<Rightarrow> redis_Provider \<Rightarrow> redis_SessionStore \<Rightarrow> error option \<times> redis_Provider" where
  "redis_Flush g now pder st =
     (let r = redis_sessionAccessed g now pder (redis_sid st) in
      if fst r = Some NilPointerDereference then r else (None, snd r))"

definition redis_Put ::
  "gob \<Rightarrow> Time \<Rightarrow> redis_Provider \<Rightarrow> redis_SessionStore \<Rightarrow> string \<Rightarrow> gval \<Rightarrow>
   error option \<times> redis_Provider" where
  "redis_Put g now pder st key v =
     (case redis_setValue g pder (redis_sid st) key (In_val v) of
        (Some e, pder') \<Rightarrow> (Some e, pder')
      | (None, pder') \<Rightarrow> redis_Flush g now pder' st)"

definition redis_getter ::
  "gob \<Rightarrow> (byte list \<Rightarrow> nat + 'a) \<Rightarrow> 'a \<Rightarrow> Time \<Rightarrow> redis_Provider \<Rightarrow> redis_SessionStore \<Rightarrow>
   string \<Rightarrow> 'a option \<times> redis_Provider" where
  "redis_getter g dec zero now pder st key =
     (case redis_getValue g dec now pder (redis_sid st) key of
        (Inl e, pder') \<Rightarrow> (if e = NilPointerDereference then None else Some zero, pder')
      | (Inr v, pder') \<Rightarrow> (Some v, pder'))"

definition redis_GetBool ::
  "gob \<Rightarrow> Time \<Rightarrow> redis_Provider \<Rightarrow> redis_SessionStore \<Rightarrow> string \<Rightarrow> bool option \<times> redis_Provider" where
  "redis_GetBool g = redis_getter g (Decode_bool g) False"

definition redis_GetString ::
  "gob \<Rightarrow> Time \<Rightarrow> redis_Provider \<Rightarrow> redis_SessionStore \<Rightarrow> string \<Rightarrow> string option \<times> redis_Provider" where
  "redis_GetString g = redis_getter g (Decode_string g) []"

definition redis_GetInt ::
  "gob \<Rightarrow> Time \<Rightarrow> redis_Provider \<Rightarrow> redis_SessionStore \<Rightarrow> string \<Rightarrow> int64 option \<times> redis_Provider" where
  "redis_GetInt g = redis_getter g (Decode_int64 g) 0"

definition redis_GetFloat ::
  "gob \<Rightarrow> Time \<Rightarrow> redis_Provider \<Rightarrow> redis_SessionStore \<Rightarrow> string \<Rightarrow> int64 option \<times> redis_Provider" where
  "redis_GetFloat g = redis_getter g (Decode_float64 g) 0"

definition redis_SessionInit :: "redis_Provider \<Rightarrow> string \<Rightarrow> error + redis_SessionStore" where
  "redis_SessionInit pder sid =
     (if redis_client pder = None then Inl ProviderNotInitialized
      else if length sid > redis_SESS_ID_LEN then Inl SessionKeyLengthExceeded
      else Inr \<lparr>redis_sid = sid\<rparr>)"

definition redis_SessionRead :: "redis_Provider \<Rightarrow> string \<Rightarrow> error + redis_SessionStore" where
  "redis_SessionRead pder sid = Inr \<lparr>redis_sid = sid\<rparr>"

text \<open>
  \<open>InitProvider\<close>: \<open>ParseURL\<close> stands for \<open>redis.ParseURL\<close> followed by
  \<open>redis.NewClient\<close>; the new client is stored before it is pinged.
\<close>

definition redis_InitProvider ::
  "(string \<Rightarrow> nat + redis_Client) \<Rightarrow> gval list \<Rightarrow> redis_Provider \<Rightarrow> error option \<times> redis_Provider" where
  "redis_InitProvider ParseURL provParams pder =
     (if length provParams < 2 then (Some InitProviderMissingParameters, pder)
      else
        (case provParams ! 0 of
           GString conn_url \<Rightarrow>
             (case provParams ! 1 of
                GString ns \<Rightarrow>
                  (let pder1 = pder\<lparr>redis_namespace := ns\<rparr> in
                   case ParseURL conn_url of
                     Inl e \<Rightarrow> (Some (ExternalError e), pder1)
                   | Inr c \<Rightarrow>
                       (map_option ExternalError (status_reply c (length (cmds c))),
                        pder1\<lparr>redis_client := Some (c\<lparr>cmds := cmds c @ [Cmd_Ping]\<rparr>)\<rparr>))
              | _ \<Rightarrow> (Some (InitProviderParameterNotString 1), pder\<lparr>redis_namespace := []\<rparr>))
         | _ \<Rightarrow> (Some (InitProviderParameterNotString 0), pder)))"

definition redis_Delete ::
  "gob \<Rightarrow> Time \<Rightarrow> redis_Provider \<Rightarrow> redis_SessionStore \<Rightarrow> string \<Rightarrow> error option \<times> redis_Provider" where
  "redis_Delete g now pder st key =
     (case redis_client pder of
        None \<Rightarrow> (Some NilPointerDereference, pder)
      | Some c \<Rightarrow>
          (None, snd (redis_sessionAccessed g now
             (pder\<lparr>redis_client := Some (c\<lparr>cmds := cmds c @
                [Cmd_Del (redis_getPrefixedKey pder (redis_sid st) key)]\<rparr>)\<rparr>) (redis_sid st))))"

section \<open>The sqlite provider\<close>

definition sqlite_SESS_ID_LEN :: nat where "sqlite_SESS_ID_LEN = 36"

text \<open>
  The \<open>SessionStore\<close> of the sqlite package; \<open>st_value\<close> is its field \<open>value\<close>, the
  map from keys to values. The lock \<open>mx\<close> has no state of its own in a sequential run.
\<close>

record sqlite_SessionStore =
  sqlite_sid :: string
  timeAccessed :: Time
  timeCreated :: Time
  st_value :: "string \<Rightarrow> gval option"
  valueModified :: bool

record sqlite_Provider =
  sqlite_dbConn :: "sqlDB option"
  sqlite_encrkey :: string
  sqlite_maxLifeTime :: int64
  sqlite_maxIdleTime :: int64

text \<open>The index expression \<open>m[key]\<close> of a map: the nil interface for an absent key.\<close>

definition map_index :: "(string \<Rightarrow> gval option) \<Rightarrow> string \<Rightarrow> gval" where
  "map_index m key = (case m key of None \<Rightarrow> GNil | Some v \<Rightarrow> v)"

text \<open>
  The methods of the sqlite \<open>SessionStore\<close>. \<open>Set\<close>, \<open>Put\<close> and \<open>Flush\<close> take the
  provider \<open>pder\<close> (a global of the package) and the store, and return both as the call
  leaves them; the other methods have the store only. \<open>now\<close> is the reading of
  \<open>time.Now()\<close>.
\<close>

definition sqlite_Set ::
  "Time \<Rightarrow> sqlite_Provider \<Rightarrow> sqlite_SessionStore \<Rightarrow> string \<Rightarrow> gval \<Rightarrow>
   error option \<times> sqlite_SessionStore \<times> sqlite_Provider" where
  "sqlite_Set now pder st key v =
     (if \<not> DeepEqual (map_index (st_value st) key) v then
        (None,
         st\<lparr>st_value := (st_value st)(key \<mapsto> v), valueModified := True, timeAccessed := now\<rparr>,
         pder)
      else (None, st, pder))"

definition getForDb :: "gob \<Rightarrow> (string \<Rightarrow> gval option) \<Rightarrow> error + byte list" where
  "getForDb g strucVal =
     (case Encode g (In_map strucVal) of Inl e \<Rightarrow> Inl (ExternalError e) | Inr b \<Rightarrow> Inr b)"

definition sqlite_Flush ::
  "gob \<Rightarrow> sqlite_Provider \<Rightarrow> sqlite_SessionStore \<Rightarrow>
   error option \<times> sqlite_SessionStore \<times> sqlite_Provider" where
  "sqlite_Flush g pder st =
     (if valueModified st then
        (case getForDb g (st_value st) of
           Inl e \<Rightarrow> (Some e, st, pder)
         | Inr val \<Rightarrow>
             (case sqlite_dbConn pder of
                None \<Rightarrow> (Some NilPointerDereference, st, pder)
              | Some db \<Rightarrow>
                  (case ExecContext db (Sql_UpdateVal val (sqlite_sid st)) of
                     (Some e, db') \<Rightarrow> (Some (ExternalError e), st, pder\<lparr>sqlite_dbConn := Some db'\<rparr>)
                   | (None, db') \<Rightarrow>
                       (None, st\<lparr>valueModified := False\<rparr>, pder\<lparr>sqlite_dbConn := Some db'\<rparr>))))
      else (None, st, pder))"

definition sqlite_Put ::
  "gob \<Rightarrow> Time \<Rightarrow> sqlite_Provider \<Rightarrow> sqlite_SessionStore \<Rightarrow> string \<Rightarrow> gval \<Rightarrow>
   error option \<times> sqlite_SessionStore \<times> sqlite_Provider" where
  "sqlite_Put g now pder st key v =
     (case sqlite_Set now pder st key v of
        (Some e, st', pder') \<Rightarrow> (Some e, st', pder')
      | (None, st', pder') \<Rightarrow> sqlite_Flush g pder' st')"

text \<open>
  \<open>Get\<close> copies the stored value into \<open>val\<close>, which must be a pointer. The argument is
  the nil interface, a value of some type that is not a pointer, or a pointer to a variable
  of a type; the result is the value the variable receives.
\<close>

datatype target = Target_nil | Target_value | Target_ptr gtype

definition AssignableTo :: "gtype \<Rightarrow> gtype \<Rightarrow> bool" where
  "AssignableTo t u = (t = u \<or> u = TInterface)"

definition sqlite_Get :: "sqlite_SessionStore \<Rightarrow> string \<Rightarrow> target \<Rightarrow> error + gval" where
  "sqlite_Get st key val =
     (case st_value st key of
        None \<Rightarrow> Inl EKeyNotFound
      | Some store_val \<Rightarrow>
          (case val of
             Target_nil \<Rightarrow> Inl NilPointerDereference
           | Target_value \<Rightarrow> Inl EValMustBePtr
           | Target_ptr val_elem \<Rightarrow>
               (case TypeOf store_val of
                  None \<Rightarrow> Inl NilPointerDereference
                | Some t \<Rightarrow>
                    if \<not> AssignableTo t val_elem then Inl ValueTypeMismatch
                    else Inr store_val)))"

definition sqlite_GetBool ::
  "Time \<Rightarrow> sqlite_SessionStore \<Rightarrow> string \<Rightarrow> bool \<times> sqlite_SessionStore" where
  "sqlite_GetBool now st key =
     (case st_value st key of
        None \<Rightarrow> (False, st)
      | Some v \<Rightarrow>
          ((case v of GBool v_bool \<Rightarrow> v_bool | _ \<Rightarrow> False), st\<lparr>timeAccessed := now\<rparr>))"

text \<open>The conversion \<open>string(b)\<close> of a byte slice: the same bytes.\<close>

definition string_of_bytes :: "byte list \<Rightarrow> string" where
  "string_of_bytes b = map (\<lambda>c. char_of (unat c)) b"

definition sqlite_GetString ::
  "Time \<Rightarrow> sqlite_SessionStore \<Rightarrow> string \<Rightarrow> string \<times> sqlite_SessionStore" where
  "sqlite_GetString now st key =
     (case st_value st key of
        None \<Rightarrow> ([], st)
      | Some v \<Rightarrow>
          ((case v of GString v_str \<Rightarrow> v_str | GBytes v_str \<Rightarrow> string_of_bytes v_str | _ \<Rightarrow> []),
           st\<lparr>timeAccessed := now\<rparr>))"

text \<open>\<open>int\<close> is 64 bits wide, so \<open>int64(v_i)\<close> keeps the bits.\<close>

definition sqlite_GetInt ::
  "Time \<Rightarrow> sqlite_SessionStore \<Rightarrow> string \<Rightarrow> int64 \<times> sqlite_SessionStore" where
  "sqlite_GetInt now st key =
     (case st_value st key of
        None \<Rightarrow> (0, st)
      | Some v \<Rightarrow>
          ((case v of GInt64 v_i \<Rightarrow> v_i | GInt v_i \<Rightarrow> v_i | _ \<Rightarrow> 0), st\<lparr>timeAccessed := now\<rparr>))"

text \<open>
  \<open>float64_of_float32\<close> stands for the conversion \<open>float64(v_f)\<close> of the language, on
  bit patterns.
\<close>

definition sqlite_GetFloat ::
  "(32 word \<Rightarrow> int64) \<Rightarrow> Time \<Rightarrow> sqlite_SessionStore \<Rightarrow> string \<Rightarrow> int64 \<times> sqlite_SessionStore" where
  "sqlite_GetFloat float64_of_float32 now st key =
     (case st_value st key of
        None \<Rightarrow> (0, st)
      | Some v \<Rightarrow>
          ((case v of GFloat64 v_f \<Rightarrow> v_f | GFloat32 v_f \<Rightarrow> float64_of_float32 v_f | _ \<Rightarrow> 0),
           st\<lparr>timeAccessed := now\<rparr>))"

definition sqlite_Delete ::
  "Time \<Rightarrow> sqlite_SessionStore \<Rightarrow> string \<Rightarrow> error option \<times> sqlite_SessionStore" where
  "sqlite_Delete now st key =
     (case st_value st key of
        None \<Rightarrow> (None, st)
      | Some _ \<Rightarrow> (None, st\<lparr>timeAccessed := now, st_value := (st_value st)(key := None)\<rparr>))"

text \<open>\<open>NewSessionStore\<close>; both readings of the clock are \<open>now\<close>.\<close>

definition NewSessionStore :: "Time \<Rightarrow> string \<Rightarrow> sqlite_SessionStore" where
  "NewSessionStore now sid =
     \<lparr>sqlite_sid = sid, timeAccessed = now, timeCreated = now, st_value = Map.empty,
      valueModified = False\<rparr>"

definition sqlite_SessionInit ::
  "Time \<Rightarrow> sqlite_Provider \<Rightarrow> string \<Rightarrow> (error + sqlite_SessionStore) \<times> sqlite_Provider" where
  "sqlite_SessionInit now pder sid =
     (case sqlite_dbConn pder of
        None \<Rightarrow> (Inl ProviderNotInitialized, pder)
      | Some db \<Rightarrow>
          if length sid > sqlite_SESS_ID_LEN then (Inl SessionKeyLengthExceeded, pder)
          else
            (case ExecContext db (Sql_InsertOrIgnore sid) of
               (Some e, db') \<Rightarrow> (Inl (ExternalError e), pder\<lparr>sqlite_dbConn := Some db'\<rparr>)
             | (None, db') \<Rightarrow> (Inr (NewSessionStore now sid), pder\<lparr>sqlite_dbConn := Some db'\<rparr>)))"

definition setFromDb ::
  "gob \<Rightarrow> (string \<Rightarrow> gval option) \<Rightarrow> byte list \<Rightarrow> error + (string \<Rightarrow> gval option)" where
  "setFromDb g strucVal dbVal =
     (if length dbVal = 0 then Inr strucVal
      else (case Decode_map g dbVal of Inl e \<Rightarrow> Inl (ExternalError e) | Inr m \<Rightarrow> Inr m))"

definition sqlite_SessionRead ::
  "gob \<Rightarrow> Time \<Rightarrow> sqlite_Provider \<Rightarrow> string \<Rightarrow> (error + sqlite_SessionStore) \<times> sqlite_Provider" where
  "sqlite_SessionRead g now pder sid =
     (let store = NewSessionStore now sid in
      case sqlite_dbConn pder of
        None \<Rightarrow> (Inl NilPointerDereference, pder)
      | Some db \<Rightarrow>
          (case QueryRowContext db (Sql_UpdateAccessedReturning sid) of
             (Query_ErrNoRows, db') \<Rightarrow> sqlite_SessionInit now (pder\<lparr>sqlite_dbConn := Some db'\<rparr>) sid
           | (Query_Error e, db') \<Rightarrow> (Inl (ExternalError e), pder\<lparr>sqlite_dbConn := Some db'\<rparr>)
           | (Query_Row accessed created val, db') \<Rightarrow>
               (case setFromDb g (st_value store) val of
                  Inl e \<Rightarrow> (Inl e, pder\<lparr>sqlite_dbConn := Some db'\<rparr>)
                | Inr m \<Rightarrow>
                    (Inr (store\<lparr>timeAccessed := accessed, timeCreated := created, st_value := m\<rparr>),
                     pder\<lparr>sqlite_dbConn := Some db'\<rparr>))))"

text \<open>\<open>InitProvider\<close>: \<open>sql_Open\<close> stands for \<open>sql.Open\<close> (driver name, then file name).\<close>

definition sqlite_PROVIDER :: string where "sqlite_PROVIDER = ''sqlite3''"

definition sqlite_InitProvider ::
  "(string \<Rightarrow> string \<Rightarrow> nat + sqlDB) \<Rightarrow> gval list \<Rightarrow> sqlite_Provider \<Rightarrow>
   error option \<times> sqlite_Provider" where
  "sqlite_InitProvider sql_Open provParams pder =
     (if length provParams < 1 then (Some InitProviderMissingParameters, pder)
      else
        (case provParams ! 0 of
           GString dbFileName \<Rightarrow>
             (case sql_Open sqlite_PROVIDER dbFileName of
                Inl e \<Rightarrow> (Some (ExternalError e), pder)
              | Inr conn \<Rightarrow> (None, pder\<lparr>sqlite_dbConn := Some conn\<rparr>))
         | _ \<Rightarrow> (Some (InitProviderParameterNotString 0), pder)))"

section \<open>session.go: the provider interface and the manager\<close>

text \<open>
  A \<open>Provider\<close> is one of the two providers of the repository, a \<open>Session\<close> one of
  their stores; the interface methods dispatch on the implementation.
\<close>

datatype Provider = Redis redis_Provider | Sqlite sqlite_Provider

datatype Session = Redis_Session redis_SessionStore | Sqlite_Session sqlite_SessionStore

text \<open>The library functions the constructor and the providers call.\<close>

record libs =
  time_Parse :: "string \<Rightarrow> string \<Rightarrow> nat + Time"
  redis_ParseURL :: "string \<Rightarrow> nat + redis_Client"
  sql_Open :: "string \<Rightarrow> string \<Rightarrow> nat + sqlDB"

definition Provider_SetMaxLifeTime :: "int64 \<Rightarrow> Provider \<Rightarrow> Provider" where
  "Provider_SetMaxLifeTime v p =
     (case p of Redis r \<Rightarrow> Redis (r\<lparr>redis_maxLifeTime := v\<rparr>)
              | Sqlite s \<Rightarrow> Sqlite (s\<lparr>sqlite_maxLifeTime := v\<rparr>))"

definition Provider_SetMaxIdleTime :: "int64 \<Rightarrow> Provider \<Rightarrow> Provider" where
  "Provider_SetMaxIdleTime v p =
     (case p of Redis r \<Rightarrow> Redis (r\<lparr>redis_maxIdleTime := v\<rparr>)
              | Sqlite s \<Rightarrow> Sqlite (s\<lparr>sqlite_maxIdleTime := v\<rparr>))"

definition Provider_GetMaxLifeTime :: "Provider \<Rightarrow> int64" where
  "Provider_GetMaxLifeTime p =
     (case p of Redis r \<Rightarrow> redis_maxLifeTime r | Sqlite s \<Rightarrow> sqlite_maxLifeTime s)"

definition Provider_GetMaxIdleTime :: "Provider \<Rightarrow> int64" where
  "Provider_GetMaxIdleTime p =
     (case p of Redis r \<Rightarrow> redis_maxIdleTime r | Sqlite s \<Rightarrow> sqlite_maxIdleTime s)"

definition Provider_GetSessionIDLen :: "Provider \<Rightarrow> nat" where
  "Provider_GetSessionIDLen p =
     (case p of Redis r \<Rightarrow> redis_SESS_ID_LEN | Sqlite s \<Rightarrow> sqlite_SESS_ID_LEN)"

definition Provider_InitProvider :: "libs \<Rightarrow> gval list \<Rightarrow> Provider \<Rightarrow> error option \<times> Provider" where
  "Provider_InitProvider lb provParams p =
     (case p of
        Redis r \<Rightarrow> map_prod id Redis (redis_InitProvider (redis_ParseURL lb) provParams r)
      | Sqlite s \<Rightarrow> map_prod id Sqlite (sqlite_InitProvider (sql_Open lb) provParams s))"

definition Provider_SessionInit :: "Time \<Rightarrow> Provider \<Rightarrow> string \<Rightarrow> (error + Session) \<times> Provider" where
  "Provider_SessionInit now p sid =
     (case p of
        Redis r \<Rightarrow> (map_sum id Redis_Session (redis_SessionInit r sid), p)
      | Sqlite s \<Rightarrow> map_prod (map_sum id Sqlite_Session) Sqlite (sqlite_SessionInit now s sid))"

definition Provider_SessionRead ::
  "gob \<Rightarrow> Time \<Rightarrow> Provider \<Rightarrow> string \<Rightarrow> (error + Session) \<times> Provider" where
  "Provider_SessionRead g now p sid =
     (case p of
        Redis r \<Rightarrow> (map_sum id Redis_Session (redis_SessionRead r sid), p)
      | Sqlite s \<Rightarrow> map_prod (map_sum id Sqlite_Session) Sqlite (sqlite_SessionRead g now s sid))"

definition Provider_initialized :: "Provider \<Rightarrow> bool" where
  "Provider_initialized p =
     (case p of Redis r \<Rightarrow> redis_client r \<noteq> None | Sqlite s \<Rightarrow> sqlite_dbConn s \<noteq> None)"

text \<open>
  The manager. \<open>gcCancel\<close> is the cancel function of a context, named by the number of
  the context; \<open>None\<close> is nil.
\<close>

record Manager =
  provider :: Provider
  SessionsKillTime :: Time
  gcCancel :: "nat option"

definition SetSessionsKillTime :: "libs \<Rightarrow> Manager \<Rightarrow> string \<Rightarrow> error option \<times> Manager" where
  "SetSessionsKillTime lb manager sessionsKillTime =
     (case parseTime (time_Parse lb) sessionsKillTime of
        Inl err \<Rightarrow> (Some err, manager\<lparr>SessionsKillTime := empty_t\<rparr>)
      | Inr t \<Rightarrow> (None, manager\<lparr>SessionsKillTime := t\<rparr>))"

text \<open>
  \<open>NewManager\<close> returns its result, the registry \<open>provides\<close> with the provider as the
  call leaves it (the registry holds a pointer to the provider), and the methods of the
  provider it has called, in order.
\<close>

datatype provider_call =
  Call_SetMaxLifeTime int64 | Call_SetMaxIdleTime int64 | Call_InitProvider "gval list"

definition NewManager ::
  "libs \<Rightarrow> (string \<Rightarrow> Provider option) \<Rightarrow> string \<Rightarrow> int64 \<Rightarrow> int64 \<Rightarrow> string \<Rightarrow> gval list \<Rightarrow>
   (error + Manager) \<times> (string \<Rightarrow> Provider option) \<times> provider_call list" where
  "NewManager lb provides providerName maxLifeTime maxIdleTime sessionsKillTime provParams =
     (case provides providerName of
        None \<Rightarrow> (Inl (UnknownProvider providerName), provides, [])
      | Some provider0 \<Rightarrow>
          (let provider1 =
                 Provider_SetMaxIdleTime maxIdleTime (Provider_SetMaxLifeTime maxLifeTime provider0);
               calls = [Call_SetMaxLifeTime maxLifeTime, Call_SetMaxIdleTime maxIdleTime];
               manager = \<lparr>provider = provider1, SessionsKillTime = empty_t, gcCancel = None\<rparr>
           in
           case (if sessionsKillTime \<noteq> [] then SetSessionsKillTime lb manager sessionsKillTime
                 else (None, manager)) of
             (Some err, _) \<Rightarrow> (Inl err, provides(providerName \<mapsto> provider1), calls)
           | (None, manager1) \<Rightarrow>
               (case Provider_InitProvider lb provParams (provider manager1) of
                  (Some err, provider2) \<Rightarrow>
                    (Inl err, provides(providerName \<mapsto> provider2),
                     calls @ [Call_InitProvider provParams])
                | (None, provider2) \<Rightarrow>
                    (Inr (manager1\<lparr>provider := provider2\<rparr>), provides(providerName \<mapsto> provider2),
                     calls @ [Call_InitProvider provParams]))))"

text \<open>
  \<open>SessionStart\<close>: \<open>b\<close> and \<open>err\<close> are what the random source gives \<open>genSessionID\<close>.
\<close>

definition SessionStart ::
  "gob \<Rightarrow> byte list \<Rightarrow> nat option \<Rightarrow> Time \<Rightarrow> Manager \<Rightarrow> string \<Rightarrow> (error + Session) \<times> Manager" where
  "SessionStart g b err now manager sid =
     (if sid = [] then
        (let sid' = genSessionID b err in
         case Provider_SessionInit now (provider manager) sid' of
           (r, p) \<Rightarrow> (r, manager\<lparr>provider := p\<rparr>))
      else
        (case Provider_SessionRead g now (provider manager) sid of
           (r, p) \<Rightarrow> (r, manager\<lparr>provider := p\<rparr>)))"

text \<open>Whether \<open>InitProvider\<close> is among the calls made.\<close>

definition InitProvider_called :: "provider_call list \<Rightarrow> bool" where
  "InitProvider_called calls =
     list_ex (\<lambda>c. case c of Call_InitProvider _ \<Rightarrow> True | _ \<Rightarrow> False) calls"

section \<open>session.go: the GC scheduler\<close>

text \<open>
  The scheduler's world: the contexts created so far (a context is its number), the
  contexts that have been cancelled, and the goroutines that have been started. A
  goroutine is one of the two loops of \<open>StartGC\<close> with what its closure captures: the
  context, whether the writer \<open>l\<close> is not nil, the log level and, for the idle/lifetime
  loop, the local \<open>sleep_sec\<close>.
\<close>

datatype loop = Kill_loop | GC_loop int64

record goroutine =
  g_loop :: loop
  g_ctx :: nat
  g_l :: bool
  g_logLev :: LogLevel

record sched =
  next_ctx :: nat
  cancelled :: "nat set"
  goroutines :: "goroutine list"

text \<open>
  The seconds between two runs of the idle/lifetime loop, as \<open>StartGC\<close> chooses them
  from the provider's life time and idle time; \<open>None\<close> when it returns without
  starting the loop. The comparisons are those of signed 64-bit integers.
\<close>

definition gc_sleep_sec :: "int64 \<Rightarrow> int64 \<Rightarrow> int64 option" where
  "gc_sleep_sec life_time idle_time =
     (if life_time = 0 \<and> idle_time = 0 then None
      else if 0 < sint idle_time \<and> life_time = 0 then Some idle_time
      else if 0 < sint life_time \<and> idle_time = 0 then Some life_time
      else if sint idle_time < sint life_time then Some idle_time
      else Some life_time)"

text \<open>
  \<open>StartGC\<close>, up to the start of its goroutines: \<open>stamp\<close> is the time stamp of the log
  line it may write, \<open>l\<close> the writer (\<open>None\<close> is nil). The result is the writer, the
  manager and the world as the call leaves them; \<open>Inl\<close> is a panic.
\<close>

definition StartGC ::
  "string \<Rightarrow> Writer option \<Rightarrow> LogLevel \<Rightarrow> Manager \<Rightarrow> sched \<Rightarrow>
   error + (Writer option \<times> Manager \<times> sched)" where
  "StartGC stamp l logLev manager w =
     (let ctx = next_ctx w;
          manager1 = manager\<lparr>gcCancel := Some ctx\<rparr>;
          w1 = w\<lparr>next_ctx := ctx + 1\<rparr>;
          w2 = (if SessionsKillTime manager1 \<noteq> empty_t then
                  w1\<lparr>goroutines := goroutines w1 @
                    [\<lparr>g_loop = Kill_loop, g_ctx = ctx, g_l = (l \<noteq> None), g_logLev = logLev\<rparr>]\<rparr>
                else w1)
      in
      case gc_sleep_sec (Provider_GetMaxLifeTime (provider manager1))
             (Provider_GetMaxIdleTime (provider manager1)) of
        None \<Rightarrow> Inr (l, manager1, w2)
      | Some sleep_sec \<Rightarrow>
          (case (case l of
                   None \<Rightarrow> Inr None
                 | Some wr \<Rightarrow>
                     if logLev \<ge> LOG_LEVEL_WARN then
                       map_sum id Some
                         (WriteToLog stamp wr
                            (''running garbage collector every '' @ sprintf_d (sint sleep_sec) @
                             '' seconds'') LOG_LEVEL_DEBUG)
                     else Inr (Some wr)) of
             Inl e \<Rightarrow> Inl e
           | Inr l' \<Rightarrow>
               Inr (l', manager1,
                    w2\<lparr>goroutines := goroutines w2 @
                      [\<lparr>g_loop = GC_loop sleep_sec, g_ctx = ctx, g_l = (l \<noteq> None),
                        g_logLev = logLev\<rparr>]\<rparr>)))"

definition StopGC :: "Manager \<Rightarrow> sched \<Rightarrow> Manager \<times> sched" where
  "StopGC manager w =
     (case gcCancel manager of
        None \<Rightarrow> (manager, w)
      | Some ctx \<Rightarrow> (manager, w\<lparr>cancelled := insert ctx (cancelled w)\<rparr>))"

text \<open>
  A loop leaves only through the \<open>ctx.Done()\<close> case of its \<open>select\<close>, which is ready
  once its context has been cancelled.
\<close>

definition can_stop :: "sched \<Rightarrow> goroutine \<Rightarrow> bool" where
  "can_stop w gr = (g_ctx gr \<in> cancelled w)"

definition started_with :: "sched \<Rightarrow> nat \<Rightarrow> goroutine list" where
  "started_with w ctx = filter (\<lambda>gr. g_ctx gr = ctx) (goroutines w)"

text \<open>
  The loops, as the events of a run. The run is driven by a script: one entry per
  iteration, with the case the \<open>select\<close> takes and the clock readings of the iteration.
  The events are the lines written to \<open>l\<close>, the timers created with their durations (in
  nanoseconds, a 64-bit integer), the fixed sleeps, the calls of the manager, and the
  return of the goroutine. A script that ends leaves the loop waiting.
\<close>

datatype select = Done | Timeout

datatype event =
    Write string
  | After int64
  | Sleep int64
  | Call_SessionGC
  | Call_DestroyAllSessions
  | Return
  | Panic error

text \<open>A guarded call of \<open>WriteToLog\<close>, followed by the events \<open>k\<close> of the rest of the run.\<close>

definition logged :: "bool \<Rightarrow> string \<Rightarrow> string \<Rightarrow> LogLevel \<Rightarrow> event list \<Rightarrow> event list" where
  "logged cond stamp s logLevel k =
     (if cond then
        (case WriteToLog stamp [] s logLevel of
           Inl e \<Rightarrow> [Panic e]
         | Inr wr \<Rightarrow> map Write wr @ k)
      else k)"

fun gc_loop :: "bool \<Rightarrow> LogLevel \<Rightarrow> int64 \<Rightarrow> (select \<times> string) list \<Rightarrow> event list" where
  "gc_loop l logLev sleep_sec [] = []"
| "gc_loop l logLev sleep_sec ((sel, stamp) # rest) =
     After (Seconds sleep_sec) #
     (case sel of
        Done \<Rightarrow> [Return]
      | Timeout \<Rightarrow>
          logged (l \<and> logLev \<ge> LOG_LEVEL_DEBUG) stamp ''calling manager.SessionGC()''
            LOG_LEVEL_DEBUG
            (Call_SessionGC # gc_loop l logLev sleep_sec rest))"

text \<open>
  The seconds the daily loop sleeps, from the kill time and the reading \<open>now0\<close> of the
  clock. The numbers stay below 86400 in size, far from the bounds of \<open>int\<close>.
\<close>

definition kill_sleep_sec :: "Time \<Rightarrow> Time \<Rightarrow> int" where
  "kill_sleep_sec kill now0 =
     (let now = Truncate_Second now0;
          now_sec = Hour now * 60 * 60 + Minute now * 60 + Second now;
          kill_sec = Hour kill * 60 * 60 + Minute kill * 60 + Second kill;
          sleep_sec = kill_sec - now_sec
      in if sleep_sec < 0 then 24 * 60 * 60 + sleep_sec else sleep_sec)"

text \<open>
  The daily loop; \<open>kill\<close> is the manager's \<open>SessionsKillTime\<close>, which the loop reads on
  every iteration and which no one changes during the run.
\<close>

fun kill_loop ::
  "bool \<Rightarrow> LogLevel \<Rightarrow> Time \<Rightarrow> (Time \<times> string \<times> select \<times> string) list \<Rightarrow> event list" where
  "kill_loop l logLev kill [] = []"
| "kill_loop l logLev kill ((now, stamp1, sel, stamp2) # rest) =
     logged (l \<and> logLev \<ge> LOG_LEVEL_WARN) stamp1
       (''waiting session killer in '' @ sprintf_d (kill_sleep_sec kill now) @ '' seconds'')
       LOG_LEVEL_WARN
       (After (Seconds (word_of_int (kill_sleep_sec kill now))) #
        (case sel of
           Done \<Rightarrow> [Return]
         | Timeout \<Rightarrow>
             logged (l \<and> logLev \<ge> LOG_LEVEL_DEBUG) stamp2
               ''calling manager.DestroyAllSessions()'' LOG_LEVEL_DEBUG
               (Call_DestroyAllSessions # Sleep (Seconds 1) # kill_loop l logLev kill rest)))"

text \<open>The events of a run other than the log lines.\<close>

definition actions :: "event list \<Rightarrow> event list" where
  "actions tr = filter (\<lambda>e. case e of Write _ \<Rightarrow> False | _ \<Rightarrow> True) tr"

section \<open>The sqlite provider: calls between two flushes\<close>

text \<open>
  A call of \<open>Set\<close> or of a typed getter on the sqlite store. \<open>sqlite_do\<close> makes one call
  at the clock reading \<open>now\<close> and returns the store as the call leaves it;
  \<open>sqlite_calls\<close> makes the calls of a list in order, each at its own clock reading.
  \<open>Set_changes\<close> tells whether some \<open>Set\<close> of the list meets a stored value that is not
  deeply equal to the one it sets.
\<close>

datatype sqlite_call =
    Call_Set string gval
  | Call_GetBool string
  | Call_GetString string
  | Call_GetInt string
  | Call_GetFloat string

definition sqlite_do ::
  "(32 word \<Rightarrow> int64) \<Rightarrow> sqlite_Provider \<Rightarrow> Time \<Rightarrow> sqlite_call \<Rightarrow> sqlite_SessionStore \<Rightarrow>
   sqlite_SessionStore" where
  "sqlite_do conv pder now c st =
     (case c of
        Call_Set key v \<Rightarrow> fst (snd (sqlite_Set now pder st key v))
      | Call_GetBool key \<Rightarrow> snd (sqlite_GetBool now st key)
      | Call_GetString key \<Rightarrow> snd (sqlite_GetString now st key)
      | Call_GetInt key \<Rightarrow> snd (sqlite_GetInt now st key)
      | Call_GetFloat key \<Rightarrow> snd (sqlite_GetFloat conv now st key))"

fun sqlite_calls ::
  "(32 word \<Rightarrow> int64) \<Rightarrow> sqlite_Provider \<Rightarrow> (Time \<times> sqlite_call) list \<Rightarrow> sqlite_SessionStore \<Rightarrow>
   sqlite_SessionStore" where
  "sqlite_calls conv pder [] st = st"
| "sqlite_calls conv pder ((now, c) # cs) st =
     sqlite_calls conv pder cs (sqlite_do conv pder now c st)"

fun Set_changes ::
  "(32 word \<Rightarrow> int64) \<Rightarrow> sqlite_Provider \<Rightarrow> (Time \<times> sqlite_call) list \<Rightarrow> sqlite_SessionStore \<Rightarrow>
   bool" where
  "Set_changes conv pder [] st = False"
| "Set_changes conv pder ((now, c) # cs) st =
     ((case c of
         Call_Set key v \<Rightarrow> \<not> DeepEqual (map_index (st_value st) key) v
       | _ \<Rightarrow> False) \<or>
      Set_changes conv pder cs (sqlite_do conv pder now c st))"

section \<open>Properties\<close>

lemma nibble_cases:
  "(n::nat) < 16 \<Longrightarrow> n \<in> {0, 1, 2, 3, 4, 5, 6, 7, 8, 9, 10, 11, 12, 13, 14, 15}"
  by (simp only: insert_iff empty_iff) arith

lemma ldigits_nth: "n < 16 \<Longrightarrow> is_lower_hex (ldigits ! n)"
  using nibble_cases [of n] by (auto simp: is_lower_hex_def ldigits_def)

lemma high_nibble_less: "unat (drop_bit 4 (c::byte)) < 16"
proof -
  have "unat (drop_bit 4 c) = unat c div 2 ^ 4"
    by (simp add: drop_bit_eq_div unat_div)
  moreover have "unat c < 256"
    using unsigned_less [of c, where ?'a = nat] by simp
  ultimately show ?thesis by simp
qed

lemma low_nibble_less: "unat ((c::byte) AND 0xF) < 16"
proof -
  have "unat (c AND 0xF) \<le> unat (0xF :: byte)"
    by (rule word_and_le1 [THEN word_le_nat_alt [THEN iffD1]])
  then show ?thesis by simp
qed

lemma hex_byte_length: "length (hex_byte c) = 2"
  by (simp add: hex_byte_def)

lemma hex_byte_lower: "ch \<in> set (hex_byte c) \<Longrightarrow> is_lower_hex ch"
  using ldigits_nth [OF high_nibble_less [of c]] ldigits_nth [OF low_nibble_less [of c]]
  by (auto simp: hex_byte_def)

lemma sprintf_x_length: "length (sprintf_x b) = 2 * length b"
  by (induction b) (simp_all add: sprintf_x_def hex_byte_length)

lemma sprintf_x_lower: "ch \<in> set (sprintf_x b) \<Longrightarrow> is_lower_hex ch"
  by (auto simp: sprintf_x_def dest: hex_byte_lower)

subsection \<open>The session identifier\<close>

lemma genSessionID_length: "length b = 16 \<Longrightarrow> length (genSessionID b None) = 36"
  by (simp add: genSessionID_def sprintf_x_length slice_def)

lemma list_all_sprintf_x: "list_all is_lower_hex (sprintf_x b)"
  by (simp add: list_all_iff sprintf_x_lower)

text \<open>
  Claim C9. For every 16-byte buffer that the random source has filled without an error,
  \<open>genSessionID\<close> returns a string of 36 characters: five groups of 8, 4, 4, 4 and 12
  lower-case hexadecimal digits, separated by four hyphens.
\<close>

theorem genSessionID_layout:
  assumes "length b = 16"
  shows "\<exists>g1 g2 g3 g4 g5.
           genSessionID b None = g1 @ ''-'' @ g2 @ ''-'' @ g3 @ ''-'' @ g4 @ ''-'' @ g5 \<and>
           length g1 = 8 \<and> length g2 = 4 \<and> length g3 = 4 \<and> length g4 = 4 \<and> length g5 = 12 \<and>
           list_all is_lower_hex (g1 @ g2 @ g3 @ g4 @ g5) \<and>
           length (genSessionID b None) = 36"
proof (intro exI conjI)
  show "genSessionID b None =
          sprintf_x (slice b 0 4) @ ''-'' @ sprintf_x (slice b 4 6) @ ''-'' @
          sprintf_x (slice b 6 8) @ ''-'' @ sprintf_x (slice b 8 10) @ ''-'' @
          sprintf_x (drop 10 b)"
    by (simp add: genSessionID_def)
  show "length (sprintf_x (slice b 0 4)) = 8" "length (sprintf_x (slice b 4 6)) = 4"
    "length (sprintf_x (slice b 6 8)) = 4" "length (sprintf_x (slice b 8 10)) = 4"
    "length (sprintf_x (drop 10 b)) = 12"
    using assms by (simp_all add: sprintf_x_length slice_def)
  show "list_all is_lower_hex
          (sprintf_x (slice b 0 4) @ sprintf_x (slice b 4 6) @ sprintf_x (slice b 6 8) @
           sprintf_x (slice b 8 10) @ sprintf_x (drop 10 b))"
    by (simp add: list_all_sprintf_x)
  show "length (genSessionID b None) = 36"
    using assms by (rule genSessionID_length)
qed

theorem genSessionID_layout_witness:
  "length [0, 1, 2, 3, 4, 5, 6, 7, 8, 9, 10, 11, 12, 13, 14, 255 :: byte] = 16 \<and>
   genSessionID [0, 1, 2, 3, 4, 5, 6, 7, 8, 9, 10, 11, 12, 13, 14, 255] None =
     ''00010203-0405-0607-0809-0a0b0c0d0eff'' \<and>
   (\<exists>g1 g2 g3 g4 g5.
      genSessionID [0, 1, 2, 3, 4, 5, 6, 7, 8, 9, 10, 11, 12, 13, 14, 255] None =
        g1 @ ''-'' @ g2 @ ''-'' @ g3 @ ''-'' @ g4 @ ''-'' @ g5 \<and>
      length g1 = 8 \<and> length g2 = 4 \<and> length g3 = 4 \<and> length g4 = 4 \<and> length g5 = 12 \<and>
      list_all is_lower_hex (g1 @ g2 @ g3 @ g4 @ g5) \<and>
      length (genSessionID [0, 1, 2, 3, 4, 5, 6, 7, 8, 9, 10, 11, 12, 13, 14, 255] None) = 36)"
proof -
  have len: "length [0, 1, 2, 3, 4, 5, 6, 7, 8, 9, 10, 11, 12, 13, 14, 255 :: byte] = 16"
    by simp
  have val: "genSessionID [0, 1, 2, 3, 4, 5, 6, 7, 8, 9, 10, 11, 12, 13, 14, 255] None =
     ''00010203-0405-0607-0809-0a0b0c0d0eff''"
    by (simp add: genSessionID_def sprintf_x_def slice_def hex_byte_def ldigits_def drop_bit_eq_div)
  from len val genSessionID_layout [OF len] show ?thesis by blast
qed

subsection \<open>Starting a session with a fresh identifier\<close>

lemma genSessionID_length_le: "length b = 16 \<Longrightarrow> length (genSessionID b err) \<le> 36"
  by (cases err) (simp_all add: genSessionID_def sprintf_x_length slice_def)

lemma redis_SessionInit_too_long:
  "redis_client pder \<noteq> None \<Longrightarrow>
   (redis_SessionInit pder sid = Inl SessionKeyLengthExceeded) = (36 < length sid)"
  by (simp add: redis_SessionInit_def redis_SESS_ID_LEN_def)

lemma sqlite_SessionInit_too_long:
  "sqlite_dbConn pder \<noteq> None \<Longrightarrow>
   (fst (sqlite_SessionInit now pder sid) = Inl SessionKeyLengthExceeded) = (36 < length sid)"
  by (auto simp: sqlite_SessionInit_def sqlite_SESS_ID_LEN_def ExecContext_def
           split: option.splits prod.splits)

lemma Provider_SessionInit_too_long:
  "Provider_initialized p \<Longrightarrow>
   (fst (Provider_SessionInit now p sid) = Inl SessionKeyLengthExceeded) = (36 < length sid)"
proof (cases p)
  case (Redis r)
  assume "Provider_initialized p"
  with Redis have "redis_client r \<noteq> None" by (simp add: Provider_initialized_def)
  from redis_SessionInit_too_long [OF this, of sid] Redis show ?thesis
    by (cases "redis_SessionInit r sid") (auto simp: Provider_SessionInit_def)
next
  case (Sqlite s)
  assume "Provider_initialized p"
  with Sqlite have "sqlite_dbConn s \<noteq> None" by (simp add: Provider_initialized_def)
  from sqlite_SessionInit_too_long [OF this, of now sid] Sqlite show ?thesis
    by (cases "sqlite_SessionInit now s sid"; cases "fst (sqlite_SessionInit now s sid)")
       (auto simp: Provider_SessionInit_def)
qed

text \<open>
  Claim C10. With an initialized provider, \<open>SessionStart\<close> with the empty id never fails
  with the id-length error: a generated id has 36 characters (the empty string if the
  random source reports an error), the maximum id length of either provider is 36, and
  \<open>SessionInit\<close> of an initialized provider returns the id-length error exactly for the
  ids longer than 36.
\<close>

theorem SessionStart_empty_id_fits:
  assumes "Provider_initialized (provider manager)" and "length b = 16"
  shows "fst (SessionStart g b err now manager []) \<noteq> Inl SessionKeyLengthExceeded \<and>
         length (genSessionID b None) = 36 \<and>
         Provider_GetSessionIDLen (provider manager) = 36 \<and>
         (\<forall>sid. (fst (Provider_SessionInit now (provider manager) sid) =
                   Inl SessionKeyLengthExceeded) = (36 < length sid))"
proof (intro conjI allI)
  have "\<not> 36 < length (genSessionID b err)"
    using genSessionID_length_le [OF assms(2), of err] by simp
  then have "fst (Provider_SessionInit now (provider manager) (genSessionID b err)) \<noteq>
             Inl SessionKeyLengthExceeded"
    using Provider_SessionInit_too_long [OF assms(1)] by simp
  then show "fst (SessionStart g b err now manager []) \<noteq> Inl SessionKeyLengthExceeded"
    by (simp add: SessionStart_def case_prod_beta Let_def)
  show "length (genSessionID b None) = 36"
    using assms(2) by (rule genSessionID_length)
  show "Provider_GetSessionIDLen (provider manager) = 36"
    by (cases "provider manager")
       (simp_all add: Provider_GetSessionIDLen_def redis_SESS_ID_LEN_def sqlite_SESS_ID_LEN_def)
  show "(fst (Provider_SessionInit now (provider manager) sid) = Inl SessionKeyLengthExceeded) =
        (36 < length sid)" for sid
    using assms(1) by (rule Provider_SessionInit_too_long)
qed

theorem SessionStart_empty_id_fits_witness:
  "Provider_initialized
     (provider \<lparr>provider = Redis \<lparr>redis_client = Some \<lparr>cmds = [], get_reply = (\<lambda>_. Inr []),
          status_reply = (\<lambda>_. None)\<rparr>, redis_namespace = ''ns'', redis_maxLifeTime = 0,
          redis_maxIdleTime = 0\<rparr>, SessionsKillTime = empty_t, gcCancel = None\<rparr>) \<and>
   length (replicate 16 (0::byte)) = 16 \<and>
   fst (SessionStart
     \<lparr>Encode = (\<lambda>_. Inr []), Decode_bool = (\<lambda>_. Inl 0),
       Decode_string = (\<lambda>_. Inl 0), Decode_int64 = (\<lambda>_. Inl 0), Decode_float64 = (\<lambda>_. Inl 0),
       Decode_map = (\<lambda>_. Inl 0)\<rparr>
     (replicate 16 0) None empty_t
     \<lparr>provider = Redis \<lparr>redis_client = Some \<lparr>cmds = [], get_reply = (\<lambda>_. Inr []),
          status_reply = (\<lambda>_. None)\<rparr>, redis_namespace = ''ns'', redis_maxLifeTime = 0,
          redis_maxIdleTime = 0\<rparr>, SessionsKillTime = empty_t, gcCancel = None\<rparr> []) \<noteq>
     Inl SessionKeyLengthExceeded \<and>
   length (genSessionID (replicate 16 0) None) = 36"
proof -
  let ?m = "\<lparr>provider = Redis \<lparr>redis_client = Some \<lparr>cmds = [], get_reply = (\<lambda>_. Inr []),
          status_reply = (\<lambda>_. None)\<rparr>, redis_namespace = ''ns'', redis_maxLifeTime = 0,
          redis_maxIdleTime = 0\<rparr>, SessionsKillTime = empty_t, gcCancel = None\<rparr>"
  have init: "Provider_initialized (provider ?m)"
    by (simp add: Provider_initialized_def)
  have len: "length (replicate 16 (0::byte)) = 16"
    by simp
  from init len SessionStart_empty_id_fits [OF init len, of
      "\<lparr>Encode = (\<lambda>_. Inr []), Decode_bool = (\<lambda>_. Inl 0),  Decode_string = (\<lambda>_. Inl 0), Decode_int64 = (\<lambda>_. Inl 0), Decode_float64 = (\<lambda>_. Inl 0),  Decode_map = (\<lambda>_. Inl 0)\<rparr>" None empty_t] show ?thesis
    by blast
qed

subsection \<open>The constructor and the kill time\<close>

lemma parseTime_unknown_layout:
  "length timeStr \<noteq> 5 \<Longrightarrow> length timeStr \<noteq> 8 \<Longrightarrow>
   parseTime parse timeStr = Inl ParseTimeUnknownLayout"
  by (simp add: parseTime_def TIME_SEC_LAYOUT_def TIME_MIN_LAYOUT_def)

lemma SetSessionsKillTime_unknown_layout:
  "length timeStr \<noteq> 5 \<Longrightarrow> length timeStr \<noteq> 8 \<Longrightarrow>
   SetSessionsKillTime lb m timeStr =
     (Some ParseTimeUnknownLayout, m\<lparr>SessionsKillTime := empty_t\<rparr>)"
  by (simp add: SetSessionsKillTime_def parseTime_unknown_layout)

text \<open>
  Claim C6. For a kill time that is not empty and has neither 5 nor 8 characters,
  \<open>NewManager\<close> returns an error (the unknown provider, or else the unknown layout of
  the time), and it has not called \<open>InitProvider\<close>.
\<close>

theorem NewManager_rejects_kill_time_length:
  assumes "sessionsKillTime \<noteq> []"
    and "length sessionsKillTime \<noteq> 5" and "length sessionsKillTime \<noteq> 8"
  shows "fst (NewManager lb provides providerName maxLifeTime maxIdleTime sessionsKillTime
                provParams) =
           (if provides providerName = None then Inl (UnknownProvider providerName)
            else Inl ParseTimeUnknownLayout) \<and>
         \<not> InitProvider_called
             (snd (snd (NewManager lb provides providerName maxLifeTime maxIdleTime
                          sessionsKillTime provParams)))"
proof (cases "provides providerName")
  case None
  then show ?thesis
    by (simp add: NewManager_def InitProvider_called_def)
next
  case (Some provider0)
  with assms(1) show ?thesis
    by (simp add: NewManager_def InitProvider_called_def Let_def
          SetSessionsKillTime_unknown_layout [OF assms(2) assms(3)])
qed

theorem NewManager_rejects_kill_time_length_witness:
  "''3am'' \<noteq> [] \<and> length ''3am'' \<noteq> 5 \<and> length ''3am'' \<noteq> 8 \<and>
   fst (NewManager
          \<lparr>time_Parse = (\<lambda>_ _. Inr empty_t), redis_ParseURL = (\<lambda>_. Inl 0),
            sql_Open = (\<lambda>_ _. Inl 0)\<rparr>
          [''redis'' \<mapsto> Redis \<lparr>redis_client = None, redis_namespace = [],
                                redis_maxLifeTime = 0, redis_maxIdleTime = 0\<rparr>]
          ''redis'' 0 0 ''3am'' []) = Inl ParseTimeUnknownLayout \<and>
   \<not> InitProvider_called
       (snd (snd (NewManager
          \<lparr>time_Parse = (\<lambda>_ _. Inr empty_t), redis_ParseURL = (\<lambda>_. Inl 0),
            sql_Open = (\<lambda>_ _. Inl 0)\<rparr>
          [''redis'' \<mapsto> Redis \<lparr>redis_client = None, redis_namespace = [],
                                redis_maxLifeTime = 0, redis_maxIdleTime = 0\<rparr>]
          ''redis'' 0 0 ''3am'' [])))"
proof -
  have h: "''3am'' \<noteq> []" "length ''3am'' \<noteq> 5" "length ''3am'' \<noteq> 8"
    by simp_all
  from h NewManager_rejects_kill_time_length [OF h, of
      "\<lparr>time_Parse = (\<lambda>_ _. Inr empty_t), redis_ParseURL = (\<lambda>_. Inl 0),
        sql_Open = (\<lambda>_ _. Inl 0)\<rparr>"
      "[''redis'' \<mapsto> Redis \<lparr>redis_client = None, redis_namespace = [],
                             redis_maxLifeTime = 0, redis_maxIdleTime = 0\<rparr>]"
      "''redis''" 0 0 "[]"]
  show ?thesis by simp
qed

subsection \<open>The clock and the durations\<close>

lemma clock_seconds_of_day: "Hour t * 60 * 60 + Minute t * 60 + Second t = day_sec t"
  by (simp add: Hour_def Minute_def Second_def)

lemma day_sec_range: "0 \<le> day_sec t \<and> day_sec t < 86400"
  by (simp add: day_sec_def)

lemma day_sec_Truncate: "day_sec (Truncate_Second t) = day_sec t"
  by (simp add: day_sec_def Truncate_Second_def)

lemma mod_day_negative:
  fixes d :: int
  assumes "- 86400 < d" and "d < 0"
  shows "d mod 86400 = 86400 + d"
proof -
  have "(86400 + d) mod 86400 = 86400 + d"
    by (rule mod_pos_pos_trivial) (use assms in linarith)+
  moreover have "(86400 + d) mod 86400 = d mod 86400"
    by (simp only: mod_add_self1)
  ultimately show ?thesis by simp
qed

lemma kill_sleep_sec_eq: "kill_sleep_sec kill now = (day_sec kill - day_sec now) mod 86400"
proof -
  have r: "0 \<le> day_sec kill" "day_sec kill < 86400" "0 \<le> day_sec now" "day_sec now < 86400"
    using day_sec_range by simp_all
  have unfold: "kill_sleep_sec kill now =
      (if day_sec kill - day_sec now < 0 then 24 * 60 * 60 + (day_sec kill - day_sec now)
       else day_sec kill - day_sec now)"
    by (simp only: kill_sleep_sec_def clock_seconds_of_day day_sec_Truncate Let_def)
  show ?thesis
  proof (cases "day_sec kill - day_sec now < 0")
    case True
    with r have "(day_sec kill - day_sec now) mod 86400 = 86400 + (day_sec kill - day_sec now)"
      by (intro mod_day_negative) linarith+
    with True unfold show ?thesis by simp
  next
    case False
    with r have "(day_sec kill - day_sec now) mod 86400 = day_sec kill - day_sec now"
      by (intro mod_pos_pos_trivial) linarith+
    with False unfold show ?thesis by simp
  qed
qed

lemma kill_sleep_sec_range: "0 \<le> kill_sleep_sec kill now \<and> kill_sleep_sec kill now < 86400"
  by (simp add: kill_sleep_sec_eq)

lemma sint_Seconds:
  assumes "- 9223372036 \<le> n" and "n \<le> 9223372036"
  shows "sint (Seconds (word_of_int n)) = n * 1000000000"
proof -
  have eq: "Seconds (word_of_int n) = (word_of_int (n * 1000000000) :: int64)"
    by (simp add: Seconds_def)
  have lo: "- (2 ^ 63) \<le> n * 1000000000"
    using assms by simp
  have hi: "n * 1000000000 < 2 ^ 63"
    using assms by simp
  have "sint (word_of_int (n * 1000000000) :: int64) = signed_take_bit 63 (n * 1000000000)"
    by (simp only: sint_sbintrunc') simp
  also have "\<dots> = n * 1000000000"
    using lo hi by (rule signed_take_bit_int_eq_self)
  finally show ?thesis by (simp only: eq)
qed

subsection \<open>The loops of the scheduler\<close>

lemma WriteToLog_WARN:
  "WriteToLog stamp w s LOG_LEVEL_WARN =
     Inr (w @ [''SessionManager'' @ [CHR 0x09] @ stamp @ [CHR 0x09] @ ''WARN'' @ [CHR 0x09] @ s @
               [CHR 0x0A]])"
  by (simp add: WriteToLog_def LogLevel_String_def log_levels_def LOG_LEVEL_WARN_def)

lemma WriteToLog_DEBUG:
  "WriteToLog stamp w s LOG_LEVEL_DEBUG =
     Inr (w @ [''SessionManager'' @ [CHR 0x09] @ stamp @ [CHR 0x09] @ ''DEBUG'' @ [CHR 0x09] @ s @
               [CHR 0x0A]])"
  by (simp add: WriteToLog_def LogLevel_String_def log_levels_def LOG_LEVEL_DEBUG_def)

lemma actions_Cons:
  "actions (e # tr) = (case e of Write _ \<Rightarrow> actions tr | _ \<Rightarrow> e # actions tr)"
  by (cases e) (simp_all add: actions_def)

lemma actions_logged_WARN: "actions (logged c stamp s LOG_LEVEL_WARN k) = actions k"
  by (simp add: logged_def WriteToLog_WARN actions_def)

lemma actions_logged_DEBUG: "actions (logged c stamp s LOG_LEVEL_DEBUG k) = actions k"
  by (simp add: logged_def WriteToLog_DEBUG actions_def)

lemma actions_gc_loop_Timeout:
  "actions (gc_loop l logLev v ((Timeout, stamp) # rest)) =
     After (Seconds v) # Call_SessionGC # actions (gc_loop l logLev v rest)"
  by (simp add: actions_Cons actions_logged_DEBUG)

lemma actions_gc_loop_Done:
  "actions (gc_loop l logLev v ((Done, stamp) # rest)) = [After (Seconds v), Return]"
  by (simp add: actions_def)

lemma actions_kill_loop_Timeout:
  "actions (kill_loop l logLev kill ((now, stamp1, Timeout, stamp2) # rest)) =
     After (Seconds (word_of_int (kill_sleep_sec kill now))) # Call_DestroyAllSessions #
     Sleep (Seconds 1) # actions (kill_loop l logLev kill rest)"
  by (simp add: actions_Cons actions_logged_DEBUG actions_logged_WARN)

lemma actions_kill_loop_Done:
  "actions (kill_loop l logLev kill ((now, stamp1, Done, stamp2) # rest)) =
     [After (Seconds (word_of_int (kill_sleep_sec kill now))), Return]"
  by (simp add: actions_Cons actions_logged_WARN) (simp add: actions_def)

text \<open>
  Claim C2. For every reading of the clock and every kill time, the daily loop computes
  its sleep as the kill time's second of the day minus the clock's second of the day,
  modulo 86400: a number of seconds from 0 up to 86399, whose duration in nanoseconds
  does not wrap. The timer is created with that duration (0 fires at once); when it fires
  the loop calls \<open>DestroyAllSessions\<close>, sleeps one second and goes on with the next
  iteration, which computes the sleep again; when the context is done the loop returns.
\<close>

theorem kill_loop_schedule:
  "kill_sleep_sec kill now =
     ((Hour kill * 60 * 60 + Minute kill * 60 + Second kill) -
      (Hour now * 60 * 60 + Minute now * 60 + Second now)) mod 86400 \<and>
   0 \<le> kill_sleep_sec kill now \<and> kill_sleep_sec kill now < 86400 \<and>
   sint (Seconds (word_of_int (kill_sleep_sec kill now))) =
     kill_sleep_sec kill now * 1000000000 \<and>
   sint (Seconds 1) = 1000000000 \<and>
   actions (kill_loop l logLev kill ((now, stamp1, Timeout, stamp2) # rest)) =
     After (Seconds (word_of_int (kill_sleep_sec kill now))) # Call_DestroyAllSessions #
     Sleep (Seconds 1) # actions (kill_loop l logLev kill rest) \<and>
   actions (kill_loop l logLev kill ((now, stamp1, Done, stamp2) # rest)) =
     [After (Seconds (word_of_int (kill_sleep_sec kill now))), Return]"
proof (intro conjI)
  show "kill_sleep_sec kill now =
     ((Hour kill * 60 * 60 + Minute kill * 60 + Second kill) -
      (Hour now * 60 * 60 + Minute now * 60 + Second now)) mod 86400"
    by (simp only: clock_seconds_of_day kill_sleep_sec_eq)
  show "0 \<le> kill_sleep_sec kill now" "kill_sleep_sec kill now < 86400"
    using kill_sleep_sec_range by simp_all
  show "sint (Seconds (word_of_int (kill_sleep_sec kill now))) =
          kill_sleep_sec kill now * 1000000000"
    by (rule sint_Seconds) (use kill_sleep_sec_range [of kill now] in linarith)+
  show "sint (Seconds 1) = 1000000000"
    by (simp add: Seconds_def)
  show "actions (kill_loop l logLev kill ((now, stamp1, Timeout, stamp2) # rest)) =
     After (Seconds (word_of_int (kill_sleep_sec kill now))) # Call_DestroyAllSessions #
     Sleep (Seconds 1) # actions (kill_loop l logLev kill rest)"
    by (rule actions_kill_loop_Timeout)
  show "actions (kill_loop l logLev kill ((now, stamp1, Done, stamp2) # rest)) =
     [After (Seconds (word_of_int (kill_sleep_sec kill now))), Return]"
    by (rule actions_kill_loop_Done)
qed

theorem kill_loop_schedule_witness:
  "kill_sleep_sec \<lparr>wall_sec = 10800, nsec = 0, zone_offset = 0\<rparr>
     \<lparr>wall_sec = 86390, nsec = 5, zone_offset = 0\<rparr> = 10810 \<and>
   kill_sleep_sec \<lparr>wall_sec = 10800, nsec = 0, zone_offset = 0\<rparr>
     \<lparr>wall_sec = 10800, nsec = 5, zone_offset = 0\<rparr> = 0 \<and>
   actions (kill_loop True LOG_LEVEL_DEBUG \<lparr>wall_sec = 10800, nsec = 0, zone_offset = 0\<rparr>
     [(\<lparr>wall_sec = 86390, nsec = 5, zone_offset = 0\<rparr>, ''t1'', Timeout, ''t2'')]) =
     [After 10810000000000, Call_DestroyAllSessions, Sleep 1000000000]"
proof -
  have v: "kill_sleep_sec \<lparr>wall_sec = 10800, nsec = 0, zone_offset = 0\<rparr>
     \<lparr>wall_sec = 86390, nsec = 5, zone_offset = 0\<rparr> = 10810"
    by (simp add: kill_sleep_sec_def Hour_def Minute_def Second_def day_sec_def
          Truncate_Second_def)
  have z: "kill_sleep_sec \<lparr>wall_sec = 10800, nsec = 0, zone_offset = 0\<rparr>
     \<lparr>wall_sec = 10800, nsec = 5, zone_offset = 0\<rparr> = 0"
    by (simp add: kill_sleep_sec_def Hour_def Minute_def Second_def day_sec_def
          Truncate_Second_def)
  have e: "actions (kill_loop True LOG_LEVEL_DEBUG \<lparr>wall_sec = 10800, nsec = 0, zone_offset = 0\<rparr> []) = []"
    by (simp add: actions_def)
  from kill_loop_schedule [of "\<lparr>wall_sec = 10800, nsec = 0, zone_offset = 0\<rparr>"
      "\<lparr>wall_sec = 86390, nsec = 5, zone_offset = 0\<rparr>" True LOG_LEVEL_DEBUG "''t1''" "''t2''" "[]"]
  have "actions (kill_loop True LOG_LEVEL_DEBUG \<lparr>wall_sec = 10800, nsec = 0, zone_offset = 0\<rparr>
     [(\<lparr>wall_sec = 86390, nsec = 5, zone_offset = 0\<rparr>, ''t1'', Timeout, ''t2'')]) =
     [After (Seconds (word_of_int 10810)), Call_DestroyAllSessions, Sleep (Seconds 1)]"
    by (simp only: v e)
  then show ?thesis
    using v z by (simp add: Seconds_def)
qed

lemma StartGC_result:
  "\<exists>l'. StartGC stamp l logLev manager w =
     Inr (l', manager\<lparr>gcCancel := Some (next_ctx w)\<rparr>,
          w\<lparr>next_ctx := next_ctx w + 1,
            goroutines := goroutines w @
              (if SessionsKillTime manager \<noteq> empty_t then
                 [\<lparr>g_loop = Kill_loop, g_ctx = next_ctx w, g_l = (l \<noteq> None), g_logLev = logLev\<rparr>]
               else []) @
              (case gc_sleep_sec (Provider_GetMaxLifeTime (provider manager))
                      (Provider_GetMaxIdleTime (provider manager)) of
                 None \<Rightarrow> []
               | Some sleep_sec \<Rightarrow>
                   [\<lparr>g_loop = GC_loop sleep_sec, g_ctx = next_ctx w, g_l = (l \<noteq> None),
                     g_logLev = logLev\<rparr>])\<rparr>)"
  by (cases "gc_sleep_sec (Provider_GetMaxLifeTime (provider manager))
               (Provider_GetMaxIdleTime (provider manager))"; cases l)
     (simp_all add: StartGC_def Let_def WriteToLog_DEBUG)

lemma gc_sleep_sec_None: "(gc_sleep_sec life idle = None) = (life = 0 \<and> idle = 0)"
  by (simp add: gc_sleep_sec_def)

lemma sint_pos_or_neg: "(v::int64) \<noteq> 0 \<Longrightarrow> \<not> 0 < sint v \<Longrightarrow> sint v < 0"
  by (metis linorder_neqE_linordered_idom signed_eq_0_iff)

lemma gc_sleep_sec_idle_only: "life = 0 \<Longrightarrow> idle \<noteq> 0 \<Longrightarrow> gc_sleep_sec life idle = Some idle"
  by (auto simp: gc_sleep_sec_def dest: sint_pos_or_neg)

lemma gc_sleep_sec_life_only: "idle = 0 \<Longrightarrow> life \<noteq> 0 \<Longrightarrow> gc_sleep_sec life idle = Some life"
  by (auto simp: gc_sleep_sec_def dest: sint_pos_or_neg)

lemma gc_sleep_sec_both:
  "life \<noteq> 0 \<Longrightarrow> idle \<noteq> 0 \<Longrightarrow>
   gc_sleep_sec life idle = Some (if sint idle < sint life then idle else life)"
  by (simp add: gc_sleep_sec_def)

lemma sint_Seconds_word:
  "- 9223372036 \<le> sint v \<Longrightarrow> sint v \<le> 9223372036 \<Longrightarrow> sint (Seconds v) = sint v * 1000000000"
  using sint_Seconds [of "sint v"] by simp

text \<open>
  Claim C1, as amended. \<open>StartGC\<close> does not start the idle/lifetime loop when life time
  and idle time are both zero; when exactly one of them is not zero the seconds of the
  loop are that one, when both are not zero the smaller of the two (as signed 64-bit
  integers). The loop creates its timer with \<open>time.Duration(sleep_sec) * time.Second\<close>,
  which is that number of seconds when the number lies between -9223372036 and
  9223372036; every time the timer fires the loop calls \<open>SessionGC\<close>. Beyond these
  bounds the product wraps: with an idle time of 9223372037 seconds the duration is
  negative.
\<close>

theorem gc_loop_interval:
  assumes "life = Provider_GetMaxLifeTime (provider manager)"
    and "idle = Provider_GetMaxIdleTime (provider manager)"
  shows "(gc_sleep_sec life idle = None) = (life = 0 \<and> idle = 0) \<and>
     (life = 0 \<and> idle \<noteq> 0 \<longrightarrow> gc_sleep_sec life idle = Some idle) \<and>
     (idle = 0 \<and> life \<noteq> 0 \<longrightarrow> gc_sleep_sec life idle = Some life) \<and>
     (life \<noteq> 0 \<and> idle \<noteq> 0 \<longrightarrow>
        gc_sleep_sec life idle = Some (if sint idle < sint life then idle else life)) \<and>
     (\<exists>l'. StartGC stamp l logLev manager w =
        Inr (l', manager\<lparr>gcCancel := Some (next_ctx w)\<rparr>,
             w\<lparr>next_ctx := next_ctx w + 1,
               goroutines := goroutines w @
                 (if SessionsKillTime manager \<noteq> empty_t then
                    [\<lparr>g_loop = Kill_loop, g_ctx = next_ctx w, g_l = (l \<noteq> None),
                      g_logLev = logLev\<rparr>]
                  else []) @
                 (case gc_sleep_sec life idle of
                    None \<Rightarrow> []
                  | Some sleep_sec \<Rightarrow>
                      [\<lparr>g_loop = GC_loop sleep_sec, g_ctx = next_ctx w, g_l = (l \<noteq> None),
                        g_logLev = logLev\<rparr>])\<rparr>)) \<and>
     (- 9223372036 \<le> sint v \<and> sint v \<le> 9223372036 \<longrightarrow>
        sint (Seconds v) = sint v * 1000000000) \<and>
     actions (gc_loop gl glogLev v ((Timeout, gstamp) # rest)) =
       After (Seconds v) # Call_SessionGC # actions (gc_loop gl glogLev v rest) \<and>
     actions (gc_loop gl glogLev v ((Done, gstamp) # rest)) = [After (Seconds v), Return]"
proof (intro conjI impI)
  show "(gc_sleep_sec life idle = None) = (life = 0 \<and> idle = 0)"
    by (rule gc_sleep_sec_None)
  show "gc_sleep_sec life idle = Some idle" if "life = 0 \<and> idle \<noteq> 0"
    using that by (simp add: gc_sleep_sec_idle_only)
  show "gc_sleep_sec life idle = Some life" if "idle = 0 \<and> life \<noteq> 0"
    using that by (simp add: gc_sleep_sec_life_only)
  show "gc_sleep_sec life idle = Some (if sint idle < sint life then idle else life)"
    if "life \<noteq> 0 \<and> idle \<noteq> 0"
    using that by (simp add: gc_sleep_sec_both)
  show "\<exists>l'. StartGC stamp l logLev manager w =
        Inr (l', manager\<lparr>gcCancel := Some (next_ctx w)\<rparr>,
             w\<lparr>next_ctx := next_ctx w + 1,
               goroutines := goroutines w @
                 (if SessionsKillTime manager \<noteq> empty_t then
                    [\<lparr>g_loop = Kill_loop, g_ctx = next_ctx w, g_l = (l \<noteq> None),
                      g_logLev = logLev\<rparr>]
                  else []) @
                 (case gc_sleep_sec life idle of
                    None \<Rightarrow> []
                  | Some sleep_sec \<Rightarrow>
                      [\<lparr>g_loop = GC_loop sleep_sec, g_ctx = next_ctx w, g_l = (l \<noteq> None),
                        g_logLev = logLev\<rparr>])\<rparr>)"
    unfolding assms by (rule StartGC_result)
  show "sint (Seconds v) = sint v * 1000000000"
    if "- 9223372036 \<le> sint v \<and> sint v \<le> 9223372036"
    using that by (simp add: sint_Seconds_word)
  show "actions (gc_loop gl glogLev v ((Timeout, gstamp) # rest)) =
       After (Seconds v) # Call_SessionGC # actions (gc_loop gl glogLev v rest)"
    by (rule actions_gc_loop_Timeout)
  show "actions (gc_loop gl glogLev v ((Done, gstamp) # rest)) = [After (Seconds v), Return]"
    by (rule actions_gc_loop_Done)
qed

theorem gc_loop_interval_counterexample:
  "gc_sleep_sec 0 9223372037 = Some 9223372037 \<and>
   sint (9223372037 :: int64) = 9223372037 \<and>
   sint (Seconds 9223372037) = - 9223372036709551616 \<and>
   sint (Seconds 9223372037) \<noteq> 9223372037 * 1000000000 \<and>
   actions (gc_loop False LOG_LEVEL_ERROR 9223372037 [(Timeout, [])]) =
     [After (- 9223372036709551616), Call_SessionGC]"
proof -
  have s: "Seconds 9223372037 = (- 9223372036709551616 :: int64)"
    by (simp add: Seconds_def)
  have "(0::int) < 9223372037" by simp
  then have g: "gc_sleep_sec 0 9223372037 = Some 9223372037"
    by (simp add: gc_sleep_sec_def)
  have e: "actions (gc_loop False LOG_LEVEL_ERROR 9223372037 []) = []"
    by (simp add: actions_def)
  have a: "actions (gc_loop False LOG_LEVEL_ERROR 9223372037 [(Timeout, [])]) =
     [After (- 9223372036709551616), Call_SessionGC]"
    by (simp only: actions_gc_loop_Timeout s e)
  show ?thesis
    using g a by (simp add: s)
qed

theorem gc_loop_interval_witness:
  "(0::int64) = Provider_GetMaxLifeTime (provider
      \<lparr>provider = Redis \<lparr>redis_client = None, redis_namespace = [], redis_maxLifeTime = 0,
         redis_maxIdleTime = 5\<rparr>, SessionsKillTime = empty_t, gcCancel = None\<rparr>) \<and>
   (5::int64) = Provider_GetMaxIdleTime (provider
      \<lparr>provider = Redis \<lparr>redis_client = None, redis_namespace = [], redis_maxLifeTime = 0,
         redis_maxIdleTime = 5\<rparr>, SessionsKillTime = empty_t, gcCancel = None\<rparr>) \<and>
   (0::int64) = 0 \<and> (5::int64) \<noteq> 0 \<and> gc_sleep_sec 0 5 = Some 5 \<and>
   - 9223372036 \<le> sint (5::int64) \<and> sint (5::int64) \<le> 9223372036 \<and>
   sint (Seconds 5) = sint (5::int64) * 1000000000 \<and>
   actions (gc_loop True LOG_LEVEL_DEBUG 5 [(Timeout, ''t''), (Done, ''u'')]) =
     [After 5000000000, Call_SessionGC, After 5000000000, Return]"
proof -
  let ?m = "\<lparr>provider = Redis \<lparr>redis_client = None, redis_namespace = [], redis_maxLifeTime = 0,
         redis_maxIdleTime = 5\<rparr>, SessionsKillTime = empty_t, gcCancel = None\<rparr>"
  have h1: "(0::int64) = Provider_GetMaxLifeTime (provider ?m)"
    by (simp add: Provider_GetMaxLifeTime_def)
  have h2: "(5::int64) = Provider_GetMaxIdleTime (provider ?m)"
    by (simp add: Provider_GetMaxIdleTime_def)
  have h3: "- 9223372036 \<le> sint (5::int64)" "sint (5::int64) \<le> 9223372036"
    by simp_all
  note t = gc_loop_interval [OF h1 h2, where v = 5 and gl = True and glogLev = LOG_LEVEL_DEBUG
      and gstamp = "''t''" and rest = "[(Done, ''u'')]"]
  note u = gc_loop_interval [OF h1 h2, where v = 5 and gl = True and glogLev = LOG_LEVEL_DEBUG
      and gstamp = "''u''" and rest = "[]"]
  from t have a: "gc_sleep_sec 0 5 = Some 5"
    by simp
  from t h3 have b: "sint (Seconds 5) = sint (5::int64) * 1000000000"
    by blast
  from t u have c: "actions (gc_loop True LOG_LEVEL_DEBUG 5 [(Timeout, ''t''), (Done, ''u'')]) =
     [After (Seconds 5), Call_SessionGC, After (Seconds 5), Return]"
    by simp
  have d: "Seconds 5 = 5000000000"
    by (simp add: Seconds_def)
  from h1 h2 h3 a b c show ?thesis
    by (simp only: d) simp
qed

subsection \<open>Starting and stopping the scheduler\<close>

lemma WriteToLog_format:
  "0 \<le> lv \<Longrightarrow> lv < 3 \<Longrightarrow>
   WriteToLog stamp w s lv =
     Inr (w @ [''SessionManager'' @ [CHR 0x09] @ stamp @ [CHR 0x09] @ log_levels ! nat lv @
               [CHR 0x09] @ s @ [CHR 0x0A]])"
  by (simp add: WriteToLog_def LogLevel_String_def log_levels_def)

lemma log_levels_names: "set log_levels = {''ERROR'', ''WARN'', ''DEBUG''}"
  by (auto simp: log_levels_def)

lemma StartGC_nil_writer:
  "StartGC stamp None logLev manager w = Inr (l', manager', w') \<Longrightarrow> l' = None"
  by (auto simp: StartGC_def Let_def split: option.splits)

lemma gc_loop_nil_writer: "actions (gc_loop False logLev v script) = gc_loop False logLev v script"
proof (induction script)
  case Nil
  show ?case by (simp add: actions_def)
next
  case (Cons step script)
  obtain sel stamp where step: "step = (sel, stamp)"
    by (cases step)
  show ?case
  proof (cases sel)
    case Done
    with step show ?thesis by (simp add: actions_def)
  next
    case Timeout
    with step Cons.IH show ?thesis by (simp add: actions_Cons logged_def)
  qed
qed

lemma kill_loop_nil_writer:
  "actions (kill_loop False logLev kill script) = kill_loop False logLev kill script"
proof (induction script)
  case Nil
  show ?case by (simp add: actions_def)
next
  case (Cons step script)
  obtain now stamp1 sel stamp2 where step: "step = (now, stamp1, sel, stamp2)"
    by (cases step)
  show ?case
  proof (cases sel)
    case Done
    with step show ?thesis by (simp add: actions_def logged_def)
  next
    case Timeout
    with step Cons.IH show ?thesis by (simp add: actions_Cons logged_def)
  qed
qed

text \<open>
  Claim C7 says that a message is written only when its level is at or below the
  caller's log level. \<open>StartGC\<close> breaks it: called with a writer and the log level
  \<open>LOG_LEVEL_WARN\<close> for a provider with an idle time of 5 seconds, it writes the line
  "running garbage collector every 5 seconds" with the level \<open>DEBUG\<close>, which is above
  \<open>LOG_LEVEL_WARN\<close>. The line has the four fields of the claim, separated by tabs.
\<close>

theorem StartGC_writes_DEBUG_line_at_WARN:
  "StartGC ''2026-01-02T03:04:05Z'' (Some []) LOG_LEVEL_WARN
     \<lparr>provider = Redis \<lparr>redis_client = None, redis_namespace = [], redis_maxLifeTime = 0,
        redis_maxIdleTime = 5\<rparr>, SessionsKillTime = empty_t, gcCancel = None\<rparr>
     \<lparr>next_ctx = 0, cancelled = {}, goroutines = []\<rparr> =
   Inr (Some [''SessionManager'' @ [CHR 0x09] @ ''2026-01-02T03:04:05Z'' @ [CHR 0x09] @
              ''DEBUG'' @ [CHR 0x09] @ ''running garbage collector every 5 seconds'' @
              [CHR 0x0A]],
        \<lparr>provider = Redis \<lparr>redis_client = None, redis_namespace = [], redis_maxLifeTime = 0,
           redis_maxIdleTime = 5\<rparr>, SessionsKillTime = empty_t, gcCancel = Some 0\<rparr>,
        \<lparr>next_ctx = 1, cancelled = {},
         goroutines = [\<lparr>g_loop = GC_loop 5, g_ctx = 0, g_l = True,
                         g_logLev = LOG_LEVEL_WARN\<rparr>]\<rparr>) \<and>
   LogLevel_String LOG_LEVEL_DEBUG = Inr ''DEBUG'' \<and>
   \<not> LOG_LEVEL_DEBUG \<le> LOG_LEVEL_WARN"
proof -
  have "(0::int) < 5" by simp
  then have g: "gc_sleep_sec 0 5 = Some 5"
    by (simp add: gc_sleep_sec_def)
  have d: "sprintf_d 5 = ''5''"
    by (simp add: sprintf_d_def dec_nat.simps)
  show ?thesis
    by (simp add: StartGC_def Let_def g d Provider_GetMaxLifeTime_def Provider_GetMaxIdleTime_def
          WriteToLog_DEBUG empty_t_def LogLevel_String_def log_levels_def)
       (simp add: LOG_LEVEL_WARN_def LOG_LEVEL_DEBUG_def)
qed

lemma StopGC_result:
  "gcCancel manager = Some ctx \<Longrightarrow>
   StopGC manager w = (manager, w\<lparr>cancelled := insert ctx (cancelled w)\<rparr>)"
  by (simp add: StopGC_def)

lemma StartGC_Inr_facts:
  assumes "StartGC stamp l logLev manager w = Inr (l', manager', w')"
  shows "gcCancel manager' = Some (next_ctx w)" and "next_ctx w' = next_ctx w + 1"
    and "cancelled w' = cancelled w"
    and "\<exists>new. goroutines w' = goroutines w @ new \<and> list_all (\<lambda>gr. g_ctx gr = next_ctx w) new"
proof -
  from StartGC_result [of stamp l logLev manager w] assms
  have m: "manager' = manager\<lparr>gcCancel := Some (next_ctx w)\<rparr>"
    and w: "w' = w\<lparr>next_ctx := next_ctx w + 1,
            goroutines := goroutines w @
              (if SessionsKillTime manager \<noteq> empty_t then
                 [\<lparr>g_loop = Kill_loop, g_ctx = next_ctx w, g_l = (l \<noteq> None), g_logLev = logLev\<rparr>]
               else []) @
              (case gc_sleep_sec (Provider_GetMaxLifeTime (provider manager))
                      (Provider_GetMaxIdleTime (provider manager)) of
                 None \<Rightarrow> []
               | Some sleep_sec \<Rightarrow>
                   [\<lparr>g_loop = GC_loop sleep_sec, g_ctx = next_ctx w, g_l = (l \<noteq> None),
                     g_logLev = logLev\<rparr>])\<rparr>"
    by auto
  from m show "gcCancel manager' = Some (next_ctx w)" by simp
  from w show "next_ctx w' = next_ctx w + 1" by simp
  from w show "cancelled w' = cancelled w" by simp
  from w show "\<exists>new. goroutines w' = goroutines w @ new \<and>
                 list_all (\<lambda>gr. g_ctx gr = next_ctx w) new"
    by (cases "gc_sleep_sec (Provider_GetMaxLifeTime (provider manager))
                 (Provider_GetMaxIdleTime (provider manager))") auto
qed

lemma list_all_started_with: "list_all (\<lambda>gr. g_ctx gr = ctx) (started_with w ctx)"
  by (simp add: started_with_def list_all_iff)

lemma list_all_can_stop:
  "ctx \<in> cancelled w' \<Longrightarrow> list_all (can_stop w') (started_with w ctx)"
  by (simp add: started_with_def list_all_iff can_stop_def)

lemma list_all_not_can_stop:
  "ctx \<notin> cancelled w' \<Longrightarrow> list_all (\<lambda>gr. \<not> can_stop w' gr) (started_with w ctx)"
  by (simp add: started_with_def list_all_iff can_stop_def)

text \<open>
  Claim C8, as amended. \<open>StopGC\<close> cancels the context of the latest \<open>StartGC\<close>, so the
  loops that call started can leave. A second \<open>StartGC\<close> stores the cancel function of
  a new context and does not call the old one: the loops of the earlier \<open>StartGC\<close> are
  still there, their context is not cancelled, and \<open>StopGC\<close> after the second
  \<open>StartGC\<close> cancels the loops of the second call only, however often it is called.
\<close>

theorem StopGC_cancels_only_latest_StartGC:
  assumes fresh: "next_ctx w \<notin> cancelled w"
    and s1: "StartGC stamp1 l1 logLev1 manager w = Inr (l1', manager1, w1)"
    and s2: "StartGC stamp2 l2 logLev2 manager1 w1 = Inr (l2', manager2, w2)"
  shows "list_all (can_stop (snd (StopGC manager1 w1))) (started_with w1 (next_ctx w)) \<and>
         set (started_with w1 (next_ctx w)) \<subseteq> set (goroutines w2) \<and>
         list_all (\<lambda>gr. \<not> can_stop w2 gr) (started_with w1 (next_ctx w)) \<and>
         list_all (\<lambda>gr. \<not> can_stop (snd (StopGC manager2 w2)) gr) (started_with w1 (next_ctx w)) \<and>
         list_all (can_stop (snd (StopGC manager2 w2))) (started_with w2 (next_ctx w1)) \<and>
         StopGC manager2 (snd (StopGC manager2 w2)) = StopGC manager2 w2"
proof -
  note a = StartGC_Inr_facts [OF s1]
  note b = StartGC_Inr_facts [OF s2]
  have stop1: "StopGC manager1 w1 = (manager1, w1\<lparr>cancelled := insert (next_ctx w) (cancelled w1)\<rparr>)"
    using a(1) by (rule StopGC_result)
  have stop2: "StopGC manager2 w2 = (manager2, w2\<lparr>cancelled := insert (next_ctx w1) (cancelled w2)\<rparr>)"
    using b(1) by (rule StopGC_result)
  have c2: "cancelled w2 = cancelled w"
    using a(3) b(3) by simp
  have p1: "list_all (can_stop (snd (StopGC manager1 w1))) (started_with w1 (next_ctx w))"
    by (rule list_all_can_stop) (simp add: stop1)
  from b(4) have p2: "set (started_with w1 (next_ctx w)) \<subseteq> set (goroutines w2)"
    by (auto simp: started_with_def)
  have p3: "list_all (\<lambda>gr. \<not> can_stop w2 gr) (started_with w1 (next_ctx w))"
    by (rule list_all_not_can_stop) (simp add: c2 fresh)
  have p4: "list_all (\<lambda>gr. \<not> can_stop (snd (StopGC manager2 w2)) gr)
              (started_with w1 (next_ctx w))"
    by (rule list_all_not_can_stop) (simp add: stop2 c2 fresh a(2))
  have p5: "list_all (can_stop (snd (StopGC manager2 w2))) (started_with w2 (next_ctx w1))"
    by (rule list_all_can_stop) (simp add: stop2)
  have p6: "StopGC manager2 (snd (StopGC manager2 w2)) = StopGC manager2 w2"
    using b(1) by (simp add: StopGC_def)
  from p1 p2 p3 p4 p5 p6 show ?thesis by blast
qed

theorem second_StartGC_leaves_first_loop_running:
  "StartGC [] None LOG_LEVEL_ERROR
     \<lparr>provider = Redis \<lparr>redis_client = None, redis_namespace = [], redis_maxLifeTime = 0,
        redis_maxIdleTime = 5\<rparr>,
      SessionsKillTime = empty_t, gcCancel = None\<rparr>
     \<lparr>next_ctx = 0, cancelled = {},
      goroutines = []\<rparr> =
   Inr (None,
     \<lparr>provider = Redis \<lparr>redis_client = None, redis_namespace = [], redis_maxLifeTime = 0,
        redis_maxIdleTime = 5\<rparr>,
      SessionsKillTime = empty_t, gcCancel = Some 0\<rparr>,
     \<lparr>next_ctx = 1, cancelled = {},
      goroutines = [\<lparr>g_loop = GC_loop 5, g_ctx = 0, g_l = False, g_logLev = LOG_LEVEL_ERROR\<rparr>]\<rparr>) \<and>
   StartGC [] None LOG_LEVEL_ERROR
     \<lparr>provider = Redis \<lparr>redis_client = None, redis_namespace = [], redis_maxLifeTime = 0,
        redis_maxIdleTime = 5\<rparr>,
      SessionsKillTime = empty_t, gcCancel = Some 0\<rparr>
     \<lparr>next_ctx = 1, cancelled = {},
      goroutines = [\<lparr>g_loop = GC_loop 5, g_ctx = 0, g_l = False, g_logLev = LOG_LEVEL_ERROR\<rparr>]\<rparr> =
   Inr (None,
     \<lparr>provider = Redis \<lparr>redis_client = None, redis_namespace = [], redis_maxLifeTime = 0,
        redis_maxIdleTime = 5\<rparr>,
      SessionsKillTime = empty_t, gcCancel = Some 1\<rparr>,
     \<lparr>next_ctx = 2, cancelled = {},
      goroutines = [\<lparr>g_loop = GC_loop 5, g_ctx = 0, g_l = False, g_logLev = LOG_LEVEL_ERROR\<rparr>,
        \<lparr>g_loop = GC_loop 5, g_ctx = 1, g_l = False, g_logLev = LOG_LEVEL_ERROR\<rparr>]\<rparr>) \<and>
   \<not> can_stop
     \<lparr>next_ctx = 2, cancelled = {},
      goroutines = [\<lparr>g_loop = GC_loop 5, g_ctx = 0, g_l = False, g_logLev = LOG_LEVEL_ERROR\<rparr>,
        \<lparr>g_loop = GC_loop 5, g_ctx = 1, g_l = False, g_logLev = LOG_LEVEL_ERROR\<rparr>]\<rparr>
     \<lparr>g_loop = GC_loop 5, g_ctx = 0, g_l = False, g_logLev = LOG_LEVEL_ERROR\<rparr> \<and>
   \<not> can_stop
     (snd (StopGC
       \<lparr>provider = Redis \<lparr>redis_client = None, redis_namespace = [], redis_maxLifeTime = 0,
        redis_maxIdleTime = 5\<rparr>,
      SessionsKillTime = empty_t, gcCancel = Some 1\<rparr>
       \<lparr>next_ctx = 2, cancelled = {},
      goroutines = [\<lparr>g_loop = GC_loop 5, g_ctx = 0, g_l = False, g_logLev = LOG_LEVEL_ERROR\<rparr>,
        \<lparr>g_loop = GC_loop 5, g_ctx = 1, g_l = False, g_logLev = LOG_LEVEL_ERROR\<rparr>]\<rparr>))
     \<lparr>g_loop = GC_loop 5, g_ctx = 0, g_l = False, g_logLev = LOG_LEVEL_ERROR\<rparr>"
proof -
  have "(0::int) < 5" by simp
  then have g: "gc_sleep_sec 0 5 = Some 5"
    by (simp add: gc_sleep_sec_def)
  show ?thesis
    by (simp add: StartGC_def Let_def g Provider_GetMaxLifeTime_def Provider_GetMaxIdleTime_def
          StopGC_def can_stop_def)
qed

theorem StopGC_cancels_only_latest_StartGC_witness:
  "next_ctx
     \<lparr>next_ctx = 0, cancelled = {},
      goroutines = []\<rparr> \<notin>
   cancelled
     \<lparr>next_ctx = 0, cancelled = {},
      goroutines = []\<rparr> \<and>
   StartGC [] None LOG_LEVEL_ERROR
     \<lparr>provider = Redis \<lparr>redis_client = None, redis_namespace = [], redis_maxLifeTime = 0,
        redis_maxIdleTime = 5\<rparr>,
      SessionsKillTime = empty_t, gcCancel = None\<rparr>
     \<lparr>next_ctx = 0, cancelled = {},
      goroutines = []\<rparr> =
   Inr (None,
     \<lparr>provider = Redis \<lparr>redis_client = None, redis_namespace = [], redis_maxLifeTime = 0,
        redis_maxIdleTime = 5\<rparr>,
      SessionsKillTime = empty_t, gcCancel = Some 0\<rparr>,
     \<lparr>next_ctx = 1, cancelled = {},
      goroutines = [\<lparr>g_loop = GC_loop 5, g_ctx = 0, g_l = False, g_logLev = LOG_LEVEL_ERROR\<rparr>]\<rparr>) \<and>
   StartGC [] None LOG_LEVEL_ERROR
     \<lparr>provider = Redis \<lparr>redis_client = None, redis_namespace = [], redis_maxLifeTime = 0,
        redis_maxIdleTime = 5\<rparr>,
      SessionsKillTime = empty_t, gcCancel = Some 0\<rparr>
     \<lparr>next_ctx = 1, cancelled = {},
      goroutines = [\<lparr>g_loop = GC_loop 5, g_ctx = 0, g_l = False, g_logLev = LOG_LEVEL_ERROR\<rparr>]\<rparr> =
   Inr (None,
     \<lparr>provider = Redis \<lparr>redis_client = None, redis_namespace = [], redis_maxLifeTime = 0,
        redis_maxIdleTime = 5\<rparr>,
      SessionsKillTime = empty_t, gcCancel = Some 1\<rparr>,
     \<lparr>next_ctx = 2, cancelled = {},
      goroutines = [\<lparr>g_loop = GC_loop 5, g_ctx = 0, g_l = False, g_logLev = LOG_LEVEL_ERROR\<rparr>,
        \<lparr>g_loop = GC_loop 5, g_ctx = 1, g_l = False, g_logLev = LOG_LEVEL_ERROR\<rparr>]\<rparr>) \<and>
   started_with
     \<lparr>next_ctx = 1, cancelled = {},
      goroutines = [\<lparr>g_loop = GC_loop 5, g_ctx = 0, g_l = False, g_logLev = LOG_LEVEL_ERROR\<rparr>]\<rparr> 0 =
     [\<lparr>g_loop = GC_loop 5, g_ctx = 0, g_l = False, g_logLev = LOG_LEVEL_ERROR\<rparr>] \<and>
   started_with
     \<lparr>next_ctx = 2, cancelled = {},
      goroutines = [\<lparr>g_loop = GC_loop 5, g_ctx = 0, g_l = False, g_logLev = LOG_LEVEL_ERROR\<rparr>,
        \<lparr>g_loop = GC_loop 5, g_ctx = 1, g_l = False, g_logLev = LOG_LEVEL_ERROR\<rparr>]\<rparr> 1 =
     [\<lparr>g_loop = GC_loop 5, g_ctx = 1, g_l = False, g_logLev = LOG_LEVEL_ERROR\<rparr>] \<and>
   can_stop
     (snd (StopGC
       \<lparr>provider = Redis \<lparr>redis_client = None, redis_namespace = [], redis_maxLifeTime = 0,
        redis_maxIdleTime = 5\<rparr>,
      SessionsKillTime = empty_t, gcCancel = Some 0\<rparr>
       \<lparr>next_ctx = 1, cancelled = {},
      goroutines = [\<lparr>g_loop = GC_loop 5, g_ctx = 0, g_l = False, g_logLev = LOG_LEVEL_ERROR\<rparr>]\<rparr>))
     \<lparr>g_loop = GC_loop 5, g_ctx = 0, g_l = False, g_logLev = LOG_LEVEL_ERROR\<rparr> \<and>
   \<not> can_stop
     (snd (StopGC
       \<lparr>provider = Redis \<lparr>redis_client = None, redis_namespace = [], redis_maxLifeTime = 0,
        redis_maxIdleTime = 5\<rparr>,
      SessionsKillTime = empty_t, gcCancel = Some 1\<rparr>
       \<lparr>next_ctx = 2, cancelled = {},
      goroutines = [\<lparr>g_loop = GC_loop 5, g_ctx = 0, g_l = False, g_logLev = LOG_LEVEL_ERROR\<rparr>,
        \<lparr>g_loop = GC_loop 5, g_ctx = 1, g_l = False, g_logLev = LOG_LEVEL_ERROR\<rparr>]\<rparr>))
     \<lparr>g_loop = GC_loop 5, g_ctx = 0, g_l = False, g_logLev = LOG_LEVEL_ERROR\<rparr> \<and>
   can_stop
     (snd (StopGC
       \<lparr>provider = Redis \<lparr>redis_client = None, redis_namespace = [], redis_maxLifeTime = 0,
        redis_maxIdleTime = 5\<rparr>,
      SessionsKillTime = empty_t, gcCancel = Some 1\<rparr>
       \<lparr>next_ctx = 2, cancelled = {},
      goroutines = [\<lparr>g_loop = GC_loop 5, g_ctx = 0, g_l = False, g_logLev = LOG_LEVEL_ERROR\<rparr>,
        \<lparr>g_loop = GC_loop 5, g_ctx = 1, g_l = False, g_logLev = LOG_LEVEL_ERROR\<rparr>]\<rparr>))
     \<lparr>g_loop = GC_loop 5, g_ctx = 1, g_l = False, g_logLev = LOG_LEVEL_ERROR\<rparr>"
proof -
  let ?M0 = "\<lparr>provider = Redis \<lparr>redis_client = None, redis_namespace = [], redis_maxLifeTime = 0,
        redis_maxIdleTime = 5\<rparr>,
      SessionsKillTime = empty_t, gcCancel = None\<rparr>"
  let ?M1 = "\<lparr>provider = Redis \<lparr>redis_client = None, redis_namespace = [], redis_maxLifeTime = 0,
        redis_maxIdleTime = 5\<rparr>,
      SessionsKillTime = empty_t, gcCancel = Some 0\<rparr>"
  let ?M2 = "\<lparr>provider = Redis \<lparr>redis_client = None, redis_namespace = [], redis_maxLifeTime = 0,
        redis_maxIdleTime = 5\<rparr>,
      SessionsKillTime = empty_t, gcCancel = Some 1\<rparr>"
  let ?W0 = "\<lparr>next_ctx = 0, cancelled = {},
      goroutines = []\<rparr>"
  let ?W1 = "\<lparr>next_ctx = 1, cancelled = {},
      goroutines = [\<lparr>g_loop = GC_loop 5, g_ctx = 0, g_l = False, g_logLev = LOG_LEVEL_ERROR\<rparr>]\<rparr>"
  let ?W2 = "\<lparr>next_ctx = 2, cancelled = {},
      goroutines = [\<lparr>g_loop = GC_loop 5, g_ctx = 0, g_l = False, g_logLev = LOG_LEVEL_ERROR\<rparr>,
        \<lparr>g_loop = GC_loop 5, g_ctx = 1, g_l = False, g_logLev = LOG_LEVEL_ERROR\<rparr>]\<rparr>"
  have "(0::int) < 5" by simp
  then have g: "gc_sleep_sec 0 5 = Some 5"
    by (simp add: gc_sleep_sec_def)
  have fresh: "next_ctx ?W0 \<notin> cancelled ?W0"
    by simp
  have s1: "StartGC [] None LOG_LEVEL_ERROR ?M0 ?W0 = Inr (None, ?M1, ?W1)"
    by (simp add: StartGC_def Let_def g Provider_GetMaxLifeTime_def Provider_GetMaxIdleTime_def)
  have s2: "StartGC [] None LOG_LEVEL_ERROR ?M1 ?W1 = Inr (None, ?M2, ?W2)"
    by (simp add: StartGC_def Let_def g Provider_GetMaxLifeTime_def Provider_GetMaxIdleTime_def)
  have a: "started_with ?W1 0 = [\<lparr>g_loop = GC_loop 5, g_ctx = 0, g_l = False, g_logLev = LOG_LEVEL_ERROR\<rparr>]"
    by (simp add: started_with_def)
  have b: "started_with ?W2 1 = [\<lparr>g_loop = GC_loop 5, g_ctx = 1, g_l = False, g_logLev = LOG_LEVEL_ERROR\<rparr>]"
    by (simp add: started_with_def)
  from StopGC_cancels_only_latest_StartGC [OF fresh s1 s2] a b
  have "can_stop (snd (StopGC ?M1 ?W1)) \<lparr>g_loop = GC_loop 5, g_ctx = 0, g_l = False, g_logLev = LOG_LEVEL_ERROR\<rparr> \<and>
        \<not> can_stop (snd (StopGC ?M2 ?W2)) \<lparr>g_loop = GC_loop 5, g_ctx = 0, g_l = False, g_logLev = LOG_LEVEL_ERROR\<rparr> \<and>
        can_stop (snd (StopGC ?M2 ?W2)) \<lparr>g_loop = GC_loop 5, g_ctx = 1, g_l = False, g_logLev = LOG_LEVEL_ERROR\<rparr>"
    by simp
  with fresh s1 s2 a b show ?thesis
    by blast
qed

subsection \<open>The session handle: Set\<close>

lemma redis_setValue_sends:
  "redis_client rp = Some c \<Longrightarrow> Encode g val = Inr b \<Longrightarrow>
   redis_setValue g rp sid key val =
     (map_option ExternalError (status_reply c (length (cmds c))),
      rp\<lparr>redis_client := Some (c\<lparr>cmds := cmds c @
        [Cmd_Set (redis_namespace rp @ '':'' @ sid @ '':'' @ key) b
           (Seconds (redis_maxLifeTime rp))]\<rparr>)\<rparr>)"
  by (simp add: redis_setValue_def redis_getPrefixedKey_def)

lemma sqlite_Set_effect:
  "sqlite_Set now pder st key v =
     (None,
      if DeepEqual (map_index (st_value st) key) v then st
      else st\<lparr>st_value := (st_value st)(key \<mapsto> v), valueModified := True,
             timeAccessed := now\<rparr>,
      pder)"
  by (simp add: sqlite_Set_def)

text \<open>
  Claim C3 says that \<open>Set\<close> updates the last-access time of the session. \<open>Set\<close> of the
  redis store does not: on an initialized provider it sends the \<open>SET\<close> of the key and
  nothing else, so the entry \<open>time_accessed\<close> of the session stays as it was. \<open>Put\<close>
  with the same arguments sends the same \<open>SET\<close> and then the \<open>SET\<close> of
  \<open>time_accessed\<close>.
\<close>

theorem redis_Set_leaves_access_time:
  "redis_Set
     \<lparr>Encode = (\<lambda>x. case x of In_time _ \<Rightarrow> Inr [2] | _ \<Rightarrow> Inr [1]),
      Decode_bool = (\<lambda>_. Inl 0), Decode_string = (\<lambda>_. Inl 0), Decode_int64 = (\<lambda>_. Inl 0),
      Decode_float64 = (\<lambda>_. Inl 0), Decode_map = (\<lambda>_. Inl 0)\<rparr>
     \<lparr>redis_client = Some \<lparr>cmds = [], get_reply = (\<lambda>_. Inr []), status_reply = (\<lambda>_. None)\<rparr>,
      redis_namespace = ''ns'', redis_maxLifeTime = 0, redis_maxIdleTime = 0\<rparr>
     \<lparr>redis_sid = ''s''\<rparr> ''n'' (GInt64 42) =
   (None,
     \<lparr>redis_client = Some \<lparr>cmds = [Cmd_Set ''ns:s:n'' [1] 0],
        get_reply = (\<lambda>_. Inr []), status_reply = (\<lambda>_. None)\<rparr>,
      redis_namespace = ''ns'', redis_maxLifeTime = 0, redis_maxIdleTime = 0\<rparr>) \<and>
   redis_Put
     \<lparr>Encode = (\<lambda>x. case x of In_time _ \<Rightarrow> Inr [2] | _ \<Rightarrow> Inr [1]),
      Decode_bool = (\<lambda>_. Inl 0), Decode_string = (\<lambda>_. Inl 0), Decode_int64 = (\<lambda>_. Inl 0),
      Decode_float64 = (\<lambda>_. Inl 0), Decode_map = (\<lambda>_. Inl 0)\<rparr>
     \<lparr>wall_sec = 200, nsec = 0, zone_offset = 0\<rparr>
     \<lparr>redis_client = Some \<lparr>cmds = [], get_reply = (\<lambda>_. Inr []), status_reply = (\<lambda>_. None)\<rparr>,
      redis_namespace = ''ns'', redis_maxLifeTime = 0, redis_maxIdleTime = 0\<rparr>
     \<lparr>redis_sid = ''s''\<rparr> ''n'' (GInt64 42) =
   (None,
     \<lparr>redis_client = Some \<lparr>cmds = [Cmd_Set ''ns:s:n'' [1] 0, Cmd_Set ''ns:s:time_accessed'' [2] 0],
        get_reply = (\<lambda>_. Inr []), status_reply = (\<lambda>_. None)\<rparr>,
      redis_namespace = ''ns'', redis_maxLifeTime = 0, redis_maxIdleTime = 0\<rparr>)"
  by (simp add: redis_Set_def redis_Put_def redis_Flush_def redis_sessionAccessed_def
        redis_setValue_def redis_getPrefixedKey_def Seconds_def)

subsection \<open>The session handle: Flush\<close>

lemma sqlite_Flush_clean: "\<not> valueModified st \<Longrightarrow> sqlite_Flush g pder st = (None, st, pder)"
  by (simp add: sqlite_Flush_def)

lemma sqlite_Flush_dirty:
  "valueModified st \<Longrightarrow> Encode g (In_map (st_value st)) = Inr val \<Longrightarrow>
   sqlite_dbConn pder = Some db \<Longrightarrow> exec_reply db (length (stmts db)) = None \<Longrightarrow>
   sqlite_Flush g pder st =
     (None, st\<lparr>valueModified := False\<rparr>,
      pder\<lparr>sqlite_dbConn := Some (db\<lparr>stmts := stmts db @ [Sql_UpdateVal val (sqlite_sid st)]\<rparr>)\<rparr>)"
  by (simp add: sqlite_Flush_def getForDb_def ExecContext_def)

lemma sqlite_Flush_encode_fails:
  "valueModified st \<Longrightarrow> Encode g (In_map (st_value st)) = Inl e \<Longrightarrow>
   sqlite_Flush g pder st = (Some (ExternalError e), st, pder)"
  by (simp add: sqlite_Flush_def getForDb_def)

lemma sqlite_Flush_update_fails:
  "valueModified st \<Longrightarrow> Encode g (In_map (st_value st)) = Inr val \<Longrightarrow>
   sqlite_dbConn pder = Some db \<Longrightarrow> exec_reply db (length (stmts db)) = Some e \<Longrightarrow>
   sqlite_Flush g pder st =
     (Some (ExternalError e), st,
      pder\<lparr>sqlite_dbConn := Some (db\<lparr>stmts := stmts db @ [Sql_UpdateVal val (sqlite_sid st)]\<rparr>)\<rparr>)"
  by (simp add: sqlite_Flush_def getForDb_def ExecContext_def)

lemma sqlite_Flush_success_clean:
  "fst (sqlite_Flush g pder st) = None \<Longrightarrow> \<not> valueModified (fst (snd (sqlite_Flush g pder st)))"
  by (auto simp: sqlite_Flush_def getForDb_def ExecContext_def
           split: if_splits sum.splits option.splits)

lemma sqlite_SessionInit_clean:
  "fst (sqlite_SessionInit now pder sid) = Inr st \<Longrightarrow> \<not> valueModified st"
  by (auto simp: sqlite_SessionInit_def NewSessionStore_def ExecContext_def
           split: option.splits if_splits)

lemma sqlite_SessionRead_clean:
  "fst (sqlite_SessionRead g now pder sid) = Inr st \<Longrightarrow> \<not> valueModified st"
  by (auto simp: sqlite_SessionRead_def QueryRowContext_def NewSessionStore_def Let_def
           dest: sqlite_SessionInit_clean
           split: option.splits query_result.splits sum.splits)

lemma valueModified_sqlite_do:
  "valueModified (sqlite_do conv pder now c st) =
     (valueModified st \<or>
      (case c of
         Call_Set key v \<Rightarrow> \<not> DeepEqual (map_index (st_value st) key) v
       | _ \<Rightarrow> False))"
  by (cases c)
     (simp_all add: sqlite_do_def sqlite_Set_effect sqlite_GetBool_def sqlite_GetString_def
        sqlite_GetInt_def sqlite_GetFloat_def split: option.splits)

lemma valueModified_sqlite_calls:
  "valueModified (sqlite_calls conv pder cs st) =
     (valueModified st \<or> Set_changes conv pder cs st)"
proof (induction cs arbitrary: st)
  case Nil
  show ?case by simp
next
  case (Cons step cs)
  obtain now c where step: "step = (now, c)"
    by (cases step)
  show ?case
    unfolding step by (simp add: Cons.IH valueModified_sqlite_do disj_assoc)
qed

lemma sqlite_Flush_after_reads:
  "\<not> valueModified st \<Longrightarrow> \<not> Set_changes conv pder cs st \<Longrightarrow>
   sqlite_Flush g pder (sqlite_calls conv pder cs st) = (None, sqlite_calls conv pder cs st, pder)"
  by (rule sqlite_Flush_clean) (simp add: valueModified_sqlite_calls)

lemma redis_Flush_sends:
  "redis_client rp = Some c \<Longrightarrow> Encode g (In_time now) = Inr b \<Longrightarrow>
   redis_Flush g now rp rst =
     (None,
      rp\<lparr>redis_client := Some (c\<lparr>cmds := cmds c @
        [Cmd_Set (redis_namespace rp @ '':'' @ redis_sid rst @ '':'' @ ''time_accessed'') b
           (Seconds (redis_maxLifeTime rp))]\<rparr>)\<rparr>)"
  by (cases "status_reply c (length (cmds c))")
     (simp_all add: redis_Flush_def redis_sessionAccessed_def redis_setValue_sends Let_def)

lemma redis_Flush_no_error: "redis_client rp = Some c \<Longrightarrow> fst (redis_Flush g now rp rst) = None"
  by (cases "Encode g (In_time now)"; cases "status_reply c (length (cmds c))")
     (simp_all add: redis_Flush_def redis_sessionAccessed_def redis_setValue_def Let_def)

text \<open>
  Claim C4, as amended. For the sqlite store: when the store has been opened
  (\<open>SessionInit\<close>, \<open>SessionRead\<close>) or flushed with success and since then only typed
  getters and \<open>Set\<close>s of values deeply equal to the stored ones have been called,
  \<open>Flush\<close> makes no backend call and leaves store and provider as they are. When among
  such calls a \<open>Set\<close> has met a stored value not deeply equal to the one it sets,
  \<open>Flush\<close> encodes the map and sends exactly one \<open>UPDATE\<close> with it; if both succeed it
  resets the mark of the store, if the encoding fails it returns that error without a
  backend call, if the \<open>UPDATE\<close> fails it returns that error, and in both cases of
  failure the store is as before, mark included. \<open>Delete\<close> is not among the calls
  considered. For the redis store with an initialized provider, \<open>Flush\<close> returns no error
  and, once the current time is encoded, sends one \<open>SET\<close> of the access time to the
  backend, mutation or not.
\<close>

theorem Flush_persists_changed_store:
  "(fst (sqlite_SessionInit opened pder_before sid) = Inr st \<and> \<not> Set_changes conv pder cs st \<longrightarrow>
      sqlite_Flush g pder (sqlite_calls conv pder cs st) =
        (None, sqlite_calls conv pder cs st, pder)) \<and>
   (fst (sqlite_SessionRead g_read opened pder_before sid) = Inr st \<and> \<not> Set_changes conv pder cs st \<longrightarrow>
      sqlite_Flush g pder (sqlite_calls conv pder cs st) =
        (None, sqlite_calls conv pder cs st, pder)) \<and>
   (sqlite_Flush g pder_before st_before = (None, st, pder) \<and> \<not> Set_changes conv pder cs st \<longrightarrow>
      sqlite_Flush g pder (sqlite_calls conv pder cs st) =
        (None, sqlite_calls conv pder cs st, pder)) \<and>
   (Set_changes conv pder cs st \<and>
    Encode g (In_map (st_value (sqlite_calls conv pder cs st))) = Inr val \<and>
    sqlite_dbConn pder = Some db \<and> exec_reply db (length (stmts db)) = None \<longrightarrow>
      sqlite_Flush g pder (sqlite_calls conv pder cs st) =
        (None, (sqlite_calls conv pder cs st)\<lparr>valueModified := False\<rparr>,
         pder\<lparr>sqlite_dbConn := Some (db\<lparr>stmts := stmts db @
           [Sql_UpdateVal val (sqlite_sid (sqlite_calls conv pder cs st))]\<rparr>)\<rparr>)) \<and>
   (Set_changes conv pder cs st \<and>
    Encode g (In_map (st_value (sqlite_calls conv pder cs st))) = Inl e \<longrightarrow>
      sqlite_Flush g pder (sqlite_calls conv pder cs st) =
        (Some (ExternalError e), sqlite_calls conv pder cs st, pder)) \<and>
   (Set_changes conv pder cs st \<and>
    Encode g (In_map (st_value (sqlite_calls conv pder cs st))) = Inr val \<and>
    sqlite_dbConn pder = Some db \<and> exec_reply db (length (stmts db)) = Some e \<longrightarrow>
      sqlite_Flush g pder (sqlite_calls conv pder cs st) =
        (Some (ExternalError e), sqlite_calls conv pder cs st,
         pder\<lparr>sqlite_dbConn := Some (db\<lparr>stmts := stmts db @
           [Sql_UpdateVal val (sqlite_sid (sqlite_calls conv pder cs st))]\<rparr>)\<rparr>)) \<and>
   (redis_client rp = Some c \<longrightarrow> fst (redis_Flush g now rp rst) = None) \<and>
   (redis_client rp = Some c \<and> Encode g (In_time now) = Inr b \<longrightarrow>
      redis_Flush g now rp rst =
        (None,
         rp\<lparr>redis_client := Some (c\<lparr>cmds := cmds c @
           [Cmd_Set (redis_namespace rp @ '':'' @ redis_sid rst @ '':'' @ ''time_accessed'') b
              (Seconds (redis_maxLifeTime rp))]\<rparr>)\<rparr>))"
proof (intro conjI impI)
  let ?st = "sqlite_calls conv pder cs st"
  show "sqlite_Flush g pder ?st = (None, ?st, pder)"
    if "fst (sqlite_SessionInit opened pder_before sid) = Inr st \<and> \<not> Set_changes conv pder cs st"
    using that sqlite_SessionInit_clean [of opened pder_before sid st]
    by (simp add: sqlite_Flush_after_reads)
  show "sqlite_Flush g pder ?st = (None, ?st, pder)"
    if "fst (sqlite_SessionRead g_read opened pder_before sid) = Inr st \<and> \<not> Set_changes conv pder cs st"
    using that sqlite_SessionRead_clean [of g_read opened pder_before sid st]
    by (simp add: sqlite_Flush_after_reads)
  show "sqlite_Flush g pder ?st = (None, ?st, pder)"
    if "sqlite_Flush g pder_before st_before = (None, st, pder) \<and> \<not> Set_changes conv pder cs st"
    using that sqlite_Flush_success_clean [of g pder_before st_before]
    by (simp add: sqlite_Flush_after_reads)
  show "sqlite_Flush g pder ?st =
        (None, ?st\<lparr>valueModified := False\<rparr>,
         pder\<lparr>sqlite_dbConn := Some (db\<lparr>stmts := stmts db @
           [Sql_UpdateVal val (sqlite_sid ?st)]\<rparr>)\<rparr>)"
    if "Set_changes conv pder cs st \<and> Encode g (In_map (st_value ?st)) = Inr val \<and>
        sqlite_dbConn pder = Some db \<and> exec_reply db (length (stmts db)) = None"
    using that by (intro sqlite_Flush_dirty) (simp_all add: valueModified_sqlite_calls)
  show "sqlite_Flush g pder ?st = (Some (ExternalError e), ?st, pder)"
    if "Set_changes conv pder cs st \<and> Encode g (In_map (st_value ?st)) = Inl e"
    using that by (intro sqlite_Flush_encode_fails) (simp_all add: valueModified_sqlite_calls)
  show "sqlite_Flush g pder ?st =
        (Some (ExternalError e), ?st,
         pder\<lparr>sqlite_dbConn := Some (db\<lparr>stmts := stmts db @
           [Sql_UpdateVal val (sqlite_sid ?st)]\<rparr>)\<rparr>)"
    if "Set_changes conv pder cs st \<and> Encode g (In_map (st_value ?st)) = Inr val \<and>
        sqlite_dbConn pder = Some db \<and> exec_reply db (length (stmts db)) = Some e"
    using that by (intro sqlite_Flush_update_fails) (simp_all add: valueModified_sqlite_calls)
  show "fst (redis_Flush g now rp rst) = None" if "redis_client rp = Some c"
    using that by (rule redis_Flush_no_error)
  show "redis_Flush g now rp rst =
        (None,
         rp\<lparr>redis_client := Some (c\<lparr>cmds := cmds c @
           [Cmd_Set (redis_namespace rp @ '':'' @ redis_sid rst @ '':'' @ ''time_accessed'') b
              (Seconds (redis_maxLifeTime rp))]\<rparr>)\<rparr>)"
    if "redis_client rp = Some c \<and> Encode g (In_time now) = Inr b"
    using that by (simp add: redis_Flush_sends)
qed

theorem redis_Flush_without_mutation_calls_backend:
  "redis_SessionInit \<lparr>redis_client = Some \<lparr>cmds = [], get_reply = (\<lambda>_. Inr []), status_reply = (\<lambda>_. None)\<rparr>, redis_namespace = ''ns'', redis_maxLifeTime = 0, redis_maxIdleTime = 0\<rparr> ''s'' = Inr \<lparr>redis_sid = ''s''\<rparr> \<and>
   redis_Flush \<lparr>Encode = (\<lambda>_. Inr [1]), Decode_bool = (\<lambda>_. Inl 0), Decode_string = (\<lambda>_. Inl 0), Decode_int64 = (\<lambda>_. Inl 0), Decode_float64 = (\<lambda>_. Inl 0), Decode_map = (\<lambda>_. Inl 0)\<rparr> \<lparr>wall_sec = 200, nsec = 0, zone_offset = 0\<rparr> \<lparr>redis_client = Some \<lparr>cmds = [], get_reply = (\<lambda>_. Inr []), status_reply = (\<lambda>_. None)\<rparr>, redis_namespace = ''ns'', redis_maxLifeTime = 0, redis_maxIdleTime = 0\<rparr> \<lparr>redis_sid = ''s''\<rparr> = (None, \<lparr>redis_client = Some \<lparr>cmds = [Cmd_Set ''ns:s:time_accessed'' [1] 0], get_reply = (\<lambda>_. Inr []), status_reply = (\<lambda>_. None)\<rparr>, redis_namespace = ''ns'', redis_maxLifeTime = 0, redis_maxIdleTime = 0\<rparr>)"
  by (simp add: redis_SessionInit_def redis_SESS_ID_LEN_def redis_Flush_def
        redis_sessionAccessed_def redis_setValue_def redis_getPrefixedKey_def Seconds_def)

text \<open>
  \<open>Delete\<close> of the sqlite store removes the key from the map and leaves the mark of the
  store as it is: a \<open>Flush\<close> after a \<open>Delete\<close> alone sends nothing, and the row of the
  session keeps the deleted key.
\<close>

lemma sqlite_Delete_then_Flush_writes_nothing:
  "sqlite_Flush g \<lparr>sqlite_dbConn = Some \<lparr>stmts = [], exec_reply = (\<lambda>_. None), query_reply = (\<lambda>_. Query_ErrNoRows)\<rparr>, sqlite_encrkey = [], sqlite_maxLifeTime = 0, sqlite_maxIdleTime = 0\<rparr> (snd (sqlite_Delete \<lparr>wall_sec = 200, nsec = 0, zone_offset = 0\<rparr> \<lparr>sqlite_sid = ''s'', timeAccessed = \<lparr>wall_sec = 100, nsec = 0, zone_offset = 0\<rparr>, timeCreated = \<lparr>wall_sec = 100, nsec = 0, zone_offset = 0\<rparr>, st_value = [''n'' \<mapsto> GInt64 42], valueModified = False\<rparr> ''n'')) =
   (None,
    \<lparr>sqlite_sid = ''s'', timeAccessed = \<lparr>wall_sec = 200, nsec = 0, zone_offset = 0\<rparr>, timeCreated = \<lparr>wall_sec = 100, nsec = 0, zone_offset = 0\<rparr>, st_value = Map.empty,
     valueModified = False\<rparr>,
    \<lparr>sqlite_dbConn = Some \<lparr>stmts = [], exec_reply = (\<lambda>_. None), query_reply = (\<lambda>_. Query_ErrNoRows)\<rparr>, sqlite_encrkey = [], sqlite_maxLifeTime = 0, sqlite_maxIdleTime = 0\<rparr>)"
  by (simp add: sqlite_Delete_def sqlite_Flush_def)

theorem Flush_persists_changed_store_witness:
  "fst (sqlite_SessionInit \<lparr>wall_sec = 100, nsec = 0, zone_offset = 0\<rparr> \<lparr>sqlite_dbConn = Some \<lparr>stmts = [], exec_reply = (\<lambda>_. None), query_reply = (\<lambda>_. Query_ErrNoRows)\<rparr>, sqlite_encrkey = [], sqlite_maxLifeTime = 0, sqlite_maxIdleTime = 0\<rparr> ''s'') = Inr \<lparr>sqlite_sid = ''s'', timeAccessed = \<lparr>wall_sec = 100, nsec = 0, zone_offset = 0\<rparr>, timeCreated = \<lparr>wall_sec = 100, nsec = 0, zone_offset = 0\<rparr>, st_value = Map.empty, valueModified = False\<rparr> \<and>
   \<not> Set_changes (\<lambda>_. 0) \<lparr>sqlite_dbConn = Some \<lparr>stmts = [Sql_InsertOrIgnore ''s''], exec_reply = (\<lambda>_. None), query_reply = (\<lambda>_. Query_ErrNoRows)\<rparr>, sqlite_encrkey = [], sqlite_maxLifeTime = 0, sqlite_maxIdleTime = 0\<rparr> [(\<lparr>wall_sec = 200, nsec = 0, zone_offset = 0\<rparr>, Call_GetInt ''n'')] \<lparr>sqlite_sid = ''s'', timeAccessed = \<lparr>wall_sec = 100, nsec = 0, zone_offset = 0\<rparr>, timeCreated = \<lparr>wall_sec = 100, nsec = 0, zone_offset = 0\<rparr>, st_value = Map.empty, valueModified = False\<rparr> \<and>
   sqlite_calls (\<lambda>_. 0) \<lparr>sqlite_dbConn = Some \<lparr>stmts = [Sql_InsertOrIgnore ''s''], exec_reply = (\<lambda>_. None), query_reply = (\<lambda>_. Query_ErrNoRows)\<rparr>, sqlite_encrkey = [], sqlite_maxLifeTime = 0, sqlite_maxIdleTime = 0\<rparr> [(\<lparr>wall_sec = 200, nsec = 0, zone_offset = 0\<rparr>, Call_GetInt ''n'')] \<lparr>sqlite_sid = ''s'', timeAccessed = \<lparr>wall_sec = 100, nsec = 0, zone_offset = 0\<rparr>, timeCreated = \<lparr>wall_sec = 100, nsec = 0, zone_offset = 0\<rparr>, st_value = Map.empty, valueModified = False\<rparr> = \<lparr>sqlite_sid = ''s'', timeAccessed = \<lparr>wall_sec = 100, nsec = 0, zone_offset = 0\<rparr>, timeCreated = \<lparr>wall_sec = 100, nsec = 0, zone_offset = 0\<rparr>, st_value = Map.empty, valueModified = False\<rparr> \<and>
   sqlite_Flush \<lparr>Encode = (\<lambda>_. Inr [1]), Decode_bool = (\<lambda>_. Inl 0), Decode_string = (\<lambda>_. Inl 0), Decode_int64 = (\<lambda>_. Inl 0), Decode_float64 = (\<lambda>_. Inl 0), Decode_map = (\<lambda>_. Inl 0)\<rparr> \<lparr>sqlite_dbConn = Some \<lparr>stmts = [Sql_InsertOrIgnore ''s''], exec_reply = (\<lambda>_. None), query_reply = (\<lambda>_. Query_ErrNoRows)\<rparr>, sqlite_encrkey = [], sqlite_maxLifeTime = 0, sqlite_maxIdleTime = 0\<rparr> \<lparr>sqlite_sid = ''s'', timeAccessed = \<lparr>wall_sec = 100, nsec = 0, zone_offset = 0\<rparr>, timeCreated = \<lparr>wall_sec = 100, nsec = 0, zone_offset = 0\<rparr>, st_value = Map.empty, valueModified = False\<rparr> = (None, \<lparr>sqlite_sid = ''s'', timeAccessed = \<lparr>wall_sec = 100, nsec = 0, zone_offset = 0\<rparr>, timeCreated = \<lparr>wall_sec = 100, nsec = 0, zone_offset = 0\<rparr>, st_value = Map.empty, valueModified = False\<rparr>, \<lparr>sqlite_dbConn = Some \<lparr>stmts = [Sql_InsertOrIgnore ''s''], exec_reply = (\<lambda>_. None), query_reply = (\<lambda>_. Query_ErrNoRows)\<rparr>, sqlite_encrkey = [], sqlite_maxLifeTime = 0, sqlite_maxIdleTime = 0\<rparr>) \<and>
   fst (sqlite_SessionRead \<lparr>Encode = (\<lambda>_. Inr [1]), Decode_bool = (\<lambda>_. Inl 0), Decode_string = (\<lambda>_. Inl 0), Decode_int64 = (\<lambda>_. Inl 0), Decode_float64 = (\<lambda>_. Inl 0), Decode_map = (\<lambda>_. Inl 0)\<rparr> \<lparr>wall_sec = 100, nsec = 0, zone_offset = 0\<rparr> \<lparr>sqlite_dbConn = Some \<lparr>stmts = [], exec_reply = (\<lambda>_. None), query_reply = (\<lambda>_. Query_Row \<lparr>wall_sec = 100, nsec = 0, zone_offset = 0\<rparr> \<lparr>wall_sec = 100, nsec = 0, zone_offset = 0\<rparr> [])\<rparr>, sqlite_encrkey = [], sqlite_maxLifeTime = 0, sqlite_maxIdleTime = 0\<rparr> ''s'') = Inr \<lparr>sqlite_sid = ''s'', timeAccessed = \<lparr>wall_sec = 100, nsec = 0, zone_offset = 0\<rparr>, timeCreated = \<lparr>wall_sec = 100, nsec = 0, zone_offset = 0\<rparr>, st_value = Map.empty, valueModified = False\<rparr> \<and>
   \<not> Set_changes (\<lambda>_. 0) \<lparr>sqlite_dbConn = Some \<lparr>stmts = [Sql_UpdateAccessedReturning ''s''], exec_reply = (\<lambda>_. None), query_reply = (\<lambda>_. Query_Row \<lparr>wall_sec = 100, nsec = 0, zone_offset = 0\<rparr> \<lparr>wall_sec = 100, nsec = 0, zone_offset = 0\<rparr> [])\<rparr>, sqlite_encrkey = [], sqlite_maxLifeTime = 0, sqlite_maxIdleTime = 0\<rparr> [(\<lparr>wall_sec = 200, nsec = 0, zone_offset = 0\<rparr>, Call_GetInt ''n'')] \<lparr>sqlite_sid = ''s'', timeAccessed = \<lparr>wall_sec = 100, nsec = 0, zone_offset = 0\<rparr>, timeCreated = \<lparr>wall_sec = 100, nsec = 0, zone_offset = 0\<rparr>, st_value = Map.empty, valueModified = False\<rparr> \<and>
   sqlite_Flush \<lparr>Encode = (\<lambda>_. Inr [1]), Decode_bool = (\<lambda>_. Inl 0), Decode_string = (\<lambda>_. Inl 0), Decode_int64 = (\<lambda>_. Inl 0), Decode_float64 = (\<lambda>_. Inl 0), Decode_map = (\<lambda>_. Inl 0)\<rparr> \<lparr>sqlite_dbConn = Some \<lparr>stmts = [Sql_UpdateAccessedReturning ''s''], exec_reply = (\<lambda>_. None), query_reply = (\<lambda>_. Query_Row \<lparr>wall_sec = 100, nsec = 0, zone_offset = 0\<rparr> \<lparr>wall_sec = 100, nsec = 0, zone_offset = 0\<rparr> [])\<rparr>, sqlite_encrkey = [], sqlite_maxLifeTime = 0, sqlite_maxIdleTime = 0\<rparr> \<lparr>sqlite_sid = ''s'', timeAccessed = \<lparr>wall_sec = 100, nsec = 0, zone_offset = 0\<rparr>, timeCreated = \<lparr>wall_sec = 100, nsec = 0, zone_offset = 0\<rparr>, st_value = Map.empty, valueModified = False\<rparr> = (None, \<lparr>sqlite_sid = ''s'', timeAccessed = \<lparr>wall_sec = 100, nsec = 0, zone_offset = 0\<rparr>, timeCreated = \<lparr>wall_sec = 100, nsec = 0, zone_offset = 0\<rparr>, st_value = Map.empty, valueModified = False\<rparr>, \<lparr>sqlite_dbConn = Some \<lparr>stmts = [Sql_UpdateAccessedReturning ''s''], exec_reply = (\<lambda>_. None), query_reply = (\<lambda>_. Query_Row \<lparr>wall_sec = 100, nsec = 0, zone_offset = 0\<rparr> \<lparr>wall_sec = 100, nsec = 0, zone_offset = 0\<rparr> [])\<rparr>, sqlite_encrkey = [], sqlite_maxLifeTime = 0, sqlite_maxIdleTime = 0\<rparr>) \<and>
   sqlite_Flush \<lparr>Encode = (\<lambda>_. Inr [1]), Decode_bool = (\<lambda>_. Inl 0), Decode_string = (\<lambda>_. Inl 0), Decode_int64 = (\<lambda>_. Inl 0), Decode_float64 = (\<lambda>_. Inl 0), Decode_map = (\<lambda>_. Inl 0)\<rparr> \<lparr>sqlite_dbConn = Some \<lparr>stmts = [], exec_reply = (\<lambda>_. None), query_reply = (\<lambda>_. Query_ErrNoRows)\<rparr>, sqlite_encrkey = [], sqlite_maxLifeTime = 0, sqlite_maxIdleTime = 0\<rparr> \<lparr>sqlite_sid = ''s'', timeAccessed = \<lparr>wall_sec = 100, nsec = 0, zone_offset = 0\<rparr>, timeCreated = \<lparr>wall_sec = 100, nsec = 0, zone_offset = 0\<rparr>, st_value = [''n'' \<mapsto> GInt64 42], valueModified = True\<rparr> = (None, \<lparr>sqlite_sid = ''s'', timeAccessed = \<lparr>wall_sec = 100, nsec = 0, zone_offset = 0\<rparr>, timeCreated = \<lparr>wall_sec = 100, nsec = 0, zone_offset = 0\<rparr>, st_value = [''n'' \<mapsto> GInt64 42], valueModified = False\<rparr>, \<lparr>sqlite_dbConn = Some \<lparr>stmts = [Sql_UpdateVal [1] ''s''], exec_reply = (\<lambda>_. None), query_reply = (\<lambda>_. Query_ErrNoRows)\<rparr>, sqlite_encrkey = [], sqlite_maxLifeTime = 0, sqlite_maxIdleTime = 0\<rparr>) \<and>
   \<not> Set_changes (\<lambda>_. 0) \<lparr>sqlite_dbConn = Some \<lparr>stmts = [Sql_UpdateVal [1] ''s''], exec_reply = (\<lambda>_. None), query_reply = (\<lambda>_. Query_ErrNoRows)\<rparr>, sqlite_encrkey = [], sqlite_maxLifeTime = 0, sqlite_maxIdleTime = 0\<rparr> [(\<lparr>wall_sec = 200, nsec = 0, zone_offset = 0\<rparr>, Call_Set ''n'' (GInt64 42)), (\<lparr>wall_sec = 200, nsec = 0, zone_offset = 0\<rparr>, Call_GetInt ''n'')] \<lparr>sqlite_sid = ''s'', timeAccessed = \<lparr>wall_sec = 100, nsec = 0, zone_offset = 0\<rparr>, timeCreated = \<lparr>wall_sec = 100, nsec = 0, zone_offset = 0\<rparr>, st_value = [''n'' \<mapsto> GInt64 42], valueModified = False\<rparr> \<and>
   sqlite_calls (\<lambda>_. 0) \<lparr>sqlite_dbConn = Some \<lparr>stmts = [Sql_UpdateVal [1] ''s''], exec_reply = (\<lambda>_. None), query_reply = (\<lambda>_. Query_ErrNoRows)\<rparr>, sqlite_encrkey = [], sqlite_maxLifeTime = 0, sqlite_maxIdleTime = 0\<rparr> [(\<lparr>wall_sec = 200, nsec = 0, zone_offset = 0\<rparr>, Call_Set ''n'' (GInt64 42)), (\<lparr>wall_sec = 200, nsec = 0, zone_offset = 0\<rparr>, Call_GetInt ''n'')] \<lparr>sqlite_sid = ''s'', timeAccessed = \<lparr>wall_sec = 100, nsec = 0, zone_offset = 0\<rparr>, timeCreated = \<lparr>wall_sec = 100, nsec = 0, zone_offset = 0\<rparr>, st_value = [''n'' \<mapsto> GInt64 42], valueModified = False\<rparr> = \<lparr>sqlite_sid = ''s'', timeAccessed = \<lparr>wall_sec = 200, nsec = 0, zone_offset = 0\<rparr>, timeCreated = \<lparr>wall_sec = 100, nsec = 0, zone_offset = 0\<rparr>, st_value = [''n'' \<mapsto> GInt64 42], valueModified = False\<rparr> \<and>
   sqlite_Flush \<lparr>Encode = (\<lambda>_. Inr [1]), Decode_bool = (\<lambda>_. Inl 0), Decode_string = (\<lambda>_. Inl 0), Decode_int64 = (\<lambda>_. Inl 0), Decode_float64 = (\<lambda>_. Inl 0), Decode_map = (\<lambda>_. Inl 0)\<rparr> \<lparr>sqlite_dbConn = Some \<lparr>stmts = [Sql_UpdateVal [1] ''s''], exec_reply = (\<lambda>_. None), query_reply = (\<lambda>_. Query_ErrNoRows)\<rparr>, sqlite_encrkey = [], sqlite_maxLifeTime = 0, sqlite_maxIdleTime = 0\<rparr> \<lparr>sqlite_sid = ''s'', timeAccessed = \<lparr>wall_sec = 200, nsec = 0, zone_offset = 0\<rparr>, timeCreated = \<lparr>wall_sec = 100, nsec = 0, zone_offset = 0\<rparr>, st_value = [''n'' \<mapsto> GInt64 42], valueModified = False\<rparr> = (None, \<lparr>sqlite_sid = ''s'', timeAccessed = \<lparr>wall_sec = 200, nsec = 0, zone_offset = 0\<rparr>, timeCreated = \<lparr>wall_sec = 100, nsec = 0, zone_offset = 0\<rparr>, st_value = [''n'' \<mapsto> GInt64 42], valueModified = False\<rparr>, \<lparr>sqlite_dbConn = Some \<lparr>stmts = [Sql_UpdateVal [1] ''s''], exec_reply = (\<lambda>_. None), query_reply = (\<lambda>_. Query_ErrNoRows)\<rparr>, sqlite_encrkey = [], sqlite_maxLifeTime = 0, sqlite_maxIdleTime = 0\<rparr>) \<and>
   Set_changes (\<lambda>_. 0) \<lparr>sqlite_dbConn = Some \<lparr>stmts = [], exec_reply = (\<lambda>_. None), query_reply = (\<lambda>_. Query_ErrNoRows)\<rparr>, sqlite_encrkey = [], sqlite_maxLifeTime = 0, sqlite_maxIdleTime = 0\<rparr> [(\<lparr>wall_sec = 200, nsec = 0, zone_offset = 0\<rparr>, Call_Set ''n'' (GInt64 42))] \<lparr>sqlite_sid = ''s'', timeAccessed = \<lparr>wall_sec = 100, nsec = 0, zone_offset = 0\<rparr>, timeCreated = \<lparr>wall_sec = 100, nsec = 0, zone_offset = 0\<rparr>, st_value = Map.empty, valueModified = False\<rparr> \<and>
   sqlite_calls (\<lambda>_. 0) \<lparr>sqlite_dbConn = Some \<lparr>stmts = [], exec_reply = (\<lambda>_. None), query_reply = (\<lambda>_. Query_ErrNoRows)\<rparr>, sqlite_encrkey = [], sqlite_maxLifeTime = 0, sqlite_maxIdleTime = 0\<rparr> [(\<lparr>wall_sec = 200, nsec = 0, zone_offset = 0\<rparr>, Call_Set ''n'' (GInt64 42))] \<lparr>sqlite_sid = ''s'', timeAccessed = \<lparr>wall_sec = 100, nsec = 0, zone_offset = 0\<rparr>, timeCreated = \<lparr>wall_sec = 100, nsec = 0, zone_offset = 0\<rparr>, st_value = Map.empty, valueModified = False\<rparr> = \<lparr>sqlite_sid = ''s'', timeAccessed = \<lparr>wall_sec = 200, nsec = 0, zone_offset = 0\<rparr>, timeCreated = \<lparr>wall_sec = 100, nsec = 0, zone_offset = 0\<rparr>, st_value = [''n'' \<mapsto> GInt64 42], valueModified = True\<rparr> \<and>
   sqlite_Flush \<lparr>Encode = (\<lambda>_. Inr [1]), Decode_bool = (\<lambda>_. Inl 0), Decode_string = (\<lambda>_. Inl 0), Decode_int64 = (\<lambda>_. Inl 0), Decode_float64 = (\<lambda>_. Inl 0), Decode_map = (\<lambda>_. Inl 0)\<rparr> \<lparr>sqlite_dbConn = Some \<lparr>stmts = [], exec_reply = (\<lambda>_. None), query_reply = (\<lambda>_. Query_ErrNoRows)\<rparr>, sqlite_encrkey = [], sqlite_maxLifeTime = 0, sqlite_maxIdleTime = 0\<rparr> \<lparr>sqlite_sid = ''s'', timeAccessed = \<lparr>wall_sec = 200, nsec = 0, zone_offset = 0\<rparr>, timeCreated = \<lparr>wall_sec = 100, nsec = 0, zone_offset = 0\<rparr>, st_value = [''n'' \<mapsto> GInt64 42], valueModified = True\<rparr> = (None, \<lparr>sqlite_sid = ''s'', timeAccessed = \<lparr>wall_sec = 200, nsec = 0, zone_offset = 0\<rparr>, timeCreated = \<lparr>wall_sec = 100, nsec = 0, zone_offset = 0\<rparr>, st_value = [''n'' \<mapsto> GInt64 42], valueModified = False\<rparr>, \<lparr>sqlite_dbConn = Some \<lparr>stmts = [Sql_UpdateVal [1] ''s''], exec_reply = (\<lambda>_. None), query_reply = (\<lambda>_. Query_ErrNoRows)\<rparr>, sqlite_encrkey = [], sqlite_maxLifeTime = 0, sqlite_maxIdleTime = 0\<rparr>) \<and>
   sqlite_Flush \<lparr>Encode = (\<lambda>_. Inl 3), Decode_bool = (\<lambda>_. Inl 0), Decode_string = (\<lambda>_. Inl 0), Decode_int64 = (\<lambda>_. Inl 0), Decode_float64 = (\<lambda>_. Inl 0), Decode_map = (\<lambda>_. Inl 0)\<rparr> \<lparr>sqlite_dbConn = Some \<lparr>stmts = [], exec_reply = (\<lambda>_. None), query_reply = (\<lambda>_. Query_ErrNoRows)\<rparr>, sqlite_encrkey = [], sqlite_maxLifeTime = 0, sqlite_maxIdleTime = 0\<rparr> \<lparr>sqlite_sid = ''s'', timeAccessed = \<lparr>wall_sec = 200, nsec = 0, zone_offset = 0\<rparr>, timeCreated = \<lparr>wall_sec = 100, nsec = 0, zone_offset = 0\<rparr>, st_value = [''n'' \<mapsto> GInt64 42], valueModified = True\<rparr> = (Some (ExternalError 3), \<lparr>sqlite_sid = ''s'', timeAccessed = \<lparr>wall_sec = 200, nsec = 0, zone_offset = 0\<rparr>, timeCreated = \<lparr>wall_sec = 100, nsec = 0, zone_offset = 0\<rparr>, st_value = [''n'' \<mapsto> GInt64 42], valueModified = True\<rparr>, \<lparr>sqlite_dbConn = Some \<lparr>stmts = [], exec_reply = (\<lambda>_. None), query_reply = (\<lambda>_. Query_ErrNoRows)\<rparr>, sqlite_encrkey = [], sqlite_maxLifeTime = 0, sqlite_maxIdleTime = 0\<rparr>) \<and>
   Set_changes (\<lambda>_. 0) \<lparr>sqlite_dbConn = Some \<lparr>stmts = [], exec_reply = (\<lambda>_. Some 7), query_reply = (\<lambda>_. Query_ErrNoRows)\<rparr>, sqlite_encrkey = [], sqlite_maxLifeTime = 0, sqlite_maxIdleTime = 0\<rparr> [(\<lparr>wall_sec = 200, nsec = 0, zone_offset = 0\<rparr>, Call_Set ''n'' (GInt64 42))] \<lparr>sqlite_sid = ''s'', timeAccessed = \<lparr>wall_sec = 100, nsec = 0, zone_offset = 0\<rparr>, timeCreated = \<lparr>wall_sec = 100, nsec = 0, zone_offset = 0\<rparr>, st_value = Map.empty, valueModified = False\<rparr> \<and>
   sqlite_Flush \<lparr>Encode = (\<lambda>_. Inr [1]), Decode_bool = (\<lambda>_. Inl 0), Decode_string = (\<lambda>_. Inl 0), Decode_int64 = (\<lambda>_. Inl 0), Decode_float64 = (\<lambda>_. Inl 0), Decode_map = (\<lambda>_. Inl 0)\<rparr> \<lparr>sqlite_dbConn = Some \<lparr>stmts = [], exec_reply = (\<lambda>_. Some 7), query_reply = (\<lambda>_. Query_ErrNoRows)\<rparr>, sqlite_encrkey = [], sqlite_maxLifeTime = 0, sqlite_maxIdleTime = 0\<rparr> \<lparr>sqlite_sid = ''s'', timeAccessed = \<lparr>wall_sec = 200, nsec = 0, zone_offset = 0\<rparr>, timeCreated = \<lparr>wall_sec = 100, nsec = 0, zone_offset = 0\<rparr>, st_value = [''n'' \<mapsto> GInt64 42], valueModified = True\<rparr> = (Some (ExternalError 7), \<lparr>sqlite_sid = ''s'', timeAccessed = \<lparr>wall_sec = 200, nsec = 0, zone_offset = 0\<rparr>, timeCreated = \<lparr>wall_sec = 100, nsec = 0, zone_offset = 0\<rparr>, st_value = [''n'' \<mapsto> GInt64 42], valueModified = True\<rparr>, \<lparr>sqlite_dbConn = Some \<lparr>stmts = [Sql_UpdateVal [1] ''s''], exec_reply = (\<lambda>_. Some 7), query_reply = (\<lambda>_. Query_ErrNoRows)\<rparr>, sqlite_encrkey = [], sqlite_maxLifeTime = 0, sqlite_maxIdleTime = 0\<rparr>) \<and>
   fst (redis_Flush \<lparr>Encode = (\<lambda>_. Inr [1]), Decode_bool = (\<lambda>_. Inl 0), Decode_string = (\<lambda>_. Inl 0), Decode_int64 = (\<lambda>_. Inl 0), Decode_float64 = (\<lambda>_. Inl 0), Decode_map = (\<lambda>_. Inl 0)\<rparr> \<lparr>wall_sec = 200, nsec = 0, zone_offset = 0\<rparr> \<lparr>redis_client = Some \<lparr>cmds = [], get_reply = (\<lambda>_. Inr []), status_reply = (\<lambda>_. Some 9)\<rparr>, redis_namespace = ''ns'', redis_maxLifeTime = 0, redis_maxIdleTime = 0\<rparr> \<lparr>redis_sid = ''s''\<rparr>) = None \<and>
   redis_Flush \<lparr>Encode = (\<lambda>_. Inr [1]), Decode_bool = (\<lambda>_. Inl 0), Decode_string = (\<lambda>_. Inl 0), Decode_int64 = (\<lambda>_. Inl 0), Decode_float64 = (\<lambda>_. Inl 0), Decode_map = (\<lambda>_. Inl 0)\<rparr> \<lparr>wall_sec = 200, nsec = 0, zone_offset = 0\<rparr> \<lparr>redis_client = Some \<lparr>cmds = [], get_reply = (\<lambda>_. Inr []), status_reply = (\<lambda>_. None)\<rparr>, redis_namespace = ''ns'', redis_maxLifeTime = 0, redis_maxIdleTime = 0\<rparr> \<lparr>redis_sid = ''s''\<rparr> = (None, \<lparr>redis_client = Some \<lparr>cmds = [Cmd_Set ''ns:s:time_accessed'' [1] 0], get_reply = (\<lambda>_. Inr []), status_reply = (\<lambda>_. None)\<rparr>, redis_namespace = ''ns'', redis_maxLifeTime = 0, redis_maxIdleTime = 0\<rparr>)"
proof -
  let ?conv = "(\<lambda>_. 0) :: 32 word \<Rightarrow> int64"
  have init: "fst (sqlite_SessionInit \<lparr>wall_sec = 100, nsec = 0, zone_offset = 0\<rparr> \<lparr>sqlite_dbConn = Some \<lparr>stmts = [], exec_reply = (\<lambda>_. None), query_reply = (\<lambda>_. Query_ErrNoRows)\<rparr>, sqlite_encrkey = [], sqlite_maxLifeTime = 0, sqlite_maxIdleTime = 0\<rparr> ''s'') = Inr \<lparr>sqlite_sid = ''s'', timeAccessed = \<lparr>wall_sec = 100, nsec = 0, zone_offset = 0\<rparr>, timeCreated = \<lparr>wall_sec = 100, nsec = 0, zone_offset = 0\<rparr>, st_value = Map.empty, valueModified = False\<rparr>"
    by (simp add: sqlite_SessionInit_def sqlite_SESS_ID_LEN_def ExecContext_def
          NewSessionStore_def)
  have read: "fst (sqlite_SessionRead \<lparr>Encode = (\<lambda>_. Inr [1]), Decode_bool = (\<lambda>_. Inl 0), Decode_string = (\<lambda>_. Inl 0), Decode_int64 = (\<lambda>_. Inl 0), Decode_float64 = (\<lambda>_. Inl 0), Decode_map = (\<lambda>_. Inl 0)\<rparr> \<lparr>wall_sec = 100, nsec = 0, zone_offset = 0\<rparr> \<lparr>sqlite_dbConn = Some \<lparr>stmts = [], exec_reply = (\<lambda>_. None), query_reply = (\<lambda>_. Query_Row \<lparr>wall_sec = 100, nsec = 0, zone_offset = 0\<rparr> \<lparr>wall_sec = 100, nsec = 0, zone_offset = 0\<rparr> [])\<rparr>, sqlite_encrkey = [], sqlite_maxLifeTime = 0, sqlite_maxIdleTime = 0\<rparr> ''s'') = Inr \<lparr>sqlite_sid = ''s'', timeAccessed = \<lparr>wall_sec = 100, nsec = 0, zone_offset = 0\<rparr>, timeCreated = \<lparr>wall_sec = 100, nsec = 0, zone_offset = 0\<rparr>, st_value = Map.empty, valueModified = False\<rparr>"
    by (simp add: sqlite_SessionRead_def QueryRowContext_def setFromDb_def NewSessionStore_def)
  have flushed: "sqlite_Flush \<lparr>Encode = (\<lambda>_. Inr [1]), Decode_bool = (\<lambda>_. Inl 0), Decode_string = (\<lambda>_. Inl 0), Decode_int64 = (\<lambda>_. Inl 0), Decode_float64 = (\<lambda>_. Inl 0), Decode_map = (\<lambda>_. Inl 0)\<rparr> \<lparr>sqlite_dbConn = Some \<lparr>stmts = [], exec_reply = (\<lambda>_. None), query_reply = (\<lambda>_. Query_ErrNoRows)\<rparr>, sqlite_encrkey = [], sqlite_maxLifeTime = 0, sqlite_maxIdleTime = 0\<rparr> \<lparr>sqlite_sid = ''s'', timeAccessed = \<lparr>wall_sec = 100, nsec = 0, zone_offset = 0\<rparr>, timeCreated = \<lparr>wall_sec = 100, nsec = 0, zone_offset = 0\<rparr>, st_value = [''n'' \<mapsto> GInt64 42], valueModified = True\<rparr> = (None, \<lparr>sqlite_sid = ''s'', timeAccessed = \<lparr>wall_sec = 100, nsec = 0, zone_offset = 0\<rparr>, timeCreated = \<lparr>wall_sec = 100, nsec = 0, zone_offset = 0\<rparr>, st_value = [''n'' \<mapsto> GInt64 42], valueModified = False\<rparr>, \<lparr>sqlite_dbConn = Some \<lparr>stmts = [Sql_UpdateVal [1] ''s''], exec_reply = (\<lambda>_. None), query_reply = (\<lambda>_. Query_ErrNoRows)\<rparr>, sqlite_encrkey = [], sqlite_maxLifeTime = 0, sqlite_maxIdleTime = 0\<rparr>)"
    by (simp add: sqlite_Flush_def getForDb_def ExecContext_def)
  have nr: "\<not> Set_changes ?conv pd [(\<lparr>wall_sec = 200, nsec = 0, zone_offset = 0\<rparr>, Call_GetInt ''n'')] \<lparr>sqlite_sid = ''s'', timeAccessed = \<lparr>wall_sec = 100, nsec = 0, zone_offset = 0\<rparr>, timeCreated = \<lparr>wall_sec = 100, nsec = 0, zone_offset = 0\<rparr>, st_value = Map.empty, valueModified = False\<rparr>" for pd
    by (simp add: sqlite_do_def sqlite_Set_def sqlite_GetInt_def map_index_def DeepEqual_def)
  have cr: "sqlite_calls ?conv pd [(\<lparr>wall_sec = 200, nsec = 0, zone_offset = 0\<rparr>, Call_GetInt ''n'')] \<lparr>sqlite_sid = ''s'', timeAccessed = \<lparr>wall_sec = 100, nsec = 0, zone_offset = 0\<rparr>, timeCreated = \<lparr>wall_sec = 100, nsec = 0, zone_offset = 0\<rparr>, st_value = Map.empty, valueModified = False\<rparr> = \<lparr>sqlite_sid = ''s'', timeAccessed = \<lparr>wall_sec = 100, nsec = 0, zone_offset = 0\<rparr>, timeCreated = \<lparr>wall_sec = 100, nsec = 0, zone_offset = 0\<rparr>, st_value = Map.empty, valueModified = False\<rparr>" for pd
    by (simp add: sqlite_do_def sqlite_Set_def sqlite_GetInt_def map_index_def DeepEqual_def)
  have ne: "\<not> Set_changes ?conv pd [(\<lparr>wall_sec = 200, nsec = 0, zone_offset = 0\<rparr>, Call_Set ''n'' (GInt64 42)), (\<lparr>wall_sec = 200, nsec = 0, zone_offset = 0\<rparr>, Call_GetInt ''n'')] \<lparr>sqlite_sid = ''s'', timeAccessed = \<lparr>wall_sec = 100, nsec = 0, zone_offset = 0\<rparr>, timeCreated = \<lparr>wall_sec = 100, nsec = 0, zone_offset = 0\<rparr>, st_value = [''n'' \<mapsto> GInt64 42], valueModified = False\<rparr>" for pd
    by (simp add: sqlite_do_def sqlite_Set_def sqlite_GetInt_def map_index_def DeepEqual_def)
  have ce: "sqlite_calls ?conv pd [(\<lparr>wall_sec = 200, nsec = 0, zone_offset = 0\<rparr>, Call_Set ''n'' (GInt64 42)), (\<lparr>wall_sec = 200, nsec = 0, zone_offset = 0\<rparr>, Call_GetInt ''n'')] \<lparr>sqlite_sid = ''s'', timeAccessed = \<lparr>wall_sec = 100, nsec = 0, zone_offset = 0\<rparr>, timeCreated = \<lparr>wall_sec = 100, nsec = 0, zone_offset = 0\<rparr>, st_value = [''n'' \<mapsto> GInt64 42], valueModified = False\<rparr> = \<lparr>sqlite_sid = ''s'', timeAccessed = \<lparr>wall_sec = 200, nsec = 0, zone_offset = 0\<rparr>, timeCreated = \<lparr>wall_sec = 100, nsec = 0, zone_offset = 0\<rparr>, st_value = [''n'' \<mapsto> GInt64 42], valueModified = False\<rparr>" for pd
    by (simp add: sqlite_do_def sqlite_Set_def sqlite_GetInt_def map_index_def DeepEqual_def)
  have ys: "Set_changes ?conv pd [(\<lparr>wall_sec = 200, nsec = 0, zone_offset = 0\<rparr>, Call_Set ''n'' (GInt64 42))] \<lparr>sqlite_sid = ''s'', timeAccessed = \<lparr>wall_sec = 100, nsec = 0, zone_offset = 0\<rparr>, timeCreated = \<lparr>wall_sec = 100, nsec = 0, zone_offset = 0\<rparr>, st_value = Map.empty, valueModified = False\<rparr>" for pd
    by (simp add: sqlite_do_def sqlite_Set_def sqlite_GetInt_def map_index_def DeepEqual_def)
  have cs: "sqlite_calls ?conv pd [(\<lparr>wall_sec = 200, nsec = 0, zone_offset = 0\<rparr>, Call_Set ''n'' (GInt64 42))] \<lparr>sqlite_sid = ''s'', timeAccessed = \<lparr>wall_sec = 100, nsec = 0, zone_offset = 0\<rparr>, timeCreated = \<lparr>wall_sec = 100, nsec = 0, zone_offset = 0\<rparr>, st_value = Map.empty, valueModified = False\<rparr> = \<lparr>sqlite_sid = ''s'', timeAccessed = \<lparr>wall_sec = 200, nsec = 0, zone_offset = 0\<rparr>, timeCreated = \<lparr>wall_sec = 100, nsec = 0, zone_offset = 0\<rparr>, st_value = [''n'' \<mapsto> GInt64 42], valueModified = True\<rparr>" for pd
    by (simp add: sqlite_do_def sqlite_Set_def sqlite_GetInt_def map_index_def DeepEqual_def)
  note t1 = Flush_persists_changed_store [where opened = "\<lparr>wall_sec = 100, nsec = 0, zone_offset = 0\<rparr>" and pder_before = "\<lparr>sqlite_dbConn = Some \<lparr>stmts = [], exec_reply = (\<lambda>_. None), query_reply = (\<lambda>_. Query_ErrNoRows)\<rparr>, sqlite_encrkey = [], sqlite_maxLifeTime = 0, sqlite_maxIdleTime = 0\<rparr>"
      and sid = "''s''" and st = "\<lparr>sqlite_sid = ''s'', timeAccessed = \<lparr>wall_sec = 100, nsec = 0, zone_offset = 0\<rparr>, timeCreated = \<lparr>wall_sec = 100, nsec = 0, zone_offset = 0\<rparr>, st_value = Map.empty, valueModified = False\<rparr>" and conv = ?conv and pder = "\<lparr>sqlite_dbConn = Some \<lparr>stmts = [Sql_InsertOrIgnore ''s''], exec_reply = (\<lambda>_. None), query_reply = (\<lambda>_. Query_ErrNoRows)\<rparr>, sqlite_encrkey = [], sqlite_maxLifeTime = 0, sqlite_maxIdleTime = 0\<rparr>" and cs = "[(\<lparr>wall_sec = 200, nsec = 0, zone_offset = 0\<rparr>, Call_GetInt ''n'')]"
      and g = "\<lparr>Encode = (\<lambda>_. Inr [1]), Decode_bool = (\<lambda>_. Inl 0), Decode_string = (\<lambda>_. Inl 0), Decode_int64 = (\<lambda>_. Inl 0), Decode_float64 = (\<lambda>_. Inl 0), Decode_map = (\<lambda>_. Inl 0)\<rparr>"]
  note t2 = Flush_persists_changed_store [where g_read = "\<lparr>Encode = (\<lambda>_. Inr [1]), Decode_bool = (\<lambda>_. Inl 0), Decode_string = (\<lambda>_. Inl 0), Decode_int64 = (\<lambda>_. Inl 0), Decode_float64 = (\<lambda>_. Inl 0), Decode_map = (\<lambda>_. Inl 0)\<rparr>" and opened = "\<lparr>wall_sec = 100, nsec = 0, zone_offset = 0\<rparr>"
      and pder_before = "\<lparr>sqlite_dbConn = Some \<lparr>stmts = [], exec_reply = (\<lambda>_. None), query_reply = (\<lambda>_. Query_Row \<lparr>wall_sec = 100, nsec = 0, zone_offset = 0\<rparr> \<lparr>wall_sec = 100, nsec = 0, zone_offset = 0\<rparr> [])\<rparr>, sqlite_encrkey = [], sqlite_maxLifeTime = 0, sqlite_maxIdleTime = 0\<rparr>" and sid = "''s''" and st = "\<lparr>sqlite_sid = ''s'', timeAccessed = \<lparr>wall_sec = 100, nsec = 0, zone_offset = 0\<rparr>, timeCreated = \<lparr>wall_sec = 100, nsec = 0, zone_offset = 0\<rparr>, st_value = Map.empty, valueModified = False\<rparr>" and conv = ?conv
      and pder = "\<lparr>sqlite_dbConn = Some \<lparr>stmts = [Sql_UpdateAccessedReturning ''s''], exec_reply = (\<lambda>_. None), query_reply = (\<lambda>_. Query_Row \<lparr>wall_sec = 100, nsec = 0, zone_offset = 0\<rparr> \<lparr>wall_sec = 100, nsec = 0, zone_offset = 0\<rparr> [])\<rparr>, sqlite_encrkey = [], sqlite_maxLifeTime = 0, sqlite_maxIdleTime = 0\<rparr>" and cs = "[(\<lparr>wall_sec = 200, nsec = 0, zone_offset = 0\<rparr>, Call_GetInt ''n'')]" and g = "\<lparr>Encode = (\<lambda>_. Inr [1]), Decode_bool = (\<lambda>_. Inl 0), Decode_string = (\<lambda>_. Inl 0), Decode_int64 = (\<lambda>_. Inl 0), Decode_float64 = (\<lambda>_. Inl 0), Decode_map = (\<lambda>_. Inl 0)\<rparr>"]
  note t3 = Flush_persists_changed_store [where g = "\<lparr>Encode = (\<lambda>_. Inr [1]), Decode_bool = (\<lambda>_. Inl 0), Decode_string = (\<lambda>_. Inl 0), Decode_int64 = (\<lambda>_. Inl 0), Decode_float64 = (\<lambda>_. Inl 0), Decode_map = (\<lambda>_. Inl 0)\<rparr>" and pder_before = "\<lparr>sqlite_dbConn = Some \<lparr>stmts = [], exec_reply = (\<lambda>_. None), query_reply = (\<lambda>_. Query_ErrNoRows)\<rparr>, sqlite_encrkey = [], sqlite_maxLifeTime = 0, sqlite_maxIdleTime = 0\<rparr>"
      and st_before = "\<lparr>sqlite_sid = ''s'', timeAccessed = \<lparr>wall_sec = 100, nsec = 0, zone_offset = 0\<rparr>, timeCreated = \<lparr>wall_sec = 100, nsec = 0, zone_offset = 0\<rparr>, st_value = [''n'' \<mapsto> GInt64 42], valueModified = True\<rparr>" and st = "\<lparr>sqlite_sid = ''s'', timeAccessed = \<lparr>wall_sec = 100, nsec = 0, zone_offset = 0\<rparr>, timeCreated = \<lparr>wall_sec = 100, nsec = 0, zone_offset = 0\<rparr>, st_value = [''n'' \<mapsto> GInt64 42], valueModified = False\<rparr>" and pder = "\<lparr>sqlite_dbConn = Some \<lparr>stmts = [Sql_UpdateVal [1] ''s''], exec_reply = (\<lambda>_. None), query_reply = (\<lambda>_. Query_ErrNoRows)\<rparr>, sqlite_encrkey = [], sqlite_maxLifeTime = 0, sqlite_maxIdleTime = 0\<rparr>" and conv = ?conv and cs = "[(\<lparr>wall_sec = 200, nsec = 0, zone_offset = 0\<rparr>, Call_Set ''n'' (GInt64 42)), (\<lparr>wall_sec = 200, nsec = 0, zone_offset = 0\<rparr>, Call_GetInt ''n'')]"]
  note t4 = Flush_persists_changed_store [where conv = ?conv and pder = "\<lparr>sqlite_dbConn = Some \<lparr>stmts = [], exec_reply = (\<lambda>_. None), query_reply = (\<lambda>_. Query_ErrNoRows)\<rparr>, sqlite_encrkey = [], sqlite_maxLifeTime = 0, sqlite_maxIdleTime = 0\<rparr>"
      and cs = "[(\<lparr>wall_sec = 200, nsec = 0, zone_offset = 0\<rparr>, Call_Set ''n'' (GInt64 42))]" and st = "\<lparr>sqlite_sid = ''s'', timeAccessed = \<lparr>wall_sec = 100, nsec = 0, zone_offset = 0\<rparr>, timeCreated = \<lparr>wall_sec = 100, nsec = 0, zone_offset = 0\<rparr>, st_value = Map.empty, valueModified = False\<rparr>" and g = "\<lparr>Encode = (\<lambda>_. Inr [1]), Decode_bool = (\<lambda>_. Inl 0), Decode_string = (\<lambda>_. Inl 0), Decode_int64 = (\<lambda>_. Inl 0), Decode_float64 = (\<lambda>_. Inl 0), Decode_map = (\<lambda>_. Inl 0)\<rparr>" and val = "[1]" and db = "\<lparr>stmts = [], exec_reply = (\<lambda>_. None), query_reply = (\<lambda>_. Query_ErrNoRows)\<rparr>"
      and rp = "\<lparr>redis_client = Some \<lparr>cmds = [], get_reply = (\<lambda>_. Inr []), status_reply = (\<lambda>_. None)\<rparr>, redis_namespace = ''ns'', redis_maxLifeTime = 0, redis_maxIdleTime = 0\<rparr>" and c = "\<lparr>cmds = [], get_reply = (\<lambda>_. Inr []), status_reply = (\<lambda>_. None)\<rparr>" and now = "\<lparr>wall_sec = 200, nsec = 0, zone_offset = 0\<rparr>" and b = "[1]" and rst = "\<lparr>redis_sid = ''s''\<rparr>"]
  note t5 = Flush_persists_changed_store [where conv = ?conv and pder = "\<lparr>sqlite_dbConn = Some \<lparr>stmts = [], exec_reply = (\<lambda>_. None), query_reply = (\<lambda>_. Query_ErrNoRows)\<rparr>, sqlite_encrkey = [], sqlite_maxLifeTime = 0, sqlite_maxIdleTime = 0\<rparr>"
      and cs = "[(\<lparr>wall_sec = 200, nsec = 0, zone_offset = 0\<rparr>, Call_Set ''n'' (GInt64 42))]" and st = "\<lparr>sqlite_sid = ''s'', timeAccessed = \<lparr>wall_sec = 100, nsec = 0, zone_offset = 0\<rparr>, timeCreated = \<lparr>wall_sec = 100, nsec = 0, zone_offset = 0\<rparr>, st_value = Map.empty, valueModified = False\<rparr>" and g = "\<lparr>Encode = (\<lambda>_. Inl 3), Decode_bool = (\<lambda>_. Inl 0), Decode_string = (\<lambda>_. Inl 0), Decode_int64 = (\<lambda>_. Inl 0), Decode_float64 = (\<lambda>_. Inl 0), Decode_map = (\<lambda>_. Inl 0)\<rparr>" and e = 3]
  note t6 = Flush_persists_changed_store [where conv = ?conv and pder = "\<lparr>sqlite_dbConn = Some \<lparr>stmts = [], exec_reply = (\<lambda>_. Some 7), query_reply = (\<lambda>_. Query_ErrNoRows)\<rparr>, sqlite_encrkey = [], sqlite_maxLifeTime = 0, sqlite_maxIdleTime = 0\<rparr>"
      and cs = "[(\<lparr>wall_sec = 200, nsec = 0, zone_offset = 0\<rparr>, Call_Set ''n'' (GInt64 42))]" and st = "\<lparr>sqlite_sid = ''s'', timeAccessed = \<lparr>wall_sec = 100, nsec = 0, zone_offset = 0\<rparr>, timeCreated = \<lparr>wall_sec = 100, nsec = 0, zone_offset = 0\<rparr>, st_value = Map.empty, valueModified = False\<rparr>" and g = "\<lparr>Encode = (\<lambda>_. Inr [1]), Decode_bool = (\<lambda>_. Inl 0), Decode_string = (\<lambda>_. Inl 0), Decode_int64 = (\<lambda>_. Inl 0), Decode_float64 = (\<lambda>_. Inl 0), Decode_map = (\<lambda>_. Inl 0)\<rparr>" and val = "[1]" and db = "\<lparr>stmts = [], exec_reply = (\<lambda>_. Some 7), query_reply = (\<lambda>_. Query_ErrNoRows)\<rparr>"
      and e = 7 and rp = "\<lparr>redis_client = Some \<lparr>cmds = [], get_reply = (\<lambda>_. Inr []), status_reply = (\<lambda>_. Some 9)\<rparr>, redis_namespace = ''ns'', redis_maxLifeTime = 0, redis_maxIdleTime = 0\<rparr>" and c = "\<lparr>cmds = [], get_reply = (\<lambda>_. Inr []), status_reply = (\<lambda>_. Some 9)\<rparr>" and now = "\<lparr>wall_sec = 200, nsec = 0, zone_offset = 0\<rparr>" and rst = "\<lparr>redis_sid = ''s''\<rparr>"]
  have h4: "Encode \<lparr>Encode = (\<lambda>_. Inr [1]), Decode_bool = (\<lambda>_. Inl 0), Decode_string = (\<lambda>_. Inl 0), Decode_int64 = (\<lambda>_. Inl 0), Decode_float64 = (\<lambda>_. Inl 0), Decode_map = (\<lambda>_. Inl 0)\<rparr> (In_map (st_value \<lparr>sqlite_sid = ''s'', timeAccessed = \<lparr>wall_sec = 200, nsec = 0, zone_offset = 0\<rparr>, timeCreated = \<lparr>wall_sec = 100, nsec = 0, zone_offset = 0\<rparr>, st_value = [''n'' \<mapsto> GInt64 42], valueModified = True\<rparr>)) = Inr [1] \<and>
      sqlite_dbConn \<lparr>sqlite_dbConn = Some \<lparr>stmts = [], exec_reply = (\<lambda>_. None), query_reply = (\<lambda>_. Query_ErrNoRows)\<rparr>, sqlite_encrkey = [], sqlite_maxLifeTime = 0, sqlite_maxIdleTime = 0\<rparr> = Some \<lparr>stmts = [], exec_reply = (\<lambda>_. None), query_reply = (\<lambda>_. Query_ErrNoRows)\<rparr> \<and>
      exec_reply \<lparr>stmts = [], exec_reply = (\<lambda>_. None), query_reply = (\<lambda>_. Query_ErrNoRows)\<rparr> (length (stmts \<lparr>stmts = [], exec_reply = (\<lambda>_. None), query_reply = (\<lambda>_. Query_ErrNoRows)\<rparr>)) = None"
    by simp
  have h5: "Encode \<lparr>Encode = (\<lambda>_. Inl 3), Decode_bool = (\<lambda>_. Inl 0), Decode_string = (\<lambda>_. Inl 0), Decode_int64 = (\<lambda>_. Inl 0), Decode_float64 = (\<lambda>_. Inl 0), Decode_map = (\<lambda>_. Inl 0)\<rparr> (In_map (st_value \<lparr>sqlite_sid = ''s'', timeAccessed = \<lparr>wall_sec = 200, nsec = 0, zone_offset = 0\<rparr>, timeCreated = \<lparr>wall_sec = 100, nsec = 0, zone_offset = 0\<rparr>, st_value = [''n'' \<mapsto> GInt64 42], valueModified = True\<rparr>)) = Inl 3"
    by simp
  have h6: "Encode \<lparr>Encode = (\<lambda>_. Inr [1]), Decode_bool = (\<lambda>_. Inl 0), Decode_string = (\<lambda>_. Inl 0), Decode_int64 = (\<lambda>_. Inl 0), Decode_float64 = (\<lambda>_. Inl 0), Decode_map = (\<lambda>_. Inl 0)\<rparr> (In_map (st_value \<lparr>sqlite_sid = ''s'', timeAccessed = \<lparr>wall_sec = 200, nsec = 0, zone_offset = 0\<rparr>, timeCreated = \<lparr>wall_sec = 100, nsec = 0, zone_offset = 0\<rparr>, st_value = [''n'' \<mapsto> GInt64 42], valueModified = True\<rparr>)) = Inr [1] \<and>
      sqlite_dbConn \<lparr>sqlite_dbConn = Some \<lparr>stmts = [], exec_reply = (\<lambda>_. Some 7), query_reply = (\<lambda>_. Query_ErrNoRows)\<rparr>, sqlite_encrkey = [], sqlite_maxLifeTime = 0, sqlite_maxIdleTime = 0\<rparr> = Some \<lparr>stmts = [], exec_reply = (\<lambda>_. Some 7), query_reply = (\<lambda>_. Query_ErrNoRows)\<rparr> \<and>
      exec_reply \<lparr>stmts = [], exec_reply = (\<lambda>_. Some 7), query_reply = (\<lambda>_. Query_ErrNoRows)\<rparr> (length (stmts \<lparr>stmts = [], exec_reply = (\<lambda>_. Some 7), query_reply = (\<lambda>_. Query_ErrNoRows)\<rparr>)) = Some 7"
    by simp
  have h7: "redis_client \<lparr>redis_client = Some \<lparr>cmds = [], get_reply = (\<lambda>_. Inr []), status_reply = (\<lambda>_. Some 9)\<rparr>, redis_namespace = ''ns'', redis_maxLifeTime = 0, redis_maxIdleTime = 0\<rparr> = Some \<lparr>cmds = [], get_reply = (\<lambda>_. Inr []), status_reply = (\<lambda>_. Some 9)\<rparr>"
    by simp
  have h8: "redis_client \<lparr>redis_client = Some \<lparr>cmds = [], get_reply = (\<lambda>_. Inr []), status_reply = (\<lambda>_. None)\<rparr>, redis_namespace = ''ns'', redis_maxLifeTime = 0, redis_maxIdleTime = 0\<rparr> = Some \<lparr>cmds = [], get_reply = (\<lambda>_. Inr []), status_reply = (\<lambda>_. None)\<rparr> \<and> Encode \<lparr>Encode = (\<lambda>_. Inr [1]), Decode_bool = (\<lambda>_. Inl 0), Decode_string = (\<lambda>_. Inl 0), Decode_int64 = (\<lambda>_. Inl 0), Decode_float64 = (\<lambda>_. Inl 0), Decode_map = (\<lambda>_. Inl 0)\<rparr> (In_time \<lparr>wall_sec = 200, nsec = 0, zone_offset = 0\<rparr>) = Inr [1]"
    by simp
  from t1 [unfolded cr] init nr
  have a: "sqlite_Flush \<lparr>Encode = (\<lambda>_. Inr [1]), Decode_bool = (\<lambda>_. Inl 0), Decode_string = (\<lambda>_. Inl 0), Decode_int64 = (\<lambda>_. Inl 0), Decode_float64 = (\<lambda>_. Inl 0), Decode_map = (\<lambda>_. Inl 0)\<rparr> \<lparr>sqlite_dbConn = Some \<lparr>stmts = [Sql_InsertOrIgnore ''s''], exec_reply = (\<lambda>_. None), query_reply = (\<lambda>_. Query_ErrNoRows)\<rparr>, sqlite_encrkey = [], sqlite_maxLifeTime = 0, sqlite_maxIdleTime = 0\<rparr> \<lparr>sqlite_sid = ''s'', timeAccessed = \<lparr>wall_sec = 100, nsec = 0, zone_offset = 0\<rparr>, timeCreated = \<lparr>wall_sec = 100, nsec = 0, zone_offset = 0\<rparr>, st_value = Map.empty, valueModified = False\<rparr> = (None, \<lparr>sqlite_sid = ''s'', timeAccessed = \<lparr>wall_sec = 100, nsec = 0, zone_offset = 0\<rparr>, timeCreated = \<lparr>wall_sec = 100, nsec = 0, zone_offset = 0\<rparr>, st_value = Map.empty, valueModified = False\<rparr>, \<lparr>sqlite_dbConn = Some \<lparr>stmts = [Sql_InsertOrIgnore ''s''], exec_reply = (\<lambda>_. None), query_reply = (\<lambda>_. Query_ErrNoRows)\<rparr>, sqlite_encrkey = [], sqlite_maxLifeTime = 0, sqlite_maxIdleTime = 0\<rparr>)"
    by blast
  from t2 [unfolded cr] read nr
  have b: "sqlite_Flush \<lparr>Encode = (\<lambda>_. Inr [1]), Decode_bool = (\<lambda>_. Inl 0), Decode_string = (\<lambda>_. Inl 0), Decode_int64 = (\<lambda>_. Inl 0), Decode_float64 = (\<lambda>_. Inl 0), Decode_map = (\<lambda>_. Inl 0)\<rparr> \<lparr>sqlite_dbConn = Some \<lparr>stmts = [Sql_UpdateAccessedReturning ''s''], exec_reply = (\<lambda>_. None), query_reply = (\<lambda>_. Query_Row \<lparr>wall_sec = 100, nsec = 0, zone_offset = 0\<rparr> \<lparr>wall_sec = 100, nsec = 0, zone_offset = 0\<rparr> [])\<rparr>, sqlite_encrkey = [], sqlite_maxLifeTime = 0, sqlite_maxIdleTime = 0\<rparr> \<lparr>sqlite_sid = ''s'', timeAccessed = \<lparr>wall_sec = 100, nsec = 0, zone_offset = 0\<rparr>, timeCreated = \<lparr>wall_sec = 100, nsec = 0, zone_offset = 0\<rparr>, st_value = Map.empty, valueModified = False\<rparr> = (None, \<lparr>sqlite_sid = ''s'', timeAccessed = \<lparr>wall_sec = 100, nsec = 0, zone_offset = 0\<rparr>, timeCreated = \<lparr>wall_sec = 100, nsec = 0, zone_offset = 0\<rparr>, st_value = Map.empty, valueModified = False\<rparr>, \<lparr>sqlite_dbConn = Some \<lparr>stmts = [Sql_UpdateAccessedReturning ''s''], exec_reply = (\<lambda>_. None), query_reply = (\<lambda>_. Query_Row \<lparr>wall_sec = 100, nsec = 0, zone_offset = 0\<rparr> \<lparr>wall_sec = 100, nsec = 0, zone_offset = 0\<rparr> [])\<rparr>, sqlite_encrkey = [], sqlite_maxLifeTime = 0, sqlite_maxIdleTime = 0\<rparr>)"
    by blast
  from t3 [unfolded ce] flushed ne
  have c: "sqlite_Flush \<lparr>Encode = (\<lambda>_. Inr [1]), Decode_bool = (\<lambda>_. Inl 0), Decode_string = (\<lambda>_. Inl 0), Decode_int64 = (\<lambda>_. Inl 0), Decode_float64 = (\<lambda>_. Inl 0), Decode_map = (\<lambda>_. Inl 0)\<rparr> \<lparr>sqlite_dbConn = Some \<lparr>stmts = [Sql_UpdateVal [1] ''s''], exec_reply = (\<lambda>_. None), query_reply = (\<lambda>_. Query_ErrNoRows)\<rparr>, sqlite_encrkey = [], sqlite_maxLifeTime = 0, sqlite_maxIdleTime = 0\<rparr> \<lparr>sqlite_sid = ''s'', timeAccessed = \<lparr>wall_sec = 200, nsec = 0, zone_offset = 0\<rparr>, timeCreated = \<lparr>wall_sec = 100, nsec = 0, zone_offset = 0\<rparr>, st_value = [''n'' \<mapsto> GInt64 42], valueModified = False\<rparr> = (None, \<lparr>sqlite_sid = ''s'', timeAccessed = \<lparr>wall_sec = 200, nsec = 0, zone_offset = 0\<rparr>, timeCreated = \<lparr>wall_sec = 100, nsec = 0, zone_offset = 0\<rparr>, st_value = [''n'' \<mapsto> GInt64 42], valueModified = False\<rparr>, \<lparr>sqlite_dbConn = Some \<lparr>stmts = [Sql_UpdateVal [1] ''s''], exec_reply = (\<lambda>_. None), query_reply = (\<lambda>_. Query_ErrNoRows)\<rparr>, sqlite_encrkey = [], sqlite_maxLifeTime = 0, sqlite_maxIdleTime = 0\<rparr>)"
    by blast
  from t4 [unfolded cs] ys h4
  have "sqlite_Flush \<lparr>Encode = (\<lambda>_. Inr [1]), Decode_bool = (\<lambda>_. Inl 0), Decode_string = (\<lambda>_. Inl 0), Decode_int64 = (\<lambda>_. Inl 0), Decode_float64 = (\<lambda>_. Inl 0), Decode_map = (\<lambda>_. Inl 0)\<rparr> \<lparr>sqlite_dbConn = Some \<lparr>stmts = [], exec_reply = (\<lambda>_. None), query_reply = (\<lambda>_. Query_ErrNoRows)\<rparr>, sqlite_encrkey = [], sqlite_maxLifeTime = 0, sqlite_maxIdleTime = 0\<rparr> \<lparr>sqlite_sid = ''s'', timeAccessed = \<lparr>wall_sec = 200, nsec = 0, zone_offset = 0\<rparr>, timeCreated = \<lparr>wall_sec = 100, nsec = 0, zone_offset = 0\<rparr>, st_value = [''n'' \<mapsto> GInt64 42], valueModified = True\<rparr> =
      (None, \<lparr>sqlite_sid = ''s'', timeAccessed = \<lparr>wall_sec = 200, nsec = 0, zone_offset = 0\<rparr>, timeCreated = \<lparr>wall_sec = 100, nsec = 0, zone_offset = 0\<rparr>, st_value = [''n'' \<mapsto> GInt64 42], valueModified = True\<rparr>\<lparr>valueModified := False\<rparr>,
       \<lparr>sqlite_dbConn = Some \<lparr>stmts = [], exec_reply = (\<lambda>_. None), query_reply = (\<lambda>_. Query_ErrNoRows)\<rparr>, sqlite_encrkey = [], sqlite_maxLifeTime = 0, sqlite_maxIdleTime = 0\<rparr>\<lparr>sqlite_dbConn := Some (\<lparr>stmts = [], exec_reply = (\<lambda>_. None), query_reply = (\<lambda>_. Query_ErrNoRows)\<rparr>\<lparr>stmts := stmts \<lparr>stmts = [], exec_reply = (\<lambda>_. None), query_reply = (\<lambda>_. Query_ErrNoRows)\<rparr> @
         [Sql_UpdateVal [1] (sqlite_sid \<lparr>sqlite_sid = ''s'', timeAccessed = \<lparr>wall_sec = 200, nsec = 0, zone_offset = 0\<rparr>, timeCreated = \<lparr>wall_sec = 100, nsec = 0, zone_offset = 0\<rparr>, st_value = [''n'' \<mapsto> GInt64 42], valueModified = True\<rparr>)]\<rparr>)\<rparr>)"
    by blast
  then have d: "sqlite_Flush \<lparr>Encode = (\<lambda>_. Inr [1]), Decode_bool = (\<lambda>_. Inl 0), Decode_string = (\<lambda>_. Inl 0), Decode_int64 = (\<lambda>_. Inl 0), Decode_float64 = (\<lambda>_. Inl 0), Decode_map = (\<lambda>_. Inl 0)\<rparr> \<lparr>sqlite_dbConn = Some \<lparr>stmts = [], exec_reply = (\<lambda>_. None), query_reply = (\<lambda>_. Query_ErrNoRows)\<rparr>, sqlite_encrkey = [], sqlite_maxLifeTime = 0, sqlite_maxIdleTime = 0\<rparr> \<lparr>sqlite_sid = ''s'', timeAccessed = \<lparr>wall_sec = 200, nsec = 0, zone_offset = 0\<rparr>, timeCreated = \<lparr>wall_sec = 100, nsec = 0, zone_offset = 0\<rparr>, st_value = [''n'' \<mapsto> GInt64 42], valueModified = True\<rparr> = (None, \<lparr>sqlite_sid = ''s'', timeAccessed = \<lparr>wall_sec = 200, nsec = 0, zone_offset = 0\<rparr>, timeCreated = \<lparr>wall_sec = 100, nsec = 0, zone_offset = 0\<rparr>, st_value = [''n'' \<mapsto> GInt64 42], valueModified = False\<rparr>, \<lparr>sqlite_dbConn = Some \<lparr>stmts = [Sql_UpdateVal [1] ''s''], exec_reply = (\<lambda>_. None), query_reply = (\<lambda>_. Query_ErrNoRows)\<rparr>, sqlite_encrkey = [], sqlite_maxLifeTime = 0, sqlite_maxIdleTime = 0\<rparr>)"
    by simp
  from t5 [unfolded cs] ys h5
  have e: "sqlite_Flush \<lparr>Encode = (\<lambda>_. Inl 3), Decode_bool = (\<lambda>_. Inl 0), Decode_string = (\<lambda>_. Inl 0), Decode_int64 = (\<lambda>_. Inl 0), Decode_float64 = (\<lambda>_. Inl 0), Decode_map = (\<lambda>_. Inl 0)\<rparr> \<lparr>sqlite_dbConn = Some \<lparr>stmts = [], exec_reply = (\<lambda>_. None), query_reply = (\<lambda>_. Query_ErrNoRows)\<rparr>, sqlite_encrkey = [], sqlite_maxLifeTime = 0, sqlite_maxIdleTime = 0\<rparr> \<lparr>sqlite_sid = ''s'', timeAccessed = \<lparr>wall_sec = 200, nsec = 0, zone_offset = 0\<rparr>, timeCreated = \<lparr>wall_sec = 100, nsec = 0, zone_offset = 0\<rparr>, st_value = [''n'' \<mapsto> GInt64 42], valueModified = True\<rparr> = (Some (ExternalError 3), \<lparr>sqlite_sid = ''s'', timeAccessed = \<lparr>wall_sec = 200, nsec = 0, zone_offset = 0\<rparr>, timeCreated = \<lparr>wall_sec = 100, nsec = 0, zone_offset = 0\<rparr>, st_value = [''n'' \<mapsto> GInt64 42], valueModified = True\<rparr>, \<lparr>sqlite_dbConn = Some \<lparr>stmts = [], exec_reply = (\<lambda>_. None), query_reply = (\<lambda>_. Query_ErrNoRows)\<rparr>, sqlite_encrkey = [], sqlite_maxLifeTime = 0, sqlite_maxIdleTime = 0\<rparr>)"
    by blast
  from t6 [unfolded cs] ys h6
  have "sqlite_Flush \<lparr>Encode = (\<lambda>_. Inr [1]), Decode_bool = (\<lambda>_. Inl 0), Decode_string = (\<lambda>_. Inl 0), Decode_int64 = (\<lambda>_. Inl 0), Decode_float64 = (\<lambda>_. Inl 0), Decode_map = (\<lambda>_. Inl 0)\<rparr> \<lparr>sqlite_dbConn = Some \<lparr>stmts = [], exec_reply = (\<lambda>_. Some 7), query_reply = (\<lambda>_. Query_ErrNoRows)\<rparr>, sqlite_encrkey = [], sqlite_maxLifeTime = 0, sqlite_maxIdleTime = 0\<rparr> \<lparr>sqlite_sid = ''s'', timeAccessed = \<lparr>wall_sec = 200, nsec = 0, zone_offset = 0\<rparr>, timeCreated = \<lparr>wall_sec = 100, nsec = 0, zone_offset = 0\<rparr>, st_value = [''n'' \<mapsto> GInt64 42], valueModified = True\<rparr> =
      (Some (ExternalError 7), \<lparr>sqlite_sid = ''s'', timeAccessed = \<lparr>wall_sec = 200, nsec = 0, zone_offset = 0\<rparr>, timeCreated = \<lparr>wall_sec = 100, nsec = 0, zone_offset = 0\<rparr>, st_value = [''n'' \<mapsto> GInt64 42], valueModified = True\<rparr>,
       \<lparr>sqlite_dbConn = Some \<lparr>stmts = [], exec_reply = (\<lambda>_. Some 7), query_reply = (\<lambda>_. Query_ErrNoRows)\<rparr>, sqlite_encrkey = [], sqlite_maxLifeTime = 0, sqlite_maxIdleTime = 0\<rparr>\<lparr>sqlite_dbConn := Some (\<lparr>stmts = [], exec_reply = (\<lambda>_. Some 7), query_reply = (\<lambda>_. Query_ErrNoRows)\<rparr>\<lparr>stmts := stmts \<lparr>stmts = [], exec_reply = (\<lambda>_. Some 7), query_reply = (\<lambda>_. Query_ErrNoRows)\<rparr> @
         [Sql_UpdateVal [1] (sqlite_sid \<lparr>sqlite_sid = ''s'', timeAccessed = \<lparr>wall_sec = 200, nsec = 0, zone_offset = 0\<rparr>, timeCreated = \<lparr>wall_sec = 100, nsec = 0, zone_offset = 0\<rparr>, st_value = [''n'' \<mapsto> GInt64 42], valueModified = True\<rparr>)]\<rparr>)\<rparr>)"
    by blast
  then have f: "sqlite_Flush \<lparr>Encode = (\<lambda>_. Inr [1]), Decode_bool = (\<lambda>_. Inl 0), Decode_string = (\<lambda>_. Inl 0), Decode_int64 = (\<lambda>_. Inl 0), Decode_float64 = (\<lambda>_. Inl 0), Decode_map = (\<lambda>_. Inl 0)\<rparr> \<lparr>sqlite_dbConn = Some \<lparr>stmts = [], exec_reply = (\<lambda>_. Some 7), query_reply = (\<lambda>_. Query_ErrNoRows)\<rparr>, sqlite_encrkey = [], sqlite_maxLifeTime = 0, sqlite_maxIdleTime = 0\<rparr> \<lparr>sqlite_sid = ''s'', timeAccessed = \<lparr>wall_sec = 200, nsec = 0, zone_offset = 0\<rparr>, timeCreated = \<lparr>wall_sec = 100, nsec = 0, zone_offset = 0\<rparr>, st_value = [''n'' \<mapsto> GInt64 42], valueModified = True\<rparr> = (Some (ExternalError 7), \<lparr>sqlite_sid = ''s'', timeAccessed = \<lparr>wall_sec = 200, nsec = 0, zone_offset = 0\<rparr>, timeCreated = \<lparr>wall_sec = 100, nsec = 0, zone_offset = 0\<rparr>, st_value = [''n'' \<mapsto> GInt64 42], valueModified = True\<rparr>, \<lparr>sqlite_dbConn = Some \<lparr>stmts = [Sql_UpdateVal [1] ''s''], exec_reply = (\<lambda>_. Some 7), query_reply = (\<lambda>_. Query_ErrNoRows)\<rparr>, sqlite_encrkey = [], sqlite_maxLifeTime = 0, sqlite_maxIdleTime = 0\<rparr>)"
    by simp
  from t6 h7 have g: "fst (redis_Flush \<lparr>Encode = (\<lambda>_. Inr [1]), Decode_bool = (\<lambda>_. Inl 0), Decode_string = (\<lambda>_. Inl 0), Decode_int64 = (\<lambda>_. Inl 0), Decode_float64 = (\<lambda>_. Inl 0), Decode_map = (\<lambda>_. Inl 0)\<rparr> \<lparr>wall_sec = 200, nsec = 0, zone_offset = 0\<rparr> \<lparr>redis_client = Some \<lparr>cmds = [], get_reply = (\<lambda>_. Inr []), status_reply = (\<lambda>_. Some 9)\<rparr>, redis_namespace = ''ns'', redis_maxLifeTime = 0, redis_maxIdleTime = 0\<rparr> \<lparr>redis_sid = ''s''\<rparr>) = None"
    by blast
  from t4 h8
  have "redis_Flush \<lparr>Encode = (\<lambda>_. Inr [1]), Decode_bool = (\<lambda>_. Inl 0), Decode_string = (\<lambda>_. Inl 0), Decode_int64 = (\<lambda>_. Inl 0), Decode_float64 = (\<lambda>_. Inl 0), Decode_map = (\<lambda>_. Inl 0)\<rparr> \<lparr>wall_sec = 200, nsec = 0, zone_offset = 0\<rparr> \<lparr>redis_client = Some \<lparr>cmds = [], get_reply = (\<lambda>_. Inr []), status_reply = (\<lambda>_. None)\<rparr>, redis_namespace = ''ns'', redis_maxLifeTime = 0, redis_maxIdleTime = 0\<rparr> \<lparr>redis_sid = ''s''\<rparr> =
      (None,
       \<lparr>redis_client = Some \<lparr>cmds = [], get_reply = (\<lambda>_. Inr []), status_reply = (\<lambda>_. None)\<rparr>, redis_namespace = ''ns'', redis_maxLifeTime = 0, redis_maxIdleTime = 0\<rparr>\<lparr>redis_client := Some (\<lparr>cmds = [], get_reply = (\<lambda>_. Inr []), status_reply = (\<lambda>_. None)\<rparr>\<lparr>cmds := cmds \<lparr>cmds = [], get_reply = (\<lambda>_. Inr []), status_reply = (\<lambda>_. None)\<rparr> @
         [Cmd_Set (redis_namespace \<lparr>redis_client = Some \<lparr>cmds = [], get_reply = (\<lambda>_. Inr []), status_reply = (\<lambda>_. None)\<rparr>, redis_namespace = ''ns'', redis_maxLifeTime = 0, redis_maxIdleTime = 0\<rparr> @ '':'' @ redis_sid \<lparr>redis_sid = ''s''\<rparr> @ '':'' @ ''time_accessed'') [1]
            (Seconds (redis_maxLifeTime \<lparr>redis_client = Some \<lparr>cmds = [], get_reply = (\<lambda>_. Inr []), status_reply = (\<lambda>_. None)\<rparr>, redis_namespace = ''ns'', redis_maxLifeTime = 0, redis_maxIdleTime = 0\<rparr>))]\<rparr>)\<rparr>)"
    by blast
  then have h: "redis_Flush \<lparr>Encode = (\<lambda>_. Inr [1]), Decode_bool = (\<lambda>_. Inl 0), Decode_string = (\<lambda>_. Inl 0), Decode_int64 = (\<lambda>_. Inl 0), Decode_float64 = (\<lambda>_. Inl 0), Decode_map = (\<lambda>_. Inl 0)\<rparr> \<lparr>wall_sec = 200, nsec = 0, zone_offset = 0\<rparr> \<lparr>redis_client = Some \<lparr>cmds = [], get_reply = (\<lambda>_. Inr []), status_reply = (\<lambda>_. None)\<rparr>, redis_namespace = ''ns'', redis_maxLifeTime = 0, redis_maxIdleTime = 0\<rparr> \<lparr>redis_sid = ''s''\<rparr> = (None, \<lparr>redis_client = Some \<lparr>cmds = [Cmd_Set ''ns:s:time_accessed'' [1] 0], get_reply = (\<lambda>_. Inr []), status_reply = (\<lambda>_. None)\<rparr>, redis_namespace = ''ns'', redis_maxLifeTime = 0, redis_maxIdleTime = 0\<rparr>)"
    by (simp add: Seconds_def)
  from init read flushed nr cr ne ce ys cs a b c d e f g h show ?thesis
    by simp
qed

subsection \<open>The session handle: the typed getters\<close>

lemma sqlite_getters_absent:
  assumes "st_value st key = None"
  shows "sqlite_GetBool now st key = (False, st)" and "sqlite_GetString now st key = ([], st)"
    and "sqlite_GetInt now st key = (0, st)" and "sqlite_GetFloat conv now st key = (0, st)"
  using assms
  by (simp_all add: sqlite_GetBool_def sqlite_GetString_def sqlite_GetInt_def sqlite_GetFloat_def)

lemma sqlite_GetBool_other:
  "st_value st key = Some v \<Longrightarrow> TypeOf v \<noteq> Some TBool \<Longrightarrow>
   sqlite_GetBool now st key = (False, st\<lparr>timeAccessed := now\<rparr>)"
  by (cases v) (simp_all add: sqlite_GetBool_def)

lemma sqlite_GetString_other:
  "st_value st key = Some v \<Longrightarrow> TypeOf v \<noteq> Some TString \<Longrightarrow> TypeOf v \<noteq> Some TBytes \<Longrightarrow>
   sqlite_GetString now st key = ([], st\<lparr>timeAccessed := now\<rparr>)"
  by (cases v) (simp_all add: sqlite_GetString_def)

lemma sqlite_GetInt_other:
  "st_value st key = Some v \<Longrightarrow> TypeOf v \<noteq> Some TInt64 \<Longrightarrow> TypeOf v \<noteq> Some TInt \<Longrightarrow>
   sqlite_GetInt now st key = (0, st\<lparr>timeAccessed := now\<rparr>)"
  by (cases v) (simp_all add: sqlite_GetInt_def)

lemma sqlite_GetFloat_other:
  "st_value st key = Some v \<Longrightarrow> TypeOf v \<noteq> Some TFloat64 \<Longrightarrow> TypeOf v \<noteq> Some TFloat32 \<Longrightarrow>
   sqlite_GetFloat conv now st key = (0, st\<lparr>timeAccessed := now\<rparr>)"
  by (cases v) (simp_all add: sqlite_GetFloat_def)

lemma redis_getValueForKey_no_panic:
  "redis_client rp \<noteq> None \<Longrightarrow> fst (redis_getValueForKey dec rp k) \<noteq> Inl NilPointerDereference"
  by (auto simp: redis_getValueForKey_def Let_def split: sum.splits if_splits)

lemma redis_getValue_no_panic:
  "redis_client rp \<noteq> None \<Longrightarrow> fst (redis_getValue g dec now rp sid key) \<noteq> Inl NilPointerDereference"
  using redis_getValueForKey_no_panic [of rp dec "redis_getPrefixedKey rp sid key"]
  by (cases "redis_getValueForKey dec rp (redis_getPrefixedKey rp sid key)";
      cases "fst (redis_getValueForKey dec rp (redis_getPrefixedKey rp sid key))")
     (simp_all add: redis_getValue_def)

lemma redis_getter_value:
  assumes "redis_client rp \<noteq> None"
  shows "fst (redis_getter g dec zero now rp rst key) =
           Some (case fst (redis_getValue g dec now rp (redis_sid rst) key) of
                   Inl _ \<Rightarrow> zero | Inr x \<Rightarrow> x)"
  using redis_getValue_no_panic [OF assms, of g dec now "redis_sid rst" key]
  by (cases "redis_getValue g dec now rp (redis_sid rst) key";
      cases "fst (redis_getValue g dec now rp (redis_sid rst) key)")
     (simp_all add: redis_getter_def)

lemma sqlite_getters_own_type:
  "st_value st key = Some (GBool b) \<Longrightarrow> sqlite_GetBool now st key = (b, st\<lparr>timeAccessed := now\<rparr>)"
  "st_value st key = Some (GString s) \<Longrightarrow>
   sqlite_GetString now st key = (s, st\<lparr>timeAccessed := now\<rparr>)"
  "st_value st key = Some (GInt64 i) \<Longrightarrow> sqlite_GetInt now st key = (i, st\<lparr>timeAccessed := now\<rparr>)"
  "st_value st key = Some (GFloat64 f) \<Longrightarrow>
   sqlite_GetFloat conv now st key = (f, st\<lparr>timeAccessed := now\<rparr>)"
  by (simp_all add: sqlite_GetBool_def sqlite_GetString_def sqlite_GetInt_def sqlite_GetFloat_def)

lemma sqlite_getters_converted:
  "st_value st key = Some (GBytes bs) \<Longrightarrow>
   sqlite_GetString now st key = (string_of_bytes bs, st\<lparr>timeAccessed := now\<rparr>)"
  "st_value st key = Some (GInt i) \<Longrightarrow> sqlite_GetInt now st key = (i, st\<lparr>timeAccessed := now\<rparr>)"
  "st_value st key = Some (GFloat32 w) \<Longrightarrow>
   sqlite_GetFloat conv now st key = (conv w, st\<lparr>timeAccessed := now\<rparr>)"
  by (simp_all add: sqlite_GetString_def sqlite_GetInt_def sqlite_GetFloat_def)

text \<open>
  Claim C5, as amended. The typed getters have no error result. Those of the sqlite store
  return the zero value and leave the store as it is when the key is absent; for a stored
  value they set the access time and return the value itself when it has the type of the
  getter, the value converted when it has the one other type the getter converts
  (\<open>[]byte\<close> for \<open>GetString\<close>, the same bytes; \<open>int\<close> for \<open>GetInt\<close>, the same
  bits; \<open>float32\<close> for \<open>GetFloat\<close>, widened), and the zero value when it has neither
  type. Those of the redis store, with an initialized provider, return the decoded value
  when \<open>getValue\<close> succeeds and the zero value whenever it fails (the backend read
  fails, the entry is empty, or gob cannot decode it into the getter's type).
\<close>

theorem typed_getters_value_or_zero:
  "(st_value st key = None \<longrightarrow>
      sqlite_GetBool now st key = (False, st) \<and> sqlite_GetString now st key = ([], st) \<and>
      sqlite_GetInt now st key = (0, st) \<and> sqlite_GetFloat conv now st key = (0, st)) \<and>
   (st_value st key = Some (GBool b) \<longrightarrow>
      sqlite_GetBool now st key = (b, st\<lparr>timeAccessed := now\<rparr>)) \<and>
   (st_value st key = Some v \<and> TypeOf v \<noteq> Some TBool \<longrightarrow>
      sqlite_GetBool now st key = (False, st\<lparr>timeAccessed := now\<rparr>)) \<and>
   (st_value st key = Some (GString s) \<longrightarrow>
      sqlite_GetString now st key = (s, st\<lparr>timeAccessed := now\<rparr>)) \<and>
   (st_value st key = Some (GBytes bs) \<longrightarrow>
      sqlite_GetString now st key = (string_of_bytes bs, st\<lparr>timeAccessed := now\<rparr>)) \<and>
   (st_value st key = Some v \<and> TypeOf v \<noteq> Some TString \<and> TypeOf v \<noteq> Some TBytes \<longrightarrow>
      sqlite_GetString now st key = ([], st\<lparr>timeAccessed := now\<rparr>)) \<and>
   (st_value st key = Some (GInt64 i) \<longrightarrow>
      sqlite_GetInt now st key = (i, st\<lparr>timeAccessed := now\<rparr>)) \<and>
   (st_value st key = Some (GInt i) \<longrightarrow>
      sqlite_GetInt now st key = (i, st\<lparr>timeAccessed := now\<rparr>)) \<and>
   (st_value st key = Some v \<and> TypeOf v \<noteq> Some TInt64 \<and> TypeOf v \<noteq> Some TInt \<longrightarrow>
      sqlite_GetInt now st key = (0, st\<lparr>timeAccessed := now\<rparr>)) \<and>
   (st_value st key = Some (GFloat64 f) \<longrightarrow>
      sqlite_GetFloat conv now st key = (f, st\<lparr>timeAccessed := now\<rparr>)) \<and>
   (st_value st key = Some (GFloat32 w) \<longrightarrow>
      sqlite_GetFloat conv now st key = (conv w, st\<lparr>timeAccessed := now\<rparr>)) \<and>
   (st_value st key = Some v \<and> TypeOf v \<noteq> Some TFloat64 \<and> TypeOf v \<noteq> Some TFloat32 \<longrightarrow>
      sqlite_GetFloat conv now st key = (0, st\<lparr>timeAccessed := now\<rparr>)) \<and>
   (redis_client rp \<noteq> None \<longrightarrow>
      fst (redis_GetBool g now rp rst key) =
        Some (case fst (redis_getValue g (Decode_bool g) now rp (redis_sid rst) key) of
                Inl _ \<Rightarrow> False | Inr x \<Rightarrow> x) \<and>
      fst (redis_GetString g now rp rst key) =
        Some (case fst (redis_getValue g (Decode_string g) now rp (redis_sid rst) key) of
                Inl _ \<Rightarrow> [] | Inr x \<Rightarrow> x) \<and>
      fst (redis_GetInt g now rp rst key) =
        Some (case fst (redis_getValue g (Decode_int64 g) now rp (redis_sid rst) key) of
                Inl _ \<Rightarrow> 0 | Inr x \<Rightarrow> x) \<and>
      fst (redis_GetFloat g now rp rst key) =
        Some (case fst (redis_getValue g (Decode_float64 g) now rp (redis_sid rst) key) of
                Inl _ \<Rightarrow> 0 | Inr x \<Rightarrow> x))"
proof (intro conjI impI)
  assume a: "st_value st key = None"
  show "sqlite_GetBool now st key = (False, st)" "sqlite_GetString now st key = ([], st)"
    "sqlite_GetInt now st key = (0, st)" "sqlite_GetFloat conv now st key = (0, st)"
    using sqlite_getters_absent [OF a] by simp_all
next
  show "sqlite_GetBool now st key = (b, st\<lparr>timeAccessed := now\<rparr>)"
    if "st_value st key = Some (GBool b)"
    using that by (rule sqlite_getters_own_type)
  show "sqlite_GetString now st key = (s, st\<lparr>timeAccessed := now\<rparr>)"
    if "st_value st key = Some (GString s)"
    using that by (rule sqlite_getters_own_type)
  show "sqlite_GetInt now st key = (i, st\<lparr>timeAccessed := now\<rparr>)"
    if "st_value st key = Some (GInt64 i)"
    using that by (rule sqlite_getters_own_type)
  show "sqlite_GetFloat conv now st key = (f, st\<lparr>timeAccessed := now\<rparr>)"
    if "st_value st key = Some (GFloat64 f)"
    using that by (rule sqlite_getters_own_type)
  show "sqlite_GetString now st key = (string_of_bytes bs, st\<lparr>timeAccessed := now\<rparr>)"
    if "st_value st key = Some (GBytes bs)"
    using that by (rule sqlite_getters_converted)
  show "sqlite_GetInt now st key = (i, st\<lparr>timeAccessed := now\<rparr>)"
    if "st_value st key = Some (GInt i)"
    using that by (rule sqlite_getters_converted)
  show "sqlite_GetFloat conv now st key = (conv w, st\<lparr>timeAccessed := now\<rparr>)"
    if "st_value st key = Some (GFloat32 w)"
    using that by (rule sqlite_getters_converted)
  show "sqlite_GetBool now st key = (False, st\<lparr>timeAccessed := now\<rparr>)"
    if "st_value st key = Some v \<and> TypeOf v \<noteq> Some TBool"
    using that by (simp add: sqlite_GetBool_other)
  show "sqlite_GetString now st key = ([], st\<lparr>timeAccessed := now\<rparr>)"
    if "st_value st key = Some v \<and> TypeOf v \<noteq> Some TString \<and> TypeOf v \<noteq> Some TBytes"
    using that by (simp add: sqlite_GetString_other)
  show "sqlite_GetInt now st key = (0, st\<lparr>timeAccessed := now\<rparr>)"
    if "st_value st key = Some v \<and> TypeOf v \<noteq> Some TInt64 \<and> TypeOf v \<noteq> Some TInt"
    using that by (simp add: sqlite_GetInt_other)
  show "sqlite_GetFloat conv now st key = (0, st\<lparr>timeAccessed := now\<rparr>)"
    if "st_value st key = Some v \<and> TypeOf v \<noteq> Some TFloat64 \<and> TypeOf v \<noteq> Some TFloat32"
    using that by (simp add: sqlite_GetFloat_other)
next
  assume c: "redis_client rp \<noteq> None"
  show "fst (redis_GetBool g now rp rst key) =
        Some (case fst (redis_getValue g (Decode_bool g) now rp (redis_sid rst) key) of
                Inl _ \<Rightarrow> False | Inr x \<Rightarrow> x)"
    unfolding redis_GetBool_def using c by (rule redis_getter_value)
  show "fst (redis_GetString g now rp rst key) =
        Some (case fst (redis_getValue g (Decode_string g) now rp (redis_sid rst) key) of
                Inl _ \<Rightarrow> [] | Inr x \<Rightarrow> x)"
    unfolding redis_GetString_def using c by (rule redis_getter_value)
  show "fst (redis_GetInt g now rp rst key) =
        Some (case fst (redis_getValue g (Decode_int64 g) now rp (redis_sid rst) key) of
                Inl _ \<Rightarrow> 0 | Inr x \<Rightarrow> x)"
    unfolding redis_GetInt_def using c by (rule redis_getter_value)
  show "fst (redis_GetFloat g now rp rst key) =
        Some (case fst (redis_getValue g (Decode_float64 g) now rp (redis_sid rst) key) of
                Inl _ \<Rightarrow> 0 | Inr x \<Rightarrow> x)"
    unfolding redis_GetFloat_def using c by (rule redis_getter_value)
qed

theorem typed_getters_convert_other_types:
  "TypeOf (GInt 5) \<noteq> Some TInt64 \<and>
   sqlite_Get
     \<lparr>sqlite_sid = ''s'', timeAccessed = \<lparr>wall_sec = 100, nsec = 0, zone_offset = 0\<rparr>,
      timeCreated = \<lparr>wall_sec = 100, nsec = 0, zone_offset = 0\<rparr>,
      st_value = [''n'' \<mapsto> GInt 5, ''b'' \<mapsto> GBytes [104, 105]], valueModified = False\<rparr>
     ''n'' (Target_ptr TInt64) = Inl ValueTypeMismatch \<and>
   fst (sqlite_GetInt \<lparr>wall_sec = 200, nsec = 0, zone_offset = 0\<rparr>
     \<lparr>sqlite_sid = ''s'', timeAccessed = \<lparr>wall_sec = 100, nsec = 0, zone_offset = 0\<rparr>,
      timeCreated = \<lparr>wall_sec = 100, nsec = 0, zone_offset = 0\<rparr>,
      st_value = [''n'' \<mapsto> GInt 5, ''b'' \<mapsto> GBytes [104, 105]], valueModified = False\<rparr>
     ''n'') = 5 \<and>
   TypeOf (GBytes [104, 105]) \<noteq> Some TString \<and>
   sqlite_Get
     \<lparr>sqlite_sid = ''s'', timeAccessed = \<lparr>wall_sec = 100, nsec = 0, zone_offset = 0\<rparr>,
      timeCreated = \<lparr>wall_sec = 100, nsec = 0, zone_offset = 0\<rparr>,
      st_value = [''n'' \<mapsto> GInt 5, ''b'' \<mapsto> GBytes [104, 105]], valueModified = False\<rparr>
     ''b'' (Target_ptr TString) = Inl ValueTypeMismatch \<and>
   fst (sqlite_GetString \<lparr>wall_sec = 200, nsec = 0, zone_offset = 0\<rparr>
     \<lparr>sqlite_sid = ''s'', timeAccessed = \<lparr>wall_sec = 100, nsec = 0, zone_offset = 0\<rparr>,
      timeCreated = \<lparr>wall_sec = 100, nsec = 0, zone_offset = 0\<rparr>,
      st_value = [''n'' \<mapsto> GInt 5, ''b'' \<mapsto> GBytes [104, 105]], valueModified = False\<rparr>
     ''b'') = ''hi''"
proof -
  have "string_of_bytes [104, 105] = ''hi''"
    unfolding string_of_bytes_def by code_simp
  then show ?thesis
    by (simp add: sqlite_Get_def AssignableTo_def sqlite_GetInt_def sqlite_GetString_def)
qed

theorem typed_getters_value_or_zero_witness:
  "st_value \<lparr>sqlite_sid = ''s'', timeAccessed = \<lparr>wall_sec = 100, nsec = 0, zone_offset = 0\<rparr>, timeCreated = \<lparr>wall_sec = 100, nsec = 0, zone_offset = 0\<rparr>, st_value = [''n'' \<mapsto> GInt 5, ''b'' \<mapsto> GBytes [104, 105], ''t'' \<mapsto> GBool True, ''x'' \<mapsto> GString ''v'', ''i'' \<mapsto> GInt64 7, ''f'' \<mapsto> GFloat64 9, ''w'' \<mapsto> GFloat32 3], valueModified = False\<rparr> ''absent'' = None \<and>
   sqlite_GetBool \<lparr>wall_sec = 200, nsec = 0, zone_offset = 0\<rparr> \<lparr>sqlite_sid = ''s'', timeAccessed = \<lparr>wall_sec = 100, nsec = 0, zone_offset = 0\<rparr>, timeCreated = \<lparr>wall_sec = 100, nsec = 0, zone_offset = 0\<rparr>, st_value = [''n'' \<mapsto> GInt 5, ''b'' \<mapsto> GBytes [104, 105], ''t'' \<mapsto> GBool True, ''x'' \<mapsto> GString ''v'', ''i'' \<mapsto> GInt64 7, ''f'' \<mapsto> GFloat64 9, ''w'' \<mapsto> GFloat32 3], valueModified = False\<rparr> ''absent'' = (False, \<lparr>sqlite_sid = ''s'', timeAccessed = \<lparr>wall_sec = 100, nsec = 0, zone_offset = 0\<rparr>, timeCreated = \<lparr>wall_sec = 100, nsec = 0, zone_offset = 0\<rparr>, st_value = [''n'' \<mapsto> GInt 5, ''b'' \<mapsto> GBytes [104, 105], ''t'' \<mapsto> GBool True, ''x'' \<mapsto> GString ''v'', ''i'' \<mapsto> GInt64 7, ''f'' \<mapsto> GFloat64 9, ''w'' \<mapsto> GFloat32 3], valueModified = False\<rparr>) \<and>
   sqlite_GetString \<lparr>wall_sec = 200, nsec = 0, zone_offset = 0\<rparr> \<lparr>sqlite_sid = ''s'', timeAccessed = \<lparr>wall_sec = 100, nsec = 0, zone_offset = 0\<rparr>, timeCreated = \<lparr>wall_sec = 100, nsec = 0, zone_offset = 0\<rparr>, st_value = [''n'' \<mapsto> GInt 5, ''b'' \<mapsto> GBytes [104, 105], ''t'' \<mapsto> GBool True, ''x'' \<mapsto> GString ''v'', ''i'' \<mapsto> GInt64 7, ''f'' \<mapsto> GFloat64 9, ''w'' \<mapsto> GFloat32 3], valueModified = False\<rparr> ''absent'' = ([], \<lparr>sqlite_sid = ''s'', timeAccessed = \<lparr>wall_sec = 100, nsec = 0, zone_offset = 0\<rparr>, timeCreated = \<lparr>wall_sec = 100, nsec = 0, zone_offset = 0\<rparr>, st_value = [''n'' \<mapsto> GInt 5, ''b'' \<mapsto> GBytes [104, 105], ''t'' \<mapsto> GBool True, ''x'' \<mapsto> GString ''v'', ''i'' \<mapsto> GInt64 7, ''f'' \<mapsto> GFloat64 9, ''w'' \<mapsto> GFloat32 3], valueModified = False\<rparr>) \<and>
   sqlite_GetInt \<lparr>wall_sec = 200, nsec = 0, zone_offset = 0\<rparr> \<lparr>sqlite_sid = ''s'', timeAccessed = \<lparr>wall_sec = 100, nsec = 0, zone_offset = 0\<rparr>, timeCreated = \<lparr>wall_sec = 100, nsec = 0, zone_offset = 0\<rparr>, st_value = [''n'' \<mapsto> GInt 5, ''b'' \<mapsto> GBytes [104, 105], ''t'' \<mapsto> GBool True, ''x'' \<mapsto> GString ''v'', ''i'' \<mapsto> GInt64 7, ''f'' \<mapsto> GFloat64 9, ''w'' \<mapsto> GFloat32 3], valueModified = False\<rparr> ''absent'' = (0, \<lparr>sqlite_sid = ''s'', timeAccessed = \<lparr>wall_sec = 100, nsec = 0, zone_offset = 0\<rparr>, timeCreated = \<lparr>wall_sec = 100, nsec = 0, zone_offset = 0\<rparr>, st_value = [''n'' \<mapsto> GInt 5, ''b'' \<mapsto> GBytes [104, 105], ''t'' \<mapsto> GBool True, ''x'' \<mapsto> GString ''v'', ''i'' \<mapsto> GInt64 7, ''f'' \<mapsto> GFloat64 9, ''w'' \<mapsto> GFloat32 3], valueModified = False\<rparr>) \<and>
   sqlite_GetFloat (\<lambda>w. ucast w + 1) \<lparr>wall_sec = 200, nsec = 0, zone_offset = 0\<rparr> \<lparr>sqlite_sid = ''s'', timeAccessed = \<lparr>wall_sec = 100, nsec = 0, zone_offset = 0\<rparr>, timeCreated = \<lparr>wall_sec = 100, nsec = 0, zone_offset = 0\<rparr>, st_value = [''n'' \<mapsto> GInt 5, ''b'' \<mapsto> GBytes [104, 105], ''t'' \<mapsto> GBool True, ''x'' \<mapsto> GString ''v'', ''i'' \<mapsto> GInt64 7, ''f'' \<mapsto> GFloat64 9, ''w'' \<mapsto> GFloat32 3], valueModified = False\<rparr> ''absent'' = (0, \<lparr>sqlite_sid = ''s'', timeAccessed = \<lparr>wall_sec = 100, nsec = 0, zone_offset = 0\<rparr>, timeCreated = \<lparr>wall_sec = 100, nsec = 0, zone_offset = 0\<rparr>, st_value = [''n'' \<mapsto> GInt 5, ''b'' \<mapsto> GBytes [104, 105], ''t'' \<mapsto> GBool True, ''x'' \<mapsto> GString ''v'', ''i'' \<mapsto> GInt64 7, ''f'' \<mapsto> GFloat64 9, ''w'' \<mapsto> GFloat32 3], valueModified = False\<rparr>) \<and>
   st_value \<lparr>sqlite_sid = ''s'', timeAccessed = \<lparr>wall_sec = 100, nsec = 0, zone_offset = 0\<rparr>, timeCreated = \<lparr>wall_sec = 100, nsec = 0, zone_offset = 0\<rparr>, st_value = [''n'' \<mapsto> GInt 5, ''b'' \<mapsto> GBytes [104, 105], ''t'' \<mapsto> GBool True, ''x'' \<mapsto> GString ''v'', ''i'' \<mapsto> GInt64 7, ''f'' \<mapsto> GFloat64 9, ''w'' \<mapsto> GFloat32 3], valueModified = False\<rparr> ''t'' = Some (GBool True) \<and>
   sqlite_GetBool \<lparr>wall_sec = 200, nsec = 0, zone_offset = 0\<rparr> \<lparr>sqlite_sid = ''s'', timeAccessed = \<lparr>wall_sec = 100, nsec = 0, zone_offset = 0\<rparr>, timeCreated = \<lparr>wall_sec = 100, nsec = 0, zone_offset = 0\<rparr>, st_value = [''n'' \<mapsto> GInt 5, ''b'' \<mapsto> GBytes [104, 105], ''t'' \<mapsto> GBool True, ''x'' \<mapsto> GString ''v'', ''i'' \<mapsto> GInt64 7, ''f'' \<mapsto> GFloat64 9, ''w'' \<mapsto> GFloat32 3], valueModified = False\<rparr> ''t'' = (True, \<lparr>sqlite_sid = ''s'', timeAccessed = \<lparr>wall_sec = 200, nsec = 0, zone_offset = 0\<rparr>, timeCreated = \<lparr>wall_sec = 100, nsec = 0, zone_offset = 0\<rparr>, st_value = [''n'' \<mapsto> GInt 5, ''b'' \<mapsto> GBytes [104, 105], ''t'' \<mapsto> GBool True, ''x'' \<mapsto> GString ''v'', ''i'' \<mapsto> GInt64 7, ''f'' \<mapsto> GFloat64 9, ''w'' \<mapsto> GFloat32 3], valueModified = False\<rparr>) \<and>
   st_value \<lparr>sqlite_sid = ''s'', timeAccessed = \<lparr>wall_sec = 100, nsec = 0, zone_offset = 0\<rparr>, timeCreated = \<lparr>wall_sec = 100, nsec = 0, zone_offset = 0\<rparr>, st_value = [''n'' \<mapsto> GInt 5, ''b'' \<mapsto> GBytes [104, 105], ''t'' \<mapsto> GBool True, ''x'' \<mapsto> GString ''v'', ''i'' \<mapsto> GInt64 7, ''f'' \<mapsto> GFloat64 9, ''w'' \<mapsto> GFloat32 3], valueModified = False\<rparr> ''x'' = Some (GString ''v'') \<and>
   sqlite_GetString \<lparr>wall_sec = 200, nsec = 0, zone_offset = 0\<rparr> \<lparr>sqlite_sid = ''s'', timeAccessed = \<lparr>wall_sec = 100, nsec = 0, zone_offset = 0\<rparr>, timeCreated = \<lparr>wall_sec = 100, nsec = 0, zone_offset = 0\<rparr>, st_value = [''n'' \<mapsto> GInt 5, ''b'' \<mapsto> GBytes [104, 105], ''t'' \<mapsto> GBool True, ''x'' \<mapsto> GString ''v'', ''i'' \<mapsto> GInt64 7, ''f'' \<mapsto> GFloat64 9, ''w'' \<mapsto> GFloat32 3], valueModified = False\<rparr> ''x'' = (''v'', \<lparr>sqlite_sid = ''s'', timeAccessed = \<lparr>wall_sec = 200, nsec = 0, zone_offset = 0\<rparr>, timeCreated = \<lparr>wall_sec = 100, nsec = 0, zone_offset = 0\<rparr>, st_value = [''n'' \<mapsto> GInt 5, ''b'' \<mapsto> GBytes [104, 105], ''t'' \<mapsto> GBool True, ''x'' \<mapsto> GString ''v'', ''i'' \<mapsto> GInt64 7, ''f'' \<mapsto> GFloat64 9, ''w'' \<mapsto> GFloat32 3], valueModified = False\<rparr>) \<and>
   st_value \<lparr>sqlite_sid = ''s'', timeAccessed = \<lparr>wall_sec = 100, nsec = 0, zone_offset = 0\<rparr>, timeCreated = \<lparr>wall_sec = 100, nsec = 0, zone_offset = 0\<rparr>, st_value = [''n'' \<mapsto> GInt 5, ''b'' \<mapsto> GBytes [104, 105], ''t'' \<mapsto> GBool True, ''x'' \<mapsto> GString ''v'', ''i'' \<mapsto> GInt64 7, ''f'' \<mapsto> GFloat64 9, ''w'' \<mapsto> GFloat32 3], valueModified = False\<rparr> ''b'' = Some (GBytes [104, 105]) \<and>
   sqlite_GetString \<lparr>wall_sec = 200, nsec = 0, zone_offset = 0\<rparr> \<lparr>sqlite_sid = ''s'', timeAccessed = \<lparr>wall_sec = 100, nsec = 0, zone_offset = 0\<rparr>, timeCreated = \<lparr>wall_sec = 100, nsec = 0, zone_offset = 0\<rparr>, st_value = [''n'' \<mapsto> GInt 5, ''b'' \<mapsto> GBytes [104, 105], ''t'' \<mapsto> GBool True, ''x'' \<mapsto> GString ''v'', ''i'' \<mapsto> GInt64 7, ''f'' \<mapsto> GFloat64 9, ''w'' \<mapsto> GFloat32 3], valueModified = False\<rparr> ''b'' = (''hi'', \<lparr>sqlite_sid = ''s'', timeAccessed = \<lparr>wall_sec = 200, nsec = 0, zone_offset = 0\<rparr>, timeCreated = \<lparr>wall_sec = 100, nsec = 0, zone_offset = 0\<rparr>, st_value = [''n'' \<mapsto> GInt 5, ''b'' \<mapsto> GBytes [104, 105], ''t'' \<mapsto> GBool True, ''x'' \<mapsto> GString ''v'', ''i'' \<mapsto> GInt64 7, ''f'' \<mapsto> GFloat64 9, ''w'' \<mapsto> GFloat32 3], valueModified = False\<rparr>) \<and>
   st_value \<lparr>sqlite_sid = ''s'', timeAccessed = \<lparr>wall_sec = 100, nsec = 0, zone_offset = 0\<rparr>, timeCreated = \<lparr>wall_sec = 100, nsec = 0, zone_offset = 0\<rparr>, st_value = [''n'' \<mapsto> GInt 5, ''b'' \<mapsto> GBytes [104, 105], ''t'' \<mapsto> GBool True, ''x'' \<mapsto> GString ''v'', ''i'' \<mapsto> GInt64 7, ''f'' \<mapsto> GFloat64 9, ''w'' \<mapsto> GFloat32 3], valueModified = False\<rparr> ''i'' = Some (GInt64 7) \<and>
   sqlite_GetInt \<lparr>wall_sec = 200, nsec = 0, zone_offset = 0\<rparr> \<lparr>sqlite_sid = ''s'', timeAccessed = \<lparr>wall_sec = 100, nsec = 0, zone_offset = 0\<rparr>, timeCreated = \<lparr>wall_sec = 100, nsec = 0, zone_offset = 0\<rparr>, st_value = [''n'' \<mapsto> GInt 5, ''b'' \<mapsto> GBytes [104, 105], ''t'' \<mapsto> GBool True, ''x'' \<mapsto> GString ''v'', ''i'' \<mapsto> GInt64 7, ''f'' \<mapsto> GFloat64 9, ''w'' \<mapsto> GFloat32 3], valueModified = False\<rparr> ''i'' = (7, \<lparr>sqlite_sid = ''s'', timeAccessed = \<lparr>wall_sec = 200, nsec = 0, zone_offset = 0\<rparr>, timeCreated = \<lparr>wall_sec = 100, nsec = 0, zone_offset = 0\<rparr>, st_value = [''n'' \<mapsto> GInt 5, ''b'' \<mapsto> GBytes [104, 105], ''t'' \<mapsto> GBool True, ''x'' \<mapsto> GString ''v'', ''i'' \<mapsto> GInt64 7, ''f'' \<mapsto> GFloat64 9, ''w'' \<mapsto> GFloat32 3], valueModified = False\<rparr>) \<and>
   st_value \<lparr>sqlite_sid = ''s'', timeAccessed = \<lparr>wall_sec = 100, nsec = 0, zone_offset = 0\<rparr>, timeCreated = \<lparr>wall_sec = 100, nsec = 0, zone_offset = 0\<rparr>, st_value = [''n'' \<mapsto> GInt 5, ''b'' \<mapsto> GBytes [104, 105], ''t'' \<mapsto> GBool True, ''x'' \<mapsto> GString ''v'', ''i'' \<mapsto> GInt64 7, ''f'' \<mapsto> GFloat64 9, ''w'' \<mapsto> GFloat32 3], valueModified = False\<rparr> ''n'' = Some (GInt 5) \<and>
   sqlite_GetInt \<lparr>wall_sec = 200, nsec = 0, zone_offset = 0\<rparr> \<lparr>sqlite_sid = ''s'', timeAccessed = \<lparr>wall_sec = 100, nsec = 0, zone_offset = 0\<rparr>, timeCreated = \<lparr>wall_sec = 100, nsec = 0, zone_offset = 0\<rparr>, st_value = [''n'' \<mapsto> GInt 5, ''b'' \<mapsto> GBytes [104, 105], ''t'' \<mapsto> GBool True, ''x'' \<mapsto> GString ''v'', ''i'' \<mapsto> GInt64 7, ''f'' \<mapsto> GFloat64 9, ''w'' \<mapsto> GFloat32 3], valueModified = False\<rparr> ''n'' = (5, \<lparr>sqlite_sid = ''s'', timeAccessed = \<lparr>wall_sec = 200, nsec = 0, zone_offset = 0\<rparr>, timeCreated = \<lparr>wall_sec = 100, nsec = 0, zone_offset = 0\<rparr>, st_value = [''n'' \<mapsto> GInt 5, ''b'' \<mapsto> GBytes [104, 105], ''t'' \<mapsto> GBool True, ''x'' \<mapsto> GString ''v'', ''i'' \<mapsto> GInt64 7, ''f'' \<mapsto> GFloat64 9, ''w'' \<mapsto> GFloat32 3], valueModified = False\<rparr>) \<and>
   st_value \<lparr>sqlite_sid = ''s'', timeAccessed = \<lparr>wall_sec = 100, nsec = 0, zone_offset = 0\<rparr>, timeCreated = \<lparr>wall_sec = 100, nsec = 0, zone_offset = 0\<rparr>, st_value = [''n'' \<mapsto> GInt 5, ''b'' \<mapsto> GBytes [104, 105], ''t'' \<mapsto> GBool True, ''x'' \<mapsto> GString ''v'', ''i'' \<mapsto> GInt64 7, ''f'' \<mapsto> GFloat64 9, ''w'' \<mapsto> GFloat32 3], valueModified = False\<rparr> ''f'' = Some (GFloat64 9) \<and>
   sqlite_GetFloat (\<lambda>w. ucast w + 1) \<lparr>wall_sec = 200, nsec = 0, zone_offset = 0\<rparr> \<lparr>sqlite_sid = ''s'', timeAccessed = \<lparr>wall_sec = 100, nsec = 0, zone_offset = 0\<rparr>, timeCreated = \<lparr>wall_sec = 100, nsec = 0, zone_offset = 0\<rparr>, st_value = [''n'' \<mapsto> GInt 5, ''b'' \<mapsto> GBytes [104, 105], ''t'' \<mapsto> GBool True, ''x'' \<mapsto> GString ''v'', ''i'' \<mapsto> GInt64 7, ''f'' \<mapsto> GFloat64 9, ''w'' \<mapsto> GFloat32 3], valueModified = False\<rparr> ''f'' = (9, \<lparr>sqlite_sid = ''s'', timeAccessed = \<lparr>wall_sec = 200, nsec = 0, zone_offset = 0\<rparr>, timeCreated = \<lparr>wall_sec = 100, nsec = 0, zone_offset = 0\<rparr>, st_value = [''n'' \<mapsto> GInt 5, ''b'' \<mapsto> GBytes [104, 105], ''t'' \<mapsto> GBool True, ''x'' \<mapsto> GString ''v'', ''i'' \<mapsto> GInt64 7, ''f'' \<mapsto> GFloat64 9, ''w'' \<mapsto> GFloat32 3], valueModified = False\<rparr>) \<and>
   st_value \<lparr>sqlite_sid = ''s'', timeAccessed = \<lparr>wall_sec = 100, nsec = 0, zone_offset = 0\<rparr>, timeCreated = \<lparr>wall_sec = 100, nsec = 0, zone_offset = 0\<rparr>, st_value = [''n'' \<mapsto> GInt 5, ''b'' \<mapsto> GBytes [104, 105], ''t'' \<mapsto> GBool True, ''x'' \<mapsto> GString ''v'', ''i'' \<mapsto> GInt64 7, ''f'' \<mapsto> GFloat64 9, ''w'' \<mapsto> GFloat32 3], valueModified = False\<rparr> ''w'' = Some (GFloat32 3) \<and>
   sqlite_GetFloat (\<lambda>w. ucast w + 1) \<lparr>wall_sec = 200, nsec = 0, zone_offset = 0\<rparr> \<lparr>sqlite_sid = ''s'', timeAccessed = \<lparr>wall_sec = 100, nsec = 0, zone_offset = 0\<rparr>, timeCreated = \<lparr>wall_sec = 100, nsec = 0, zone_offset = 0\<rparr>, st_value = [''n'' \<mapsto> GInt 5, ''b'' \<mapsto> GBytes [104, 105], ''t'' \<mapsto> GBool True, ''x'' \<mapsto> GString ''v'', ''i'' \<mapsto> GInt64 7, ''f'' \<mapsto> GFloat64 9, ''w'' \<mapsto> GFloat32 3], valueModified = False\<rparr> ''w'' = (4, \<lparr>sqlite_sid = ''s'', timeAccessed = \<lparr>wall_sec = 200, nsec = 0, zone_offset = 0\<rparr>, timeCreated = \<lparr>wall_sec = 100, nsec = 0, zone_offset = 0\<rparr>, st_value = [''n'' \<mapsto> GInt 5, ''b'' \<mapsto> GBytes [104, 105], ''t'' \<mapsto> GBool True, ''x'' \<mapsto> GString ''v'', ''i'' \<mapsto> GInt64 7, ''f'' \<mapsto> GFloat64 9, ''w'' \<mapsto> GFloat32 3], valueModified = False\<rparr>) \<and>
   TypeOf (GInt 5) \<noteq> Some TBool \<and> TypeOf (GInt 5) \<noteq> Some TString \<and>
   TypeOf (GInt 5) \<noteq> Some TBytes \<and> TypeOf (GInt 5) \<noteq> Some TFloat64 \<and>
   TypeOf (GInt 5) \<noteq> Some TFloat32 \<and>
   sqlite_GetBool \<lparr>wall_sec = 200, nsec = 0, zone_offset = 0\<rparr> \<lparr>sqlite_sid = ''s'', timeAccessed = \<lparr>wall_sec = 100, nsec = 0, zone_offset = 0\<rparr>, timeCreated = \<lparr>wall_sec = 100, nsec = 0, zone_offset = 0\<rparr>, st_value = [''n'' \<mapsto> GInt 5, ''b'' \<mapsto> GBytes [104, 105], ''t'' \<mapsto> GBool True, ''x'' \<mapsto> GString ''v'', ''i'' \<mapsto> GInt64 7, ''f'' \<mapsto> GFloat64 9, ''w'' \<mapsto> GFloat32 3], valueModified = False\<rparr> ''n'' = (False, \<lparr>sqlite_sid = ''s'', timeAccessed = \<lparr>wall_sec = 200, nsec = 0, zone_offset = 0\<rparr>, timeCreated = \<lparr>wall_sec = 100, nsec = 0, zone_offset = 0\<rparr>, st_value = [''n'' \<mapsto> GInt 5, ''b'' \<mapsto> GBytes [104, 105], ''t'' \<mapsto> GBool True, ''x'' \<mapsto> GString ''v'', ''i'' \<mapsto> GInt64 7, ''f'' \<mapsto> GFloat64 9, ''w'' \<mapsto> GFloat32 3], valueModified = False\<rparr>) \<and>
   sqlite_GetString \<lparr>wall_sec = 200, nsec = 0, zone_offset = 0\<rparr> \<lparr>sqlite_sid = ''s'', timeAccessed = \<lparr>wall_sec = 100, nsec = 0, zone_offset = 0\<rparr>, timeCreated = \<lparr>wall_sec = 100, nsec = 0, zone_offset = 0\<rparr>, st_value = [''n'' \<mapsto> GInt 5, ''b'' \<mapsto> GBytes [104, 105], ''t'' \<mapsto> GBool True, ''x'' \<mapsto> GString ''v'', ''i'' \<mapsto> GInt64 7, ''f'' \<mapsto> GFloat64 9, ''w'' \<mapsto> GFloat32 3], valueModified = False\<rparr> ''n'' = ([], \<lparr>sqlite_sid = ''s'', timeAccessed = \<lparr>wall_sec = 200, nsec = 0, zone_offset = 0\<rparr>, timeCreated = \<lparr>wall_sec = 100, nsec = 0, zone_offset = 0\<rparr>, st_value = [''n'' \<mapsto> GInt 5, ''b'' \<mapsto> GBytes [104, 105], ''t'' \<mapsto> GBool True, ''x'' \<mapsto> GString ''v'', ''i'' \<mapsto> GInt64 7, ''f'' \<mapsto> GFloat64 9, ''w'' \<mapsto> GFloat32 3], valueModified = False\<rparr>) \<and>
   sqlite_GetFloat (\<lambda>w. ucast w + 1) \<lparr>wall_sec = 200, nsec = 0, zone_offset = 0\<rparr> \<lparr>sqlite_sid = ''s'', timeAccessed = \<lparr>wall_sec = 100, nsec = 0, zone_offset = 0\<rparr>, timeCreated = \<lparr>wall_sec = 100, nsec = 0, zone_offset = 0\<rparr>, st_value = [''n'' \<mapsto> GInt 5, ''b'' \<mapsto> GBytes [104, 105], ''t'' \<mapsto> GBool True, ''x'' \<mapsto> GString ''v'', ''i'' \<mapsto> GInt64 7, ''f'' \<mapsto> GFloat64 9, ''w'' \<mapsto> GFloat32 3], valueModified = False\<rparr> ''n'' = (0, \<lparr>sqlite_sid = ''s'', timeAccessed = \<lparr>wall_sec = 200, nsec = 0, zone_offset = 0\<rparr>, timeCreated = \<lparr>wall_sec = 100, nsec = 0, zone_offset = 0\<rparr>, st_value = [''n'' \<mapsto> GInt 5, ''b'' \<mapsto> GBytes [104, 105], ''t'' \<mapsto> GBool True, ''x'' \<mapsto> GString ''v'', ''i'' \<mapsto> GInt64 7, ''f'' \<mapsto> GFloat64 9, ''w'' \<mapsto> GFloat32 3], valueModified = False\<rparr>) \<and>
   TypeOf (GBytes [104, 105]) \<noteq> Some TInt64 \<and> TypeOf (GBytes [104, 105]) \<noteq> Some TInt \<and>
   sqlite_GetInt \<lparr>wall_sec = 200, nsec = 0, zone_offset = 0\<rparr> \<lparr>sqlite_sid = ''s'', timeAccessed = \<lparr>wall_sec = 100, nsec = 0, zone_offset = 0\<rparr>, timeCreated = \<lparr>wall_sec = 100, nsec = 0, zone_offset = 0\<rparr>, st_value = [''n'' \<mapsto> GInt 5, ''b'' \<mapsto> GBytes [104, 105], ''t'' \<mapsto> GBool True, ''x'' \<mapsto> GString ''v'', ''i'' \<mapsto> GInt64 7, ''f'' \<mapsto> GFloat64 9, ''w'' \<mapsto> GFloat32 3], valueModified = False\<rparr> ''b'' = (0, \<lparr>sqlite_sid = ''s'', timeAccessed = \<lparr>wall_sec = 200, nsec = 0, zone_offset = 0\<rparr>, timeCreated = \<lparr>wall_sec = 100, nsec = 0, zone_offset = 0\<rparr>, st_value = [''n'' \<mapsto> GInt 5, ''b'' \<mapsto> GBytes [104, 105], ''t'' \<mapsto> GBool True, ''x'' \<mapsto> GString ''v'', ''i'' \<mapsto> GInt64 7, ''f'' \<mapsto> GFloat64 9, ''w'' \<mapsto> GFloat32 3], valueModified = False\<rparr>) \<and>
   redis_client \<lparr>redis_client = Some \<lparr>cmds = [], get_reply = (\<lambda>_. Inr []), status_reply = (\<lambda>_. None)\<rparr>, redis_namespace = ''ns'', redis_maxLifeTime = 0, redis_maxIdleTime = 0\<rparr> \<noteq> None \<and>
   fst (redis_GetBool \<lparr>Encode = (\<lambda>_. Inr [1]), Decode_bool = (\<lambda>_. Inl 0), Decode_string = (\<lambda>_. Inl 0), Decode_int64 = (\<lambda>_. Inr 7), Decode_float64 = (\<lambda>_. Inl 0), Decode_map = (\<lambda>_. Inl 0)\<rparr> \<lparr>wall_sec = 200, nsec = 0, zone_offset = 0\<rparr> \<lparr>redis_client = Some \<lparr>cmds = [], get_reply = (\<lambda>_. Inr []), status_reply = (\<lambda>_. None)\<rparr>, redis_namespace = ''ns'', redis_maxLifeTime = 0, redis_maxIdleTime = 0\<rparr> \<lparr>redis_sid = ''s''\<rparr> ''n'') = Some False \<and>
   fst (redis_GetString \<lparr>Encode = (\<lambda>_. Inr [1]), Decode_bool = (\<lambda>_. Inl 0), Decode_string = (\<lambda>_. Inl 0), Decode_int64 = (\<lambda>_. Inr 7), Decode_float64 = (\<lambda>_. Inl 0), Decode_map = (\<lambda>_. Inl 0)\<rparr> \<lparr>wall_sec = 200, nsec = 0, zone_offset = 0\<rparr> \<lparr>redis_client = Some \<lparr>cmds = [], get_reply = (\<lambda>_. Inr []), status_reply = (\<lambda>_. None)\<rparr>, redis_namespace = ''ns'', redis_maxLifeTime = 0, redis_maxIdleTime = 0\<rparr> \<lparr>redis_sid = ''s''\<rparr> ''n'') = Some [] \<and>
   fst (redis_GetInt \<lparr>Encode = (\<lambda>_. Inr [1]), Decode_bool = (\<lambda>_. Inl 0), Decode_string = (\<lambda>_. Inl 0), Decode_int64 = (\<lambda>_. Inr 7), Decode_float64 = (\<lambda>_. Inl 0), Decode_map = (\<lambda>_. Inl 0)\<rparr> \<lparr>wall_sec = 200, nsec = 0, zone_offset = 0\<rparr> \<lparr>redis_client = Some \<lparr>cmds = [], get_reply = (\<lambda>_. Inr []), status_reply = (\<lambda>_. None)\<rparr>, redis_namespace = ''ns'', redis_maxLifeTime = 0, redis_maxIdleTime = 0\<rparr> \<lparr>redis_sid = ''s''\<rparr> ''n'') = Some 0 \<and>
   fst (redis_GetFloat \<lparr>Encode = (\<lambda>_. Inr [1]), Decode_bool = (\<lambda>_. Inl 0), Decode_string = (\<lambda>_. Inl 0), Decode_int64 = (\<lambda>_. Inr 7), Decode_float64 = (\<lambda>_. Inl 0), Decode_map = (\<lambda>_. Inl 0)\<rparr> \<lparr>wall_sec = 200, nsec = 0, zone_offset = 0\<rparr> \<lparr>redis_client = Some \<lparr>cmds = [], get_reply = (\<lambda>_. Inr []), status_reply = (\<lambda>_. None)\<rparr>, redis_namespace = ''ns'', redis_maxLifeTime = 0, redis_maxIdleTime = 0\<rparr> \<lparr>redis_sid = ''s''\<rparr> ''n'') = Some 0 \<and>
   redis_client \<lparr>redis_client = Some \<lparr>cmds = [], get_reply = (\<lambda>_. Inr [1]), status_reply = (\<lambda>_. None)\<rparr>, redis_namespace = ''ns'', redis_maxLifeTime = 0, redis_maxIdleTime = 0\<rparr> \<noteq> None \<and>
   fst (redis_GetInt \<lparr>Encode = (\<lambda>_. Inr [1]), Decode_bool = (\<lambda>_. Inl 0), Decode_string = (\<lambda>_. Inl 0), Decode_int64 = (\<lambda>_. Inr 7), Decode_float64 = (\<lambda>_. Inl 0), Decode_map = (\<lambda>_. Inl 0)\<rparr> \<lparr>wall_sec = 200, nsec = 0, zone_offset = 0\<rparr> \<lparr>redis_client = Some \<lparr>cmds = [], get_reply = (\<lambda>_. Inr [1]), status_reply = (\<lambda>_. None)\<rparr>, redis_namespace = ''ns'', redis_maxLifeTime = 0, redis_maxIdleTime = 0\<rparr> \<lparr>redis_sid = ''s''\<rparr> ''n'') = Some 7 \<and>
   fst (redis_GetBool \<lparr>Encode = (\<lambda>_. Inr [1]), Decode_bool = (\<lambda>_. Inl 0), Decode_string = (\<lambda>_. Inl 0), Decode_int64 = (\<lambda>_. Inr 7), Decode_float64 = (\<lambda>_. Inl 0), Decode_map = (\<lambda>_. Inl 0)\<rparr> \<lparr>wall_sec = 200, nsec = 0, zone_offset = 0\<rparr> \<lparr>redis_client = Some \<lparr>cmds = [], get_reply = (\<lambda>_. Inr [1]), status_reply = (\<lambda>_. None)\<rparr>, redis_namespace = ''ns'', redis_maxLifeTime = 0, redis_maxIdleTime = 0\<rparr> \<lparr>redis_sid = ''s''\<rparr> ''n'') = Some False"
proof -
  let ?conv = "(\<lambda>w. ucast w + 1) :: 32 word \<Rightarrow> int64"
  have k0: "st_value \<lparr>sqlite_sid = ''s'', timeAccessed = \<lparr>wall_sec = 100, nsec = 0, zone_offset = 0\<rparr>, timeCreated = \<lparr>wall_sec = 100, nsec = 0, zone_offset = 0\<rparr>, st_value = [''n'' \<mapsto> GInt 5, ''b'' \<mapsto> GBytes [104, 105], ''t'' \<mapsto> GBool True, ''x'' \<mapsto> GString ''v'', ''i'' \<mapsto> GInt64 7, ''f'' \<mapsto> GFloat64 9, ''w'' \<mapsto> GFloat32 3], valueModified = False\<rparr> ''absent'' = None"
    by simp
  have kt: "st_value \<lparr>sqlite_sid = ''s'', timeAccessed = \<lparr>wall_sec = 100, nsec = 0, zone_offset = 0\<rparr>, timeCreated = \<lparr>wall_sec = 100, nsec = 0, zone_offset = 0\<rparr>, st_value = [''n'' \<mapsto> GInt 5, ''b'' \<mapsto> GBytes [104, 105], ''t'' \<mapsto> GBool True, ''x'' \<mapsto> GString ''v'', ''i'' \<mapsto> GInt64 7, ''f'' \<mapsto> GFloat64 9, ''w'' \<mapsto> GFloat32 3], valueModified = False\<rparr> ''t'' = Some (GBool True)"
    by simp
  have kx: "st_value \<lparr>sqlite_sid = ''s'', timeAccessed = \<lparr>wall_sec = 100, nsec = 0, zone_offset = 0\<rparr>, timeCreated = \<lparr>wall_sec = 100, nsec = 0, zone_offset = 0\<rparr>, st_value = [''n'' \<mapsto> GInt 5, ''b'' \<mapsto> GBytes [104, 105], ''t'' \<mapsto> GBool True, ''x'' \<mapsto> GString ''v'', ''i'' \<mapsto> GInt64 7, ''f'' \<mapsto> GFloat64 9, ''w'' \<mapsto> GFloat32 3], valueModified = False\<rparr> ''x'' = Some (GString ''v'')"
    by simp
  have kb: "st_value \<lparr>sqlite_sid = ''s'', timeAccessed = \<lparr>wall_sec = 100, nsec = 0, zone_offset = 0\<rparr>, timeCreated = \<lparr>wall_sec = 100, nsec = 0, zone_offset = 0\<rparr>, st_value = [''n'' \<mapsto> GInt 5, ''b'' \<mapsto> GBytes [104, 105], ''t'' \<mapsto> GBool True, ''x'' \<mapsto> GString ''v'', ''i'' \<mapsto> GInt64 7, ''f'' \<mapsto> GFloat64 9, ''w'' \<mapsto> GFloat32 3], valueModified = False\<rparr> ''b'' = Some (GBytes [104, 105])"
    by simp
  have ki: "st_value \<lparr>sqlite_sid = ''s'', timeAccessed = \<lparr>wall_sec = 100, nsec = 0, zone_offset = 0\<rparr>, timeCreated = \<lparr>wall_sec = 100, nsec = 0, zone_offset = 0\<rparr>, st_value = [''n'' \<mapsto> GInt 5, ''b'' \<mapsto> GBytes [104, 105], ''t'' \<mapsto> GBool True, ''x'' \<mapsto> GString ''v'', ''i'' \<mapsto> GInt64 7, ''f'' \<mapsto> GFloat64 9, ''w'' \<mapsto> GFloat32 3], valueModified = False\<rparr> ''i'' = Some (GInt64 7)"
    by simp
  have kn: "st_value \<lparr>sqlite_sid = ''s'', timeAccessed = \<lparr>wall_sec = 100, nsec = 0, zone_offset = 0\<rparr>, timeCreated = \<lparr>wall_sec = 100, nsec = 0, zone_offset = 0\<rparr>, st_value = [''n'' \<mapsto> GInt 5, ''b'' \<mapsto> GBytes [104, 105], ''t'' \<mapsto> GBool True, ''x'' \<mapsto> GString ''v'', ''i'' \<mapsto> GInt64 7, ''f'' \<mapsto> GFloat64 9, ''w'' \<mapsto> GFloat32 3], valueModified = False\<rparr> ''n'' = Some (GInt 5)"
    by simp
  have kf: "st_value \<lparr>sqlite_sid = ''s'', timeAccessed = \<lparr>wall_sec = 100, nsec = 0, zone_offset = 0\<rparr>, timeCreated = \<lparr>wall_sec = 100, nsec = 0, zone_offset = 0\<rparr>, st_value = [''n'' \<mapsto> GInt 5, ''b'' \<mapsto> GBytes [104, 105], ''t'' \<mapsto> GBool True, ''x'' \<mapsto> GString ''v'', ''i'' \<mapsto> GInt64 7, ''f'' \<mapsto> GFloat64 9, ''w'' \<mapsto> GFloat32 3], valueModified = False\<rparr> ''f'' = Some (GFloat64 9)"
    by simp
  have kw: "st_value \<lparr>sqlite_sid = ''s'', timeAccessed = \<lparr>wall_sec = 100, nsec = 0, zone_offset = 0\<rparr>, timeCreated = \<lparr>wall_sec = 100, nsec = 0, zone_offset = 0\<rparr>, st_value = [''n'' \<mapsto> GInt 5, ''b'' \<mapsto> GBytes [104, 105], ''t'' \<mapsto> GBool True, ''x'' \<mapsto> GString ''v'', ''i'' \<mapsto> GInt64 7, ''f'' \<mapsto> GFloat64 9, ''w'' \<mapsto> GFloat32 3], valueModified = False\<rparr> ''w'' = Some (GFloat32 3)"
    by simp
  have tn: "TypeOf (GInt 5) \<noteq> Some TBool" "TypeOf (GInt 5) \<noteq> Some TString"
    "TypeOf (GInt 5) \<noteq> Some TBytes" "TypeOf (GInt 5) \<noteq> Some TFloat64"
    "TypeOf (GInt 5) \<noteq> Some TFloat32"
    by simp_all
  have tb: "TypeOf (GBytes [104, 105]) \<noteq> Some TInt64" "TypeOf (GBytes [104, 105]) \<noteq> Some TInt"
    by simp_all
  have re: "redis_client \<lparr>redis_client = Some \<lparr>cmds = [], get_reply = (\<lambda>_. Inr []), status_reply = (\<lambda>_. None)\<rparr>, redis_namespace = ''ns'', redis_maxLifeTime = 0, redis_maxIdleTime = 0\<rparr> \<noteq> None"
    by simp
  have rv: "redis_client \<lparr>redis_client = Some \<lparr>cmds = [], get_reply = (\<lambda>_. Inr [1]), status_reply = (\<lambda>_. None)\<rparr>, redis_namespace = ''ns'', redis_maxLifeTime = 0, redis_maxIdleTime = 0\<rparr> \<noteq> None"
    by simp
  have hi: "string_of_bytes [104, 105] = ''hi''"
    unfolding string_of_bytes_def by code_simp
  have cv: "?conv 3 = 4"
    by simp
  have touched: "\<lparr>sqlite_sid = ''s'', timeAccessed = \<lparr>wall_sec = 100, nsec = 0, zone_offset = 0\<rparr>, timeCreated = \<lparr>wall_sec = 100, nsec = 0, zone_offset = 0\<rparr>, st_value = [''n'' \<mapsto> GInt 5, ''b'' \<mapsto> GBytes [104, 105], ''t'' \<mapsto> GBool True, ''x'' \<mapsto> GString ''v'', ''i'' \<mapsto> GInt64 7, ''f'' \<mapsto> GFloat64 9, ''w'' \<mapsto> GFloat32 3], valueModified = False\<rparr>\<lparr>timeAccessed := \<lparr>wall_sec = 200, nsec = 0, zone_offset = 0\<rparr>\<rparr> = \<lparr>sqlite_sid = ''s'', timeAccessed = \<lparr>wall_sec = 200, nsec = 0, zone_offset = 0\<rparr>, timeCreated = \<lparr>wall_sec = 100, nsec = 0, zone_offset = 0\<rparr>, st_value = [''n'' \<mapsto> GInt 5, ''b'' \<mapsto> GBytes [104, 105], ''t'' \<mapsto> GBool True, ''x'' \<mapsto> GString ''v'', ''i'' \<mapsto> GInt64 7, ''f'' \<mapsto> GFloat64 9, ''w'' \<mapsto> GFloat32 3], valueModified = False\<rparr>"
    by simp
  have ge: "fst (redis_getValue \<lparr>Encode = (\<lambda>_. Inr [1]), Decode_bool = (\<lambda>_. Inl 0), Decode_string = (\<lambda>_. Inl 0), Decode_int64 = (\<lambda>_. Inr 7), Decode_float64 = (\<lambda>_. Inl 0), Decode_map = (\<lambda>_. Inl 0)\<rparr> dec \<lparr>wall_sec = 200, nsec = 0, zone_offset = 0\<rparr> \<lparr>redis_client = Some \<lparr>cmds = [], get_reply = (\<lambda>_. Inr []), status_reply = (\<lambda>_. None)\<rparr>, redis_namespace = ''ns'', redis_maxLifeTime = 0, redis_maxIdleTime = 0\<rparr> ''s'' ''n'') = Inl EKeyNotFound"
    for dec :: "byte list \<Rightarrow> nat + 'a"
    by (simp add: redis_getValue_def redis_getValueForKey_def redis_getPrefixedKey_def)
  have gv: "fst (redis_getValue \<lparr>Encode = (\<lambda>_. Inr [1]), Decode_bool = (\<lambda>_. Inl 0), Decode_string = (\<lambda>_. Inl 0), Decode_int64 = (\<lambda>_. Inr 7), Decode_float64 = (\<lambda>_. Inl 0), Decode_map = (\<lambda>_. Inl 0)\<rparr> (\<lambda>_. Inr 7) \<lparr>wall_sec = 200, nsec = 0, zone_offset = 0\<rparr> \<lparr>redis_client = Some \<lparr>cmds = [], get_reply = (\<lambda>_. Inr [1]), status_reply = (\<lambda>_. None)\<rparr>, redis_namespace = ''ns'', redis_maxLifeTime = 0, redis_maxIdleTime = 0\<rparr> ''s'' ''n'') = Inr (7 :: int64)"
    by (simp add: redis_getValue_def redis_getValueForKey_def redis_getPrefixedKey_def)
  have gb: "fst (redis_getValue \<lparr>Encode = (\<lambda>_. Inr [1]), Decode_bool = (\<lambda>_. Inl 0), Decode_string = (\<lambda>_. Inl 0), Decode_int64 = (\<lambda>_. Inr 7), Decode_float64 = (\<lambda>_. Inl 0), Decode_map = (\<lambda>_. Inl 0)\<rparr> (\<lambda>_. Inl 0) \<lparr>wall_sec = 200, nsec = 0, zone_offset = 0\<rparr> \<lparr>redis_client = Some \<lparr>cmds = [], get_reply = (\<lambda>_. Inr [1]), status_reply = (\<lambda>_. None)\<rparr>, redis_namespace = ''ns'', redis_maxLifeTime = 0, redis_maxIdleTime = 0\<rparr> ''s'' ''n'') =
      (Inl (ExternalError 0) :: error + bool)"
    by (simp add: redis_getValue_def redis_getValueForKey_def redis_getPrefixedKey_def)
  note u0 = typed_getters_value_or_zero [where st = "\<lparr>sqlite_sid = ''s'', timeAccessed = \<lparr>wall_sec = 100, nsec = 0, zone_offset = 0\<rparr>, timeCreated = \<lparr>wall_sec = 100, nsec = 0, zone_offset = 0\<rparr>, st_value = [''n'' \<mapsto> GInt 5, ''b'' \<mapsto> GBytes [104, 105], ''t'' \<mapsto> GBool True, ''x'' \<mapsto> GString ''v'', ''i'' \<mapsto> GInt64 7, ''f'' \<mapsto> GFloat64 9, ''w'' \<mapsto> GFloat32 3], valueModified = False\<rparr>" and key = "''absent''"
      and now = "\<lparr>wall_sec = 200, nsec = 0, zone_offset = 0\<rparr>" and conv = ?conv]
  note ut = typed_getters_value_or_zero [where st = "\<lparr>sqlite_sid = ''s'', timeAccessed = \<lparr>wall_sec = 100, nsec = 0, zone_offset = 0\<rparr>, timeCreated = \<lparr>wall_sec = 100, nsec = 0, zone_offset = 0\<rparr>, st_value = [''n'' \<mapsto> GInt 5, ''b'' \<mapsto> GBytes [104, 105], ''t'' \<mapsto> GBool True, ''x'' \<mapsto> GString ''v'', ''i'' \<mapsto> GInt64 7, ''f'' \<mapsto> GFloat64 9, ''w'' \<mapsto> GFloat32 3], valueModified = False\<rparr>" and key = "''t''"
      and now = "\<lparr>wall_sec = 200, nsec = 0, zone_offset = 0\<rparr>" and b = True]
  note ux = typed_getters_value_or_zero [where st = "\<lparr>sqlite_sid = ''s'', timeAccessed = \<lparr>wall_sec = 100, nsec = 0, zone_offset = 0\<rparr>, timeCreated = \<lparr>wall_sec = 100, nsec = 0, zone_offset = 0\<rparr>, st_value = [''n'' \<mapsto> GInt 5, ''b'' \<mapsto> GBytes [104, 105], ''t'' \<mapsto> GBool True, ''x'' \<mapsto> GString ''v'', ''i'' \<mapsto> GInt64 7, ''f'' \<mapsto> GFloat64 9, ''w'' \<mapsto> GFloat32 3], valueModified = False\<rparr>" and key = "''x''"
      and now = "\<lparr>wall_sec = 200, nsec = 0, zone_offset = 0\<rparr>" and s = "''v''"]
  note ub = typed_getters_value_or_zero [where st = "\<lparr>sqlite_sid = ''s'', timeAccessed = \<lparr>wall_sec = 100, nsec = 0, zone_offset = 0\<rparr>, timeCreated = \<lparr>wall_sec = 100, nsec = 0, zone_offset = 0\<rparr>, st_value = [''n'' \<mapsto> GInt 5, ''b'' \<mapsto> GBytes [104, 105], ''t'' \<mapsto> GBool True, ''x'' \<mapsto> GString ''v'', ''i'' \<mapsto> GInt64 7, ''f'' \<mapsto> GFloat64 9, ''w'' \<mapsto> GFloat32 3], valueModified = False\<rparr>" and key = "''b''"
      and now = "\<lparr>wall_sec = 200, nsec = 0, zone_offset = 0\<rparr>" and bs = "[104, 105]" and v = "GBytes [104, 105]"]
  note ui = typed_getters_value_or_zero [where st = "\<lparr>sqlite_sid = ''s'', timeAccessed = \<lparr>wall_sec = 100, nsec = 0, zone_offset = 0\<rparr>, timeCreated = \<lparr>wall_sec = 100, nsec = 0, zone_offset = 0\<rparr>, st_value = [''n'' \<mapsto> GInt 5, ''b'' \<mapsto> GBytes [104, 105], ''t'' \<mapsto> GBool True, ''x'' \<mapsto> GString ''v'', ''i'' \<mapsto> GInt64 7, ''f'' \<mapsto> GFloat64 9, ''w'' \<mapsto> GFloat32 3], valueModified = False\<rparr>" and key = "''i''"
      and now = "\<lparr>wall_sec = 200, nsec = 0, zone_offset = 0\<rparr>" and i = 7]
  note un = typed_getters_value_or_zero [where st = "\<lparr>sqlite_sid = ''s'', timeAccessed = \<lparr>wall_sec = 100, nsec = 0, zone_offset = 0\<rparr>, timeCreated = \<lparr>wall_sec = 100, nsec = 0, zone_offset = 0\<rparr>, st_value = [''n'' \<mapsto> GInt 5, ''b'' \<mapsto> GBytes [104, 105], ''t'' \<mapsto> GBool True, ''x'' \<mapsto> GString ''v'', ''i'' \<mapsto> GInt64 7, ''f'' \<mapsto> GFloat64 9, ''w'' \<mapsto> GFloat32 3], valueModified = False\<rparr>" and key = "''n''"
      and now = "\<lparr>wall_sec = 200, nsec = 0, zone_offset = 0\<rparr>" and i = 5 and v = "GInt 5" and conv = ?conv and g = "\<lparr>Encode = (\<lambda>_. Inr [1]), Decode_bool = (\<lambda>_. Inl 0), Decode_string = (\<lambda>_. Inl 0), Decode_int64 = (\<lambda>_. Inr 7), Decode_float64 = (\<lambda>_. Inl 0), Decode_map = (\<lambda>_. Inl 0)\<rparr>"
      and rp = "\<lparr>redis_client = Some \<lparr>cmds = [], get_reply = (\<lambda>_. Inr []), status_reply = (\<lambda>_. None)\<rparr>, redis_namespace = ''ns'', redis_maxLifeTime = 0, redis_maxIdleTime = 0\<rparr>" and rst = "\<lparr>redis_sid = ''s''\<rparr>"]
  note uf = typed_getters_value_or_zero [where st = "\<lparr>sqlite_sid = ''s'', timeAccessed = \<lparr>wall_sec = 100, nsec = 0, zone_offset = 0\<rparr>, timeCreated = \<lparr>wall_sec = 100, nsec = 0, zone_offset = 0\<rparr>, st_value = [''n'' \<mapsto> GInt 5, ''b'' \<mapsto> GBytes [104, 105], ''t'' \<mapsto> GBool True, ''x'' \<mapsto> GString ''v'', ''i'' \<mapsto> GInt64 7, ''f'' \<mapsto> GFloat64 9, ''w'' \<mapsto> GFloat32 3], valueModified = False\<rparr>" and key = "''f''"
      and now = "\<lparr>wall_sec = 200, nsec = 0, zone_offset = 0\<rparr>" and f = 9 and conv = ?conv]
  note uw = typed_getters_value_or_zero [where st = "\<lparr>sqlite_sid = ''s'', timeAccessed = \<lparr>wall_sec = 100, nsec = 0, zone_offset = 0\<rparr>, timeCreated = \<lparr>wall_sec = 100, nsec = 0, zone_offset = 0\<rparr>, st_value = [''n'' \<mapsto> GInt 5, ''b'' \<mapsto> GBytes [104, 105], ''t'' \<mapsto> GBool True, ''x'' \<mapsto> GString ''v'', ''i'' \<mapsto> GInt64 7, ''f'' \<mapsto> GFloat64 9, ''w'' \<mapsto> GFloat32 3], valueModified = False\<rparr>" and key = "''w''"
      and now = "\<lparr>wall_sec = 200, nsec = 0, zone_offset = 0\<rparr>" and w = 3 and conv = ?conv]
  note uv = typed_getters_value_or_zero [where key = "''n''" and now = "\<lparr>wall_sec = 200, nsec = 0, zone_offset = 0\<rparr>" and g = "\<lparr>Encode = (\<lambda>_. Inr [1]), Decode_bool = (\<lambda>_. Inl 0), Decode_string = (\<lambda>_. Inl 0), Decode_int64 = (\<lambda>_. Inr 7), Decode_float64 = (\<lambda>_. Inl 0), Decode_map = (\<lambda>_. Inl 0)\<rparr>"
      and rp = "\<lparr>redis_client = Some \<lparr>cmds = [], get_reply = (\<lambda>_. Inr [1]), status_reply = (\<lambda>_. None)\<rparr>, redis_namespace = ''ns'', redis_maxLifeTime = 0, redis_maxIdleTime = 0\<rparr>" and rst = "\<lparr>redis_sid = ''s''\<rparr>"]
  from u0 k0 have a: "sqlite_GetBool \<lparr>wall_sec = 200, nsec = 0, zone_offset = 0\<rparr> \<lparr>sqlite_sid = ''s'', timeAccessed = \<lparr>wall_sec = 100, nsec = 0, zone_offset = 0\<rparr>, timeCreated = \<lparr>wall_sec = 100, nsec = 0, zone_offset = 0\<rparr>, st_value = [''n'' \<mapsto> GInt 5, ''b'' \<mapsto> GBytes [104, 105], ''t'' \<mapsto> GBool True, ''x'' \<mapsto> GString ''v'', ''i'' \<mapsto> GInt64 7, ''f'' \<mapsto> GFloat64 9, ''w'' \<mapsto> GFloat32 3], valueModified = False\<rparr> ''absent'' = (False, \<lparr>sqlite_sid = ''s'', timeAccessed = \<lparr>wall_sec = 100, nsec = 0, zone_offset = 0\<rparr>, timeCreated = \<lparr>wall_sec = 100, nsec = 0, zone_offset = 0\<rparr>, st_value = [''n'' \<mapsto> GInt 5, ''b'' \<mapsto> GBytes [104, 105], ''t'' \<mapsto> GBool True, ''x'' \<mapsto> GString ''v'', ''i'' \<mapsto> GInt64 7, ''f'' \<mapsto> GFloat64 9, ''w'' \<mapsto> GFloat32 3], valueModified = False\<rparr>)"
    "sqlite_GetString \<lparr>wall_sec = 200, nsec = 0, zone_offset = 0\<rparr> \<lparr>sqlite_sid = ''s'', timeAccessed = \<lparr>wall_sec = 100, nsec = 0, zone_offset = 0\<rparr>, timeCreated = \<lparr>wall_sec = 100, nsec = 0, zone_offset = 0\<rparr>, st_value = [''n'' \<mapsto> GInt 5, ''b'' \<mapsto> GBytes [104, 105], ''t'' \<mapsto> GBool True, ''x'' \<mapsto> GString ''v'', ''i'' \<mapsto> GInt64 7, ''f'' \<mapsto> GFloat64 9, ''w'' \<mapsto> GFloat32 3], valueModified = False\<rparr> ''absent'' = ([], \<lparr>sqlite_sid = ''s'', timeAccessed = \<lparr>wall_sec = 100, nsec = 0, zone_offset = 0\<rparr>, timeCreated = \<lparr>wall_sec = 100, nsec = 0, zone_offset = 0\<rparr>, st_value = [''n'' \<mapsto> GInt 5, ''b'' \<mapsto> GBytes [104, 105], ''t'' \<mapsto> GBool True, ''x'' \<mapsto> GString ''v'', ''i'' \<mapsto> GInt64 7, ''f'' \<mapsto> GFloat64 9, ''w'' \<mapsto> GFloat32 3], valueModified = False\<rparr>)"
    "sqlite_GetInt \<lparr>wall_sec = 200, nsec = 0, zone_offset = 0\<rparr> \<lparr>sqlite_sid = ''s'', timeAccessed = \<lparr>wall_sec = 100, nsec = 0, zone_offset = 0\<rparr>, timeCreated = \<lparr>wall_sec = 100, nsec = 0, zone_offset = 0\<rparr>, st_value = [''n'' \<mapsto> GInt 5, ''b'' \<mapsto> GBytes [104, 105], ''t'' \<mapsto> GBool True, ''x'' \<mapsto> GString ''v'', ''i'' \<mapsto> GInt64 7, ''f'' \<mapsto> GFloat64 9, ''w'' \<mapsto> GFloat32 3], valueModified = False\<rparr> ''absent'' = (0, \<lparr>sqlite_sid = ''s'', timeAccessed = \<lparr>wall_sec = 100, nsec = 0, zone_offset = 0\<rparr>, timeCreated = \<lparr>wall_sec = 100, nsec = 0, zone_offset = 0\<rparr>, st_value = [''n'' \<mapsto> GInt 5, ''b'' \<mapsto> GBytes [104, 105], ''t'' \<mapsto> GBool True, ''x'' \<mapsto> GString ''v'', ''i'' \<mapsto> GInt64 7, ''f'' \<mapsto> GFloat64 9, ''w'' \<mapsto> GFloat32 3], valueModified = False\<rparr>)"
    "sqlite_GetFloat ?conv \<lparr>wall_sec = 200, nsec = 0, zone_offset = 0\<rparr> \<lparr>sqlite_sid = ''s'', timeAccessed = \<lparr>wall_sec = 100, nsec = 0, zone_offset = 0\<rparr>, timeCreated = \<lparr>wall_sec = 100, nsec = 0, zone_offset = 0\<rparr>, st_value = [''n'' \<mapsto> GInt 5, ''b'' \<mapsto> GBytes [104, 105], ''t'' \<mapsto> GBool True, ''x'' \<mapsto> GString ''v'', ''i'' \<mapsto> GInt64 7, ''f'' \<mapsto> GFloat64 9, ''w'' \<mapsto> GFloat32 3], valueModified = False\<rparr> ''absent'' = (0, \<lparr>sqlite_sid = ''s'', timeAccessed = \<lparr>wall_sec = 100, nsec = 0, zone_offset = 0\<rparr>, timeCreated = \<lparr>wall_sec = 100, nsec = 0, zone_offset = 0\<rparr>, st_value = [''n'' \<mapsto> GInt 5, ''b'' \<mapsto> GBytes [104, 105], ''t'' \<mapsto> GBool True, ''x'' \<mapsto> GString ''v'', ''i'' \<mapsto> GInt64 7, ''f'' \<mapsto> GFloat64 9, ''w'' \<mapsto> GFloat32 3], valueModified = False\<rparr>)"
    by blast+
  from ut kt have b: "sqlite_GetBool \<lparr>wall_sec = 200, nsec = 0, zone_offset = 0\<rparr> \<lparr>sqlite_sid = ''s'', timeAccessed = \<lparr>wall_sec = 100, nsec = 0, zone_offset = 0\<rparr>, timeCreated = \<lparr>wall_sec = 100, nsec = 0, zone_offset = 0\<rparr>, st_value = [''n'' \<mapsto> GInt 5, ''b'' \<mapsto> GBytes [104, 105], ''t'' \<mapsto> GBool True, ''x'' \<mapsto> GString ''v'', ''i'' \<mapsto> GInt64 7, ''f'' \<mapsto> GFloat64 9, ''w'' \<mapsto> GFloat32 3], valueModified = False\<rparr> ''t'' = (True, \<lparr>sqlite_sid = ''s'', timeAccessed = \<lparr>wall_sec = 200, nsec = 0, zone_offset = 0\<rparr>, timeCreated = \<lparr>wall_sec = 100, nsec = 0, zone_offset = 0\<rparr>, st_value = [''n'' \<mapsto> GInt 5, ''b'' \<mapsto> GBytes [104, 105], ''t'' \<mapsto> GBool True, ''x'' \<mapsto> GString ''v'', ''i'' \<mapsto> GInt64 7, ''f'' \<mapsto> GFloat64 9, ''w'' \<mapsto> GFloat32 3], valueModified = False\<rparr>)"
    unfolding touched by blast
  from ux kx have c: "sqlite_GetString \<lparr>wall_sec = 200, nsec = 0, zone_offset = 0\<rparr> \<lparr>sqlite_sid = ''s'', timeAccessed = \<lparr>wall_sec = 100, nsec = 0, zone_offset = 0\<rparr>, timeCreated = \<lparr>wall_sec = 100, nsec = 0, zone_offset = 0\<rparr>, st_value = [''n'' \<mapsto> GInt 5, ''b'' \<mapsto> GBytes [104, 105], ''t'' \<mapsto> GBool True, ''x'' \<mapsto> GString ''v'', ''i'' \<mapsto> GInt64 7, ''f'' \<mapsto> GFloat64 9, ''w'' \<mapsto> GFloat32 3], valueModified = False\<rparr> ''x'' = (''v'', \<lparr>sqlite_sid = ''s'', timeAccessed = \<lparr>wall_sec = 200, nsec = 0, zone_offset = 0\<rparr>, timeCreated = \<lparr>wall_sec = 100, nsec = 0, zone_offset = 0\<rparr>, st_value = [''n'' \<mapsto> GInt 5, ''b'' \<mapsto> GBytes [104, 105], ''t'' \<mapsto> GBool True, ''x'' \<mapsto> GString ''v'', ''i'' \<mapsto> GInt64 7, ''f'' \<mapsto> GFloat64 9, ''w'' \<mapsto> GFloat32 3], valueModified = False\<rparr>)"
    unfolding touched by blast
  from ub kb have d: "sqlite_GetString \<lparr>wall_sec = 200, nsec = 0, zone_offset = 0\<rparr> \<lparr>sqlite_sid = ''s'', timeAccessed = \<lparr>wall_sec = 100, nsec = 0, zone_offset = 0\<rparr>, timeCreated = \<lparr>wall_sec = 100, nsec = 0, zone_offset = 0\<rparr>, st_value = [''n'' \<mapsto> GInt 5, ''b'' \<mapsto> GBytes [104, 105], ''t'' \<mapsto> GBool True, ''x'' \<mapsto> GString ''v'', ''i'' \<mapsto> GInt64 7, ''f'' \<mapsto> GFloat64 9, ''w'' \<mapsto> GFloat32 3], valueModified = False\<rparr> ''b'' = (''hi'', \<lparr>sqlite_sid = ''s'', timeAccessed = \<lparr>wall_sec = 200, nsec = 0, zone_offset = 0\<rparr>, timeCreated = \<lparr>wall_sec = 100, nsec = 0, zone_offset = 0\<rparr>, st_value = [''n'' \<mapsto> GInt 5, ''b'' \<mapsto> GBytes [104, 105], ''t'' \<mapsto> GBool True, ''x'' \<mapsto> GString ''v'', ''i'' \<mapsto> GInt64 7, ''f'' \<mapsto> GFloat64 9, ''w'' \<mapsto> GFloat32 3], valueModified = False\<rparr>)"
    unfolding touched hi by blast
  from ui ki have e: "sqlite_GetInt \<lparr>wall_sec = 200, nsec = 0, zone_offset = 0\<rparr> \<lparr>sqlite_sid = ''s'', timeAccessed = \<lparr>wall_sec = 100, nsec = 0, zone_offset = 0\<rparr>, timeCreated = \<lparr>wall_sec = 100, nsec = 0, zone_offset = 0\<rparr>, st_value = [''n'' \<mapsto> GInt 5, ''b'' \<mapsto> GBytes [104, 105], ''t'' \<mapsto> GBool True, ''x'' \<mapsto> GString ''v'', ''i'' \<mapsto> GInt64 7, ''f'' \<mapsto> GFloat64 9, ''w'' \<mapsto> GFloat32 3], valueModified = False\<rparr> ''i'' = (7, \<lparr>sqlite_sid = ''s'', timeAccessed = \<lparr>wall_sec = 200, nsec = 0, zone_offset = 0\<rparr>, timeCreated = \<lparr>wall_sec = 100, nsec = 0, zone_offset = 0\<rparr>, st_value = [''n'' \<mapsto> GInt 5, ''b'' \<mapsto> GBytes [104, 105], ''t'' \<mapsto> GBool True, ''x'' \<mapsto> GString ''v'', ''i'' \<mapsto> GInt64 7, ''f'' \<mapsto> GFloat64 9, ''w'' \<mapsto> GFloat32 3], valueModified = False\<rparr>)"
    unfolding touched by blast
  from un kn have f: "sqlite_GetInt \<lparr>wall_sec = 200, nsec = 0, zone_offset = 0\<rparr> \<lparr>sqlite_sid = ''s'', timeAccessed = \<lparr>wall_sec = 100, nsec = 0, zone_offset = 0\<rparr>, timeCreated = \<lparr>wall_sec = 100, nsec = 0, zone_offset = 0\<rparr>, st_value = [''n'' \<mapsto> GInt 5, ''b'' \<mapsto> GBytes [104, 105], ''t'' \<mapsto> GBool True, ''x'' \<mapsto> GString ''v'', ''i'' \<mapsto> GInt64 7, ''f'' \<mapsto> GFloat64 9, ''w'' \<mapsto> GFloat32 3], valueModified = False\<rparr> ''n'' = (5, \<lparr>sqlite_sid = ''s'', timeAccessed = \<lparr>wall_sec = 200, nsec = 0, zone_offset = 0\<rparr>, timeCreated = \<lparr>wall_sec = 100, nsec = 0, zone_offset = 0\<rparr>, st_value = [''n'' \<mapsto> GInt 5, ''b'' \<mapsto> GBytes [104, 105], ''t'' \<mapsto> GBool True, ''x'' \<mapsto> GString ''v'', ''i'' \<mapsto> GInt64 7, ''f'' \<mapsto> GFloat64 9, ''w'' \<mapsto> GFloat32 3], valueModified = False\<rparr>)"
    unfolding touched by blast
  from uf kf have g: "sqlite_GetFloat ?conv \<lparr>wall_sec = 200, nsec = 0, zone_offset = 0\<rparr> \<lparr>sqlite_sid = ''s'', timeAccessed = \<lparr>wall_sec = 100, nsec = 0, zone_offset = 0\<rparr>, timeCreated = \<lparr>wall_sec = 100, nsec = 0, zone_offset = 0\<rparr>, st_value = [''n'' \<mapsto> GInt 5, ''b'' \<mapsto> GBytes [104, 105], ''t'' \<mapsto> GBool True, ''x'' \<mapsto> GString ''v'', ''i'' \<mapsto> GInt64 7, ''f'' \<mapsto> GFloat64 9, ''w'' \<mapsto> GFloat32 3], valueModified = False\<rparr> ''f'' = (9, \<lparr>sqlite_sid = ''s'', timeAccessed = \<lparr>wall_sec = 200, nsec = 0, zone_offset = 0\<rparr>, timeCreated = \<lparr>wall_sec = 100, nsec = 0, zone_offset = 0\<rparr>, st_value = [''n'' \<mapsto> GInt 5, ''b'' \<mapsto> GBytes [104, 105], ''t'' \<mapsto> GBool True, ''x'' \<mapsto> GString ''v'', ''i'' \<mapsto> GInt64 7, ''f'' \<mapsto> GFloat64 9, ''w'' \<mapsto> GFloat32 3], valueModified = False\<rparr>)"
    unfolding touched by blast
  from uw kw have h: "sqlite_GetFloat ?conv \<lparr>wall_sec = 200, nsec = 0, zone_offset = 0\<rparr> \<lparr>sqlite_sid = ''s'', timeAccessed = \<lparr>wall_sec = 100, nsec = 0, zone_offset = 0\<rparr>, timeCreated = \<lparr>wall_sec = 100, nsec = 0, zone_offset = 0\<rparr>, st_value = [''n'' \<mapsto> GInt 5, ''b'' \<mapsto> GBytes [104, 105], ''t'' \<mapsto> GBool True, ''x'' \<mapsto> GString ''v'', ''i'' \<mapsto> GInt64 7, ''f'' \<mapsto> GFloat64 9, ''w'' \<mapsto> GFloat32 3], valueModified = False\<rparr> ''w'' = (4, \<lparr>sqlite_sid = ''s'', timeAccessed = \<lparr>wall_sec = 200, nsec = 0, zone_offset = 0\<rparr>, timeCreated = \<lparr>wall_sec = 100, nsec = 0, zone_offset = 0\<rparr>, st_value = [''n'' \<mapsto> GInt 5, ''b'' \<mapsto> GBytes [104, 105], ''t'' \<mapsto> GBool True, ''x'' \<mapsto> GString ''v'', ''i'' \<mapsto> GInt64 7, ''f'' \<mapsto> GFloat64 9, ''w'' \<mapsto> GFloat32 3], valueModified = False\<rparr>)"
    unfolding touched cv by blast
  from un kn tn have i: "sqlite_GetBool \<lparr>wall_sec = 200, nsec = 0, zone_offset = 0\<rparr> \<lparr>sqlite_sid = ''s'', timeAccessed = \<lparr>wall_sec = 100, nsec = 0, zone_offset = 0\<rparr>, timeCreated = \<lparr>wall_sec = 100, nsec = 0, zone_offset = 0\<rparr>, st_value = [''n'' \<mapsto> GInt 5, ''b'' \<mapsto> GBytes [104, 105], ''t'' \<mapsto> GBool True, ''x'' \<mapsto> GString ''v'', ''i'' \<mapsto> GInt64 7, ''f'' \<mapsto> GFloat64 9, ''w'' \<mapsto> GFloat32 3], valueModified = False\<rparr> ''n'' = (False, \<lparr>sqlite_sid = ''s'', timeAccessed = \<lparr>wall_sec = 200, nsec = 0, zone_offset = 0\<rparr>, timeCreated = \<lparr>wall_sec = 100, nsec = 0, zone_offset = 0\<rparr>, st_value = [''n'' \<mapsto> GInt 5, ''b'' \<mapsto> GBytes [104, 105], ''t'' \<mapsto> GBool True, ''x'' \<mapsto> GString ''v'', ''i'' \<mapsto> GInt64 7, ''f'' \<mapsto> GFloat64 9, ''w'' \<mapsto> GFloat32 3], valueModified = False\<rparr>)"
    "sqlite_GetString \<lparr>wall_sec = 200, nsec = 0, zone_offset = 0\<rparr> \<lparr>sqlite_sid = ''s'', timeAccessed = \<lparr>wall_sec = 100, nsec = 0, zone_offset = 0\<rparr>, timeCreated = \<lparr>wall_sec = 100, nsec = 0, zone_offset = 0\<rparr>, st_value = [''n'' \<mapsto> GInt 5, ''b'' \<mapsto> GBytes [104, 105], ''t'' \<mapsto> GBool True, ''x'' \<mapsto> GString ''v'', ''i'' \<mapsto> GInt64 7, ''f'' \<mapsto> GFloat64 9, ''w'' \<mapsto> GFloat32 3], valueModified = False\<rparr> ''n'' = ([], \<lparr>sqlite_sid = ''s'', timeAccessed = \<lparr>wall_sec = 200, nsec = 0, zone_offset = 0\<rparr>, timeCreated = \<lparr>wall_sec = 100, nsec = 0, zone_offset = 0\<rparr>, st_value = [''n'' \<mapsto> GInt 5, ''b'' \<mapsto> GBytes [104, 105], ''t'' \<mapsto> GBool True, ''x'' \<mapsto> GString ''v'', ''i'' \<mapsto> GInt64 7, ''f'' \<mapsto> GFloat64 9, ''w'' \<mapsto> GFloat32 3], valueModified = False\<rparr>)"
    "sqlite_GetFloat ?conv \<lparr>wall_sec = 200, nsec = 0, zone_offset = 0\<rparr> \<lparr>sqlite_sid = ''s'', timeAccessed = \<lparr>wall_sec = 100, nsec = 0, zone_offset = 0\<rparr>, timeCreated = \<lparr>wall_sec = 100, nsec = 0, zone_offset = 0\<rparr>, st_value = [''n'' \<mapsto> GInt 5, ''b'' \<mapsto> GBytes [104, 105], ''t'' \<mapsto> GBool True, ''x'' \<mapsto> GString ''v'', ''i'' \<mapsto> GInt64 7, ''f'' \<mapsto> GFloat64 9, ''w'' \<mapsto> GFloat32 3], valueModified = False\<rparr> ''n'' = (0, \<lparr>sqlite_sid = ''s'', timeAccessed = \<lparr>wall_sec = 200, nsec = 0, zone_offset = 0\<rparr>, timeCreated = \<lparr>wall_sec = 100, nsec = 0, zone_offset = 0\<rparr>, st_value = [''n'' \<mapsto> GInt 5, ''b'' \<mapsto> GBytes [104, 105], ''t'' \<mapsto> GBool True, ''x'' \<mapsto> GString ''v'', ''i'' \<mapsto> GInt64 7, ''f'' \<mapsto> GFloat64 9, ''w'' \<mapsto> GFloat32 3], valueModified = False\<rparr>)"
    unfolding touched by blast+
  from ub kb tb have j: "sqlite_GetInt \<lparr>wall_sec = 200, nsec = 0, zone_offset = 0\<rparr> \<lparr>sqlite_sid = ''s'', timeAccessed = \<lparr>wall_sec = 100, nsec = 0, zone_offset = 0\<rparr>, timeCreated = \<lparr>wall_sec = 100, nsec = 0, zone_offset = 0\<rparr>, st_value = [''n'' \<mapsto> GInt 5, ''b'' \<mapsto> GBytes [104, 105], ''t'' \<mapsto> GBool True, ''x'' \<mapsto> GString ''v'', ''i'' \<mapsto> GInt64 7, ''f'' \<mapsto> GFloat64 9, ''w'' \<mapsto> GFloat32 3], valueModified = False\<rparr> ''b'' = (0, \<lparr>sqlite_sid = ''s'', timeAccessed = \<lparr>wall_sec = 200, nsec = 0, zone_offset = 0\<rparr>, timeCreated = \<lparr>wall_sec = 100, nsec = 0, zone_offset = 0\<rparr>, st_value = [''n'' \<mapsto> GInt 5, ''b'' \<mapsto> GBytes [104, 105], ''t'' \<mapsto> GBool True, ''x'' \<mapsto> GString ''v'', ''i'' \<mapsto> GInt64 7, ''f'' \<mapsto> GFloat64 9, ''w'' \<mapsto> GFloat32 3], valueModified = False\<rparr>)"
    unfolding touched by blast
  from un re have k: "fst (redis_GetBool \<lparr>Encode = (\<lambda>_. Inr [1]), Decode_bool = (\<lambda>_. Inl 0), Decode_string = (\<lambda>_. Inl 0), Decode_int64 = (\<lambda>_. Inr 7), Decode_float64 = (\<lambda>_. Inl 0), Decode_map = (\<lambda>_. Inl 0)\<rparr> \<lparr>wall_sec = 200, nsec = 0, zone_offset = 0\<rparr> \<lparr>redis_client = Some \<lparr>cmds = [], get_reply = (\<lambda>_. Inr []), status_reply = (\<lambda>_. None)\<rparr>, redis_namespace = ''ns'', redis_maxLifeTime = 0, redis_maxIdleTime = 0\<rparr> \<lparr>redis_sid = ''s''\<rparr> ''n'') = Some False"
    "fst (redis_GetString \<lparr>Encode = (\<lambda>_. Inr [1]), Decode_bool = (\<lambda>_. Inl 0), Decode_string = (\<lambda>_. Inl 0), Decode_int64 = (\<lambda>_. Inr 7), Decode_float64 = (\<lambda>_. Inl 0), Decode_map = (\<lambda>_. Inl 0)\<rparr> \<lparr>wall_sec = 200, nsec = 0, zone_offset = 0\<rparr> \<lparr>redis_client = Some \<lparr>cmds = [], get_reply = (\<lambda>_. Inr []), status_reply = (\<lambda>_. None)\<rparr>, redis_namespace = ''ns'', redis_maxLifeTime = 0, redis_maxIdleTime = 0\<rparr> \<lparr>redis_sid = ''s''\<rparr> ''n'') = Some []"
    "fst (redis_GetInt \<lparr>Encode = (\<lambda>_. Inr [1]), Decode_bool = (\<lambda>_. Inl 0), Decode_string = (\<lambda>_. Inl 0), Decode_int64 = (\<lambda>_. Inr 7), Decode_float64 = (\<lambda>_. Inl 0), Decode_map = (\<lambda>_. Inl 0)\<rparr> \<lparr>wall_sec = 200, nsec = 0, zone_offset = 0\<rparr> \<lparr>redis_client = Some \<lparr>cmds = [], get_reply = (\<lambda>_. Inr []), status_reply = (\<lambda>_. None)\<rparr>, redis_namespace = ''ns'', redis_maxLifeTime = 0, redis_maxIdleTime = 0\<rparr> \<lparr>redis_sid = ''s''\<rparr> ''n'') = Some 0"
    "fst (redis_GetFloat \<lparr>Encode = (\<lambda>_. Inr [1]), Decode_bool = (\<lambda>_. Inl 0), Decode_string = (\<lambda>_. Inl 0), Decode_int64 = (\<lambda>_. Inr 7), Decode_float64 = (\<lambda>_. Inl 0), Decode_map = (\<lambda>_. Inl 0)\<rparr> \<lparr>wall_sec = 200, nsec = 0, zone_offset = 0\<rparr> \<lparr>redis_client = Some \<lparr>cmds = [], get_reply = (\<lambda>_. Inr []), status_reply = (\<lambda>_. None)\<rparr>, redis_namespace = ''ns'', redis_maxLifeTime = 0, redis_maxIdleTime = 0\<rparr> \<lparr>redis_sid = ''s''\<rparr> ''n'') = Some 0"
    by (simp_all add: ge)
  from uv rv have l: "fst (redis_GetInt \<lparr>Encode = (\<lambda>_. Inr [1]), Decode_bool = (\<lambda>_. Inl 0), Decode_string = (\<lambda>_. Inl 0), Decode_int64 = (\<lambda>_. Inr 7), Decode_float64 = (\<lambda>_. Inl 0), Decode_map = (\<lambda>_. Inl 0)\<rparr> \<lparr>wall_sec = 200, nsec = 0, zone_offset = 0\<rparr> \<lparr>redis_client = Some \<lparr>cmds = [], get_reply = (\<lambda>_. Inr [1]), status_reply = (\<lambda>_. None)\<rparr>, redis_namespace = ''ns'', redis_maxLifeTime = 0, redis_maxIdleTime = 0\<rparr> \<lparr>redis_sid = ''s''\<rparr> ''n'') = Some 7"
    "fst (redis_GetBool \<lparr>Encode = (\<lambda>_. Inr [1]), Decode_bool = (\<lambda>_. Inl 0), Decode_string = (\<lambda>_. Inl 0), Decode_int64 = (\<lambda>_. Inr 7), Decode_float64 = (\<lambda>_. Inl 0), Decode_map = (\<lambda>_. Inl 0)\<rparr> \<lparr>wall_sec = 200, nsec = 0, zone_offset = 0\<rparr> \<lparr>redis_client = Some \<lparr>cmds = [], get_reply = (\<lambda>_. Inr [1]), status_reply = (\<lambda>_. None)\<rparr>, redis_namespace = ''ns'', redis_maxLifeTime = 0, redis_maxIdleTime = 0\<rparr> \<lparr>redis_sid = ''s''\<rparr> ''n'') = Some False"
    by (simp_all add: gv gb)
  from k0 kt kx kb ki kn kf kw tn tb re rv a b c d e f g h i j k l show ?thesis
    by blast
qed

end
